(* ===== verification/Prelude.thy ===== *)
theory Prelude
  imports Complex_Main "HOL-Library.AList"
begin

text \<open>
  Shared vocabulary of the development: the result type that carries Python exceptions
  as values, sequencing of fallible computations, Python's \<open>round(x, 1)\<close> on exact
  rationals, and the list and arithmetic facts the component theories rely on.
\<close>

section \<open>Fact collections\<close>

named_theorems py_defs "definitions of the Python primitives, unfolded to run a call"
named_theorems score_defs "definitions of the scoring functions"
named_theorems result_simps "equations that decide the outcome of a fallible computation"

section \<open>Fallible computations\<close>

type_synonym ('e, 'a) result = "'e + 'a"

definition rbind :: "('e, 'a) result \<Rightarrow> ('a \<Rightarrow> ('e, 'b) result) \<Rightarrow> ('e, 'b) result" where
  "rbind m f = (case m of Inl e \<Rightarrow> Inl e | Inr x \<Rightarrow> f x)"

fun rmap :: "('a \<Rightarrow> ('e, 'b) result) \<Rightarrow> 'a list \<Rightarrow> ('e, 'b list) result" where
  "rmap f [] = Inr []"
| "rmap f (x # xs) = rbind (f x) (\<lambda>y. rbind (rmap f xs) (\<lambda>ys. Inr (y # ys)))"

definition succeeds :: "('e, 'a) result \<Rightarrow> bool" where
  "succeeds m = (case m of Inl e \<Rightarrow> False | Inr x \<Rightarrow> True)"

section \<open>Rounding\<close>

definition round_half_even :: "rat \<Rightarrow> int" where
  "round_half_even x =
     (let f = \<lfloor>x\<rfloor>; r = x - of_int f
      in if r < 1 / 2 then f else if 1 / 2 < r then f + 1 else if even f then f else f + 1)"

definition py_round1 :: "rat \<Rightarrow> rat" where
  "py_round1 x = of_int (round_half_even (x * 10)) / 10"

definition mean :: "int list \<Rightarrow> rat" where
  "mean xs = of_int (sum_list xs) / of_nat (length xs)"

section \<open>Lemmas\<close>

lemma rbind_Inl [simp]: "rbind (Inl e) f = Inl e"
  by (simp add: rbind_def)

lemma rbind_Inr [simp]: "rbind (Inr x) f = f x"
  by (simp add: rbind_def)

lemma rbind_return [simp]: "rbind m Inr = m"
  by (cases m) simp_all

lemma rbind_assoc: "rbind (rbind m f) g = rbind m (\<lambda>x. rbind (f x) g)"
  by (cases m) simp_all

lemma rbind_eq_Inr_iff [result_simps]:
  "rbind m f = Inr y \<longleftrightarrow> (\<exists>x. m = Inr x \<and> f x = Inr y)"
  by (cases m) simp_all

lemma rbind_eq_Inl_iff [result_simps]:
  "rbind m f = Inl e \<longleftrightarrow> m = Inl e \<or> (\<exists>x. m = Inr x \<and> f x = Inl e)"
  by (cases m) simp_all

lemma rbind_cong [fundef_cong]:
  "m = m' \<Longrightarrow> (\<And>x. m' = Inr x \<Longrightarrow> f x = f' x) \<Longrightarrow> rbind m f = rbind m' f'"
  by (cases m') simp_all

text \<open>
  The simplifier evaluates a sequence from the left: the continuation is looked at only
  once its argument is known, as for \<open>if\<close>.
\<close>

lemma rbind_weak_cong [cong]: "m = m' \<Longrightarrow> rbind m f = rbind m' f"
  by simp

lemma succeeds_simps [simp]: "succeeds (Inr x)" "\<not> succeeds (Inl e)"
  by (simp_all add: succeeds_def)

lemma succeeds_iff: "succeeds m \<longleftrightarrow> (\<exists>x. m = Inr x)"
  by (cases m) simp_all

lemma rmap_Inr_map:
  "(\<And>x. x \<in> set xs \<Longrightarrow> f x = Inr (g x)) \<Longrightarrow> rmap f xs = Inr (map g xs)"
  by (induction xs) simp_all

lemma rmap_total [simp]: "rmap (\<lambda>x. Inr (g x)) xs = Inr (map g xs)"
  by (rule rmap_Inr_map) simp

lemma rmap_length: "rmap f xs = Inr ys \<Longrightarrow> length ys = length xs"
  by (induction xs arbitrary: ys) (auto simp: result_simps)

lemma rmap_Inr_iff:
  "rmap f xs = Inr ys \<longleftrightarrow> length ys = length xs \<and> (\<forall>i < length xs. f (xs ! i) = Inr (ys ! i))"
proof (induction xs arbitrary: ys)
  case Nil
  then show ?case by auto
next
  case (Cons x xs)
  show ?case
  proof (cases ys)
    case Nil
    then show ?thesis by (auto simp: result_simps)
  next
    case (Cons y ys')
    then show ?thesis
      by (auto simp: result_simps Cons.IH All_less_Suc2 nth_Cons split: nat.splits)
  qed
qed

lemma rmap_first_error:
  "rmap f (xs @ x # ys) = Inl e" if "rmap f xs = Inr zs" "f x = Inl e"
  using that by (induction xs arbitrary: zs) (auto simp: result_simps)

lemma rmap_append:
  "rmap f (xs @ ys) = rbind (rmap f xs) (\<lambda>as. rbind (rmap f ys) (\<lambda>bs. Inr (as @ bs)))"
proof (induction xs)
  case Nil
  show ?case by (cases "rmap f ys") simp_all
next
  case (Cons x xs)
  show ?case
    by (cases "f x"; cases "rmap f xs"; cases "rmap f ys") (simp_all add: Cons.IH)
qed

text \<open>Floors of numeral quotients, so that closed scores evaluate by \<open>simp\<close>.\<close>

lemma floor_rat_divide_numeral [simp]:
  "\<lfloor>(numeral a :: rat) / numeral b\<rfloor> = numeral a div numeral b"
  by (metis floor_divide_of_int_eq of_int_numeral)

lemma floor_rat_minus_divide_numeral [simp]:
  "\<lfloor>- (numeral a :: rat) / numeral b\<rfloor> = - numeral a div numeral b"
  by (metis floor_divide_of_int_eq of_int_numeral of_int_minus)

lemma round_half_even_of_int [simp]: "round_half_even (of_int n) = n"
  by (simp add: round_half_even_def)

lemma round_half_even_floor: "\<lfloor>x\<rfloor> \<le> round_half_even x" "round_half_even x \<le> \<lfloor>x\<rfloor> + 1"
  by (simp_all add: round_half_even_def Let_def)

lemma round_half_even_ge: "of_int a \<le> x \<Longrightarrow> a \<le> round_half_even x"
  using round_half_even_floor(1) [of x] by (simp add: le_floor_iff [symmetric])

lemma round_half_even_le:
  assumes le: "x \<le> of_int b"
  shows "round_half_even x \<le> b"
proof (cases "x = of_int \<lfloor>x\<rfloor>")
  case True
  then have "round_half_even x = \<lfloor>x\<rfloor>"
    by (metis round_half_even_of_int)
  with le show ?thesis by (simp add: floor_le_iff)
next
  case False
  then have "of_int \<lfloor>x\<rfloor> < x"
    by (metis of_int_floor_le order_le_imp_less_or_eq)
  with le have "of_int \<lfloor>x\<rfloor> < (of_int b :: rat)" by linarith
  then have "\<lfloor>x\<rfloor> + 1 \<le> b" by simp
  with round_half_even_floor(2) [of x] show ?thesis by linarith
qed

lemma round_half_even_mono:
  assumes "x \<le> y"
  shows "round_half_even x \<le> round_half_even y"
proof (cases "\<lfloor>x\<rfloor> = \<lfloor>y\<rfloor>")
  case True
  with assms show ?thesis by (auto simp: round_half_even_def Let_def)
next
  case False
  with assms have "\<lfloor>x\<rfloor> + 1 \<le> \<lfloor>y\<rfloor>" using floor_mono [of x y] by linarith
  with round_half_even_floor(2) [of x] round_half_even_floor(1) [of y] show ?thesis by linarith
qed

lemma round_half_even_error: "\<bar>of_int (round_half_even x) - x\<bar> \<le> 1 / 2"
proof -
  define r where "r = x - of_int \<lfloor>x\<rfloor>"
  have r: "0 \<le> r" "r < 1" unfolding r_def by linarith+
  have "of_int (round_half_even x) - x = (if r < 1 / 2 then - r else if 1 / 2 < r then 1 - r
      else if even \<lfloor>x\<rfloor> then - r else 1 - r)"
    by (simp add: round_half_even_def Let_def r_def)
  with r show ?thesis by (simp add: abs_if split: if_splits)
qed

lemma py_round1_ge: "of_int a / 10 \<le> x \<Longrightarrow> of_int a / 10 \<le> py_round1 x"
  unfolding py_round1_def using round_half_even_ge [of a "x * 10"] by (simp add: field_simps)

lemma py_round1_le: "x \<le> of_int b / 10 \<Longrightarrow> py_round1 x \<le> of_int b / 10"
  unfolding py_round1_def using round_half_even_le [of "x * 10" b] by (simp add: field_simps)

lemma py_round1_of_int [simp]: "py_round1 (of_int n) = of_int n"
proof -
  have "round_half_even (of_int n * 10) = n * 10"
    using round_half_even_of_int [of "n * 10"] by simp
  then show ?thesis by (simp add: py_round1_def)
qed

lemma py_round1_error: "\<bar>py_round1 x - x\<bar> \<le> 1 / 20"
  using round_half_even_error [of "x * 10"] by (simp add: py_round1_def field_simps abs_if split: if_splits)

text \<open>Ties go to the even neighbour, as Python 3 rounds: 12.25 to 12.2, 12.35 to 12.4.\<close>

lemma py_round1_examples:
  "py_round1 (245 / 20) = 122 / 10" "py_round1 (247 / 20) = 124 / 10" "py_round1 (100 / 3) = 333 / 10"
  by (simp_all add: py_round1_def round_half_even_def)

section \<open>Sums and means of bounded lists\<close>

lemma sum_list_bounds:
  fixes f :: "'a \<Rightarrow> int"
  assumes "\<And>x. x \<in> set xs \<Longrightarrow> lo \<le> f x \<and> f x \<le> hi"
  shows "lo * int (length xs) \<le> sum_list (map f xs) \<and> sum_list (map f xs) \<le> hi * int (length xs)"
  using assms by (induction xs) (auto simp: algebra_simps add_mono)

lemma mean_bounds:
  assumes "xs \<noteq> []" and "\<And>x. x \<in> set xs \<Longrightarrow> lo \<le> x \<and> x \<le> hi"
  shows "of_int lo \<le> mean xs \<and> mean xs \<le> of_int hi"
proof -
  let ?n = "int (length xs)"
  have n: "0 < ?n" using assms(1) by simp
  from sum_list_bounds [of xs lo "\<lambda>x. x" hi] assms(2)
  have "lo * ?n \<le> sum_list xs" "sum_list xs \<le> hi * ?n" by simp_all
  then have "(of_int (lo * ?n) :: rat) \<le> of_int (sum_list xs)" "(of_int (sum_list xs) :: rat) \<le> of_int (hi * ?n)"
    by (simp_all only: of_int_le_iff)
  with n show ?thesis by (simp add: mean_def field_simps)
qed

lemma mean_replicate: "0 < n \<Longrightarrow> mean (replicate n x) = of_int x"
  by (simp add: mean_def sum_list_replicate)

section \<open>Lists\<close>

lemma list_all2_list_all:
  assumes "list_all2 P xs ys" "list_all Q ys" "\<And>x y. P x y \<Longrightarrow> Q y \<Longrightarrow> R y"
  shows "list_all R ys"
  using assms by (induction rule: list_all2_induct) auto

end
