(* ===== verification/PyValue.thy ===== *)
theory PyValue
  imports Prelude
begin

text \<open>
  The values the program computes with. Everything \<open>app.py\<close> handles is either decoded
  JSON (\<open>response.json()\<close>, \<open>json.loads\<close>), an environment variable or a string typed
  into the page, so one datatype of JSON-shaped Python values covers it. The operations
  are the Python primitives the source applies to such values (\<open>dict.get\<close>, subscripts,
  truthiness of \<open>if\<close>, comparison with an integer, iteration, \<open>len\<close>, item assignment,
  \<open>str\<close> inside an f-string), each with the exception it raises written as a result.
\<close>

section \<open>Exceptions and values\<close>

datatype pyerr =
    TypeError | KeyError string | AttributeError | ValueError | IndexError
  | RequestException | JSONDecodeError | GenerationError | StopIteration

datatype pyval =
    PNone | PBool bool | PInt int | PStr string
  | PList "pyval list" | PDict "(string \<times> pyval) list"

type_synonym pydict = "(string \<times> pyval) list"
type_synonym 'a py = "(pyerr, 'a) result"

section \<open>Primitives\<close>

fun truthy :: "pyval \<Rightarrow> bool" where
  "truthy PNone = False"
| "truthy (PBool b) = b"
| "truthy (PInt i) = (i \<noteq> 0)"
| "truthy (PStr s) = (s \<noteq> [])"
| "truthy (PList xs) = (xs \<noteq> [])"
| "truthy (PDict kvs) = (kvs \<noteq> [])"

definition dict_get :: "pydict \<Rightarrow> string \<Rightarrow> pyval \<Rightarrow> pyval" where
  "dict_get kvs k d = (case map_of kvs k of None \<Rightarrow> d | Some v \<Rightarrow> v)"

fun py_get :: "pyval \<Rightarrow> string \<Rightarrow> pyval \<Rightarrow> pyval py" where
  "py_get (PDict kvs) k d = Inr (dict_get kvs k d)"
| "py_get v k d = Inl AttributeError"

fun py_index :: "pyval \<Rightarrow> string \<Rightarrow> pyval py" where
  "py_index (PDict kvs) k = (case map_of kvs k of None \<Rightarrow> Inl (KeyError k) | Some v \<Rightarrow> Inr v)"
| "py_index v k = Inl TypeError"

fun py_setitem :: "pyval \<Rightarrow> string \<Rightarrow> pyval \<Rightarrow> pyval py" where
  "py_setitem (PDict kvs) k v = Inr (PDict (AList.update k v kvs))"
| "py_setitem d k v = Inl TypeError"

fun py_num :: "pyval \<Rightarrow> int py" where
  "py_num (PInt i) = Inr i"
| "py_num (PBool b) = Inr (if b then 1 else 0)"
| "py_num v = Inl TypeError"

definition py_gt :: "pyval \<Rightarrow> int \<Rightarrow> bool py" where
  "py_gt v n = rbind (py_num v) (\<lambda>i. Inr (n < i))"

definition py_lt :: "pyval \<Rightarrow> int \<Rightarrow> bool py" where
  "py_lt v n = rbind (py_num v) (\<lambda>i. Inr (i < n))"

fun py_eq_int :: "pyval \<Rightarrow> int \<Rightarrow> bool" where
  "py_eq_int (PInt i) n = (i = n)"
| "py_eq_int (PBool b) n = ((if b then 1 else 0) = n)"
| "py_eq_int v n = False"

fun py_iter :: "pyval \<Rightarrow> pyval list py" where
  "py_iter (PList xs) = Inr xs"
| "py_iter (PStr s) = Inr (map (\<lambda>c. PStr [c]) s)"
| "py_iter (PDict kvs) = Inr (map (\<lambda>kv. PStr (fst kv)) kvs)"
| "py_iter v = Inl TypeError"

fun py_len :: "pyval \<Rightarrow> nat py" where
  "py_len (PList xs) = Inr (length xs)"
| "py_len (PStr s) = Inr (length s)"
| "py_len (PDict kvs) = Inr (length kvs)"
| "py_len v = Inl TypeError"

fun py_keys :: "pyval \<Rightarrow> string list py" where
  "py_keys (PDict kvs) = Inr (map fst kvs)"
| "py_keys v = Inl AttributeError"

section \<open>Text of a value\<close>

text \<open>
  \<open>str(v)\<close>, as an f-string applies it: a string is itself, anything else is its
  \<open>repr\<close>. Characters are bytes here; \<open>repr\<close> escapes the quote, the backslash and the
  ASCII control characters and leaves every other byte as it is.
\<close>

definition digit_char :: "nat \<Rightarrow> char" where
  "digit_char d = (if d = 0 then CHR ''0'' else if d = 1 then CHR ''1'' else if d = 2 then CHR ''2''
     else if d = 3 then CHR ''3'' else if d = 4 then CHR ''4'' else if d = 5 then CHR ''5''
     else if d = 6 then CHR ''6'' else if d = 7 then CHR ''7'' else if d = 8 then CHR ''8''
     else CHR ''9'')"

fun digits :: "nat \<Rightarrow> string" where
  "digits n = (if n < 10 then [digit_char n] else digits (n div 10) @ [digit_char (n mod 10)])"

definition str_int :: "int \<Rightarrow> string" where
  "str_int i = (if i < 0 then CHR ''-'' # digits (nat (- i)) else digits (nat i))"

definition hex_char :: "nat \<Rightarrow> char" where
  "hex_char d = (if d < 10 then digit_char d else if d = 10 then CHR ''a'' else if d = 11 then CHR ''b''
     else if d = 12 then CHR ''c'' else if d = 13 then CHR ''d'' else if d = 14 then CHR ''e''
     else CHR ''f'')"

definition repr_char :: "char \<Rightarrow> char \<Rightarrow> string" where
  "repr_char q c =
     (if c = q \<or> c = CHR 0x5C then [CHR 0x5C, c]
      else if c = CHR 0x09 then [CHR 0x5C, CHR ''t'']
      else if c = CHR 0x0A then [CHR 0x5C, CHR ''n'']
      else if c = CHR 0x0D then [CHR 0x5C, CHR ''r'']
      else if (of_char c :: nat) < 32 \<or> (of_char c :: nat) = 127
        then [CHR 0x5C, CHR ''x'', hex_char (of_char c div 16), hex_char (of_char c mod 16)]
      else [c])"

definition repr_str :: "string \<Rightarrow> string" where
  "repr_str s =
     (let q = (if CHR 0x27 \<in> set s \<and> CHR 0x22 \<notin> set s then CHR 0x22 else CHR 0x27)
      in q # concat (map (repr_char q) s) @ [q])"

fun join :: "string \<Rightarrow> string list \<Rightarrow> string" where
  "join sep [] = []"
| "join sep [x] = x"
| "join sep (x # y # zs) = x @ sep @ join sep (y # zs)"

fun py_repr :: "pyval \<Rightarrow> string" where
  "py_repr PNone = ''None''"
| "py_repr (PBool b) = (if b then ''True'' else ''False'')"
| "py_repr (PInt i) = str_int i"
| "py_repr (PStr s) = repr_str s"
| "py_repr (PList xs) = ''['' @ join '', '' (map py_repr xs) @ '']''"
| "py_repr (PDict kvs) =
     ''{'' @ join '', '' (map (\<lambda>kv. repr_str (fst kv) @ '': '' @ py_repr (snd kv)) kvs) @ ''}''"

fun py_str :: "pyval \<Rightarrow> string" where
  "py_str (PStr s) = s"
| "py_str v = py_repr v"

section \<open>Well-formed values\<close>

fun wf_val :: "pyval \<Rightarrow> bool" where
  "wf_val (PList xs) = list_all wf_val xs"
| "wf_val (PDict kvs) = (distinct (map fst kvs) \<and> list_all (\<lambda>kv. wf_val (snd kv)) kvs)"
| "wf_val v = True"

fun is_dict :: "pyval \<Rightarrow> bool" where
  "is_dict (PDict kvs) = True"
| "is_dict v = False"

fun is_num :: "pyval \<Rightarrow> bool" where
  "is_num (PInt i) = True"
| "is_num (PBool b) = True"
| "is_num v = False"

section \<open>Lemmas\<close>

lemma dict_get_simps [simp]:
  "dict_get [] k d = d"
  "dict_get ((k', v) # kvs) k d = (if k' = k then v else dict_get kvs k d)"
  by (simp_all add: dict_get_def)

lemma dict_get_update [simp]:
  "dict_get (AList.update k v kvs) k' d = (if k' = k then v else dict_get kvs k' d)"
  by (simp add: dict_get_def update_conv')

lemma is_dict_iff: "is_dict v \<longleftrightarrow> (\<exists>kvs. v = PDict kvs)"
  by (cases v) simp_all

lemma is_num_iff: "is_num v \<longleftrightarrow> (\<exists>i. py_num v = Inr i)"
  by (cases v) simp_all

lemma py_get_succeeds_iff [simp]: "succeeds (py_get v k d) \<longleftrightarrow> is_dict v"
  by (cases v) simp_all

lemma py_get_error: "py_get v k d = Inl e \<Longrightarrow> e = AttributeError \<and> \<not> is_dict v"
  by (cases v) simp_all

lemma py_index_Inr_iff: "py_index v k = Inr x \<longleftrightarrow> (\<exists>kvs. v = PDict kvs \<and> map_of kvs k = Some x)"
  by (cases v) (simp_all split: option.splits)

lemma py_index_KeyError_iff:
  "py_index v k = Inl (KeyError k') \<longleftrightarrow> k' = k \<and> (\<exists>kvs. v = PDict kvs \<and> map_of kvs k = None)"
  by (cases v) (auto split: option.splits)

lemma py_gt_simps [simp]:
  "py_gt (PInt i) n = Inr (n < i)"
  "py_gt (PBool b) n = Inr (n < (if b then 1 else 0))"
  "py_gt PNone n = Inl TypeError"
  "py_gt (PStr s) n = Inl TypeError"
  "py_gt (PList xs) n = Inl TypeError"
  "py_gt (PDict kvs) n = Inl TypeError"
  by (simp_all add: py_gt_def)

lemma py_lt_simps [simp]:
  "py_lt (PInt i) n = Inr (i < n)"
  "py_lt (PBool b) n = Inr ((if b then 1 else 0) < n)"
  "py_lt PNone n = Inl TypeError"
  "py_lt (PStr s) n = Inl TypeError"
  "py_lt (PList xs) n = Inl TypeError"
  "py_lt (PDict kvs) n = Inl TypeError"
  by (simp_all add: py_lt_def)

lemma py_gt_succeeds_iff [simp]: "succeeds (py_gt v n) \<longleftrightarrow> is_num v"
  by (cases v) simp_all

lemma py_lt_succeeds_iff [simp]: "succeeds (py_lt v n) \<longleftrightarrow> is_num v"
  by (cases v) simp_all

lemma py_num_error: "py_num v = Inl e \<Longrightarrow> e = TypeError"
  by (cases v) simp_all

lemma py_eq_int_num: "py_num v = Inr i \<Longrightarrow> py_eq_int v n \<longleftrightarrow> i = n"
  by (cases v) auto

lemma py_iter_truthy: "py_iter v = Inr xs \<Longrightarrow> truthy v \<longleftrightarrow> xs \<noteq> []"
  by (cases v) auto

lemma py_len_iter: "py_len v = rbind (py_iter v) (\<lambda>xs. Inr (length xs))"
  by (cases v) simp_all

text \<open>Item assignment: the laws of a store, and the invariant it keeps.\<close>

lemma py_setitem_index:
  "py_setitem d k v = Inr d' \<Longrightarrow> py_index d' k' = (if k' = k then Inr v else py_index d k')"
  by (cases d) (auto simp: update_conv')

lemma py_setitem_get:
  "py_setitem d k v = Inr d' \<Longrightarrow> py_get d' k' x = (if k' = k then Inr v else py_get d k' x)"
  by (cases d) auto

lemma py_setitem_keys:
  "py_setitem (PDict kvs) k v = Inr (PDict kvs') \<Longrightarrow> set (map fst kvs') = insert k (set (map fst kvs))"
  using dom_update [of k v kvs] by auto

lemma set_update_subset: "set (AList.update k v kvs) \<subseteq> insert (k, v) (set kvs)"
  by (induction kvs) auto

lemma wf_val_update:
  assumes "wf_val (PDict kvs)" and "wf_val v"
  shows "wf_val (PDict (AList.update k v kvs))"
proof -
  have "distinct (map fst (AList.update k v kvs))"
    using assms(1) by (simp add: distinct_update)
  moreover have "wf_val (snd kv)" if "kv \<in> set (AList.update k v kvs)" for kv
    using that assms set_update_subset [of k v kvs] by (auto simp: list_all_iff)
  ultimately show ?thesis by (simp add: list_all_iff)
qed

lemma py_setitem_wf: "py_setitem d k v = Inr d' \<Longrightarrow> wf_val d \<Longrightarrow> wf_val v \<Longrightarrow> wf_val d'"
  by (cases d) (auto simp del: wf_val.simps intro: wf_val_update)

lemma wf_val_dict_get: "wf_val (PDict kvs) \<Longrightarrow> wf_val d \<Longrightarrow> wf_val (dict_get kvs k d)"
  by (auto simp: dict_get_def list_all_iff split: option.splits dest!: map_of_SomeD)

section \<open>Printing numbers\<close>

declare digits.simps [simp del]

lemmas str_defs = digits.simps digit_char_def str_int_def hex_char_def repr_char_def repr_str_def

lemma digits_nonempty [simp]: "digits n \<noteq> []" "[] \<noteq> digits n"
  by (subst digits.simps, simp)+

lemma of_char_digit_char: "d < 10 \<Longrightarrow> (of_char (digit_char d) :: nat) = 48 + d"
  by (simp add: digit_char_def)

lemma digit_char_inj: "a < 10 \<Longrightarrow> b < 10 \<Longrightarrow> digit_char a = digit_char b \<longleftrightarrow> a = b"
  by (metis of_char_digit_char add_left_cancel)

lemma digits_length_le: "n < 10 ^ k \<Longrightarrow> 0 < k \<Longrightarrow> length (digits n) \<le> k"
proof (induction n arbitrary: k rule: digits.induct)
  case (1 n)
  show ?case
  proof (cases "n < 10")
    case True
    with "1.prems" show ?thesis by (subst digits.simps) simp
  next
    case False
    with "1.prems" obtain j where k: "k = Suc j" "0 < j"
      by (cases k; cases "k - 1") auto
    with "1.prems" have "n div 10 < 10 ^ j" by (simp add: less_mult_imp_div_less mult.commute)
    with "1.IH" [OF False, of j] k have "length (digits (n div 10)) \<le> j" by simp
    with False k show ?thesis by (subst digits.simps) simp
  qed
qed

text \<open>Decimal printing loses nothing: two numbers with the same digits are equal.\<close>

lemma digits_inj: "digits m = digits n \<Longrightarrow> m = n"
proof (induction m arbitrary: n rule: digits.induct)
  case (1 m)
  show ?case
  proof (cases "m < 10")
    case m: True
    show ?thesis
    proof (cases "n < 10")
      case True
      with m "1.prems" show ?thesis
        by (simp add: digits.simps [of m] digits.simps [of n] digit_char_inj)
    next
      case False
      with m "1.prems" show ?thesis
        by (simp add: digits.simps [of m] digits.simps [of n])
    qed
  next
    case m: False
    show ?thesis
    proof (cases "n < 10")
      case True
      with m "1.prems" show ?thesis
        by (simp add: digits.simps [of m] digits.simps [of n])
    next
      case False
      with m "1.prems" have "digits (m div 10) = digits (n div 10)"
        and "digit_char (m mod 10) = digit_char (n mod 10)"
        by (simp_all add: digits.simps [of m] digits.simps [of n])
      then have "m div 10 = n div 10" "m mod 10 = n mod 10"
        using "1.IH" [OF m] by (simp_all add: digit_char_inj)
      then show ?thesis by (metis div_mult_mod_eq)
    qed
  qed
qed

lemma str_int_examples: "str_int 0 = ''0''" "str_int 42 = ''42''" "str_int (- 7) = ''-7''"
  by (simp_all add: str_defs)

lemma py_str_examples:
  "py_str (PStr ''demo'') = ''demo''"
  "py_str PNone = ''None''"
  "py_str (PList [PStr ''a'', PInt 12, PBool True]) = [CHR ''['', CHR 0x27, CHR ''a'', CHR 0x27] @ '', 12, True]''"
  by (simp_all add: str_defs Let_def)

end
