(* ===== verification/Datetime.thy ===== *)
theory Datetime
  imports PyValue
begin

text \<open>
  What \<open>calculate_activity_score\<close> asks of Python's \<open>datetime\<close>: parsing a timestamp
  with \<open>datetime.strptime(s, '%Y-%m-%dT%H:%M:%SZ')\<close> and the \<open>days\<close> of the difference
  to \<open>datetime.now()\<close>. \<open>strptime\<close> compiles its format to a regular expression
  (\<open>%Y\<close> is \<open>\d\d\d\d\<close>, \<open>%m\<close> is \<open>1[0-2]|0[1-9]|[1-9]\<close>, \<open>%d\<close> is
  \<open>3[0-1]|[1-2]\d|0[1-9]|[1-9]| [1-9]\<close>, \<open>%H\<close> is \<open>2[0-3]|[0-1]\d|\d\<close>, \<open>%M\<close> is
  \<open>[0-5]\d|\d\<close>, \<open>%S\<close> is \<open>6[0-1]|[0-5]\d|\d\<close>), matches it at the start of the string
  ignoring case, and raises \<open>ValueError\<close> when nothing matches, when text is left over,
  or when the fields are no date. The expressions are modelled as parsers that return
  every way to match, in the order a backtracking matcher tries them; the first is the
  match. The lemmas show the round trip with the notation of the GitHub API and that
  every result is a date of the calendar.
\<close>

section \<open>Dates\<close>

record datetime =
  year :: nat
  month :: nat
  day :: nat
  hour :: nat
  minute :: nat
  second :: nat
  microsecond :: nat

definition is_leap :: "nat \<Rightarrow> bool" where
  "is_leap y = (y mod 4 = 0 \<and> (y mod 100 \<noteq> 0 \<or> y mod 400 = 0))"

definition days_in_month :: "nat \<Rightarrow> nat \<Rightarrow> nat" where
  "days_in_month y m =
     (if m = 2 then (if is_leap y then 29 else 28)
      else if m = 4 \<or> m = 6 \<or> m = 9 \<or> m = 11 then 30 else 31)"

definition days_before_year :: "nat \<Rightarrow> nat" where
  "days_before_year y = (y - 1) * 365 + (y - 1) div 4 - (y - 1) div 100 + (y - 1) div 400"

definition days_before_month :: "nat \<Rightarrow> nat \<Rightarrow> nat" where
  "days_before_month y m = sum_list (map (days_in_month y) [1..<m])"

definition toordinal :: "datetime \<Rightarrow> nat" where
  "toordinal dt = days_before_year (year dt) + days_before_month (year dt) (month dt) + day dt"

definition valid_datetime :: "datetime \<Rightarrow> bool" where
  "valid_datetime dt =
     (1 \<le> year dt \<and> year dt \<le> 9999 \<and> 1 \<le> month dt \<and> month dt \<le> 12 \<and>
      1 \<le> day dt \<and> day dt \<le> days_in_month (year dt) (month dt) \<and>
      hour dt < 24 \<and> minute dt < 60 \<and> second dt < 60 \<and> microsecond dt < 1000000)"

definition to_microseconds :: "datetime \<Rightarrow> int" where
  "to_microseconds dt =
     (((int (toordinal dt) * 24 + int (hour dt)) * 60 + int (minute dt)) * 60 + int (second dt))
       * 1000000 + int (microsecond dt)"

definition timedelta_days :: "datetime \<Rightarrow> datetime \<Rightarrow> int" where
  "timedelta_days a b = (to_microseconds a - to_microseconds b) div 86400000000"

section \<open>The format's regular expression\<close>

type_synonym 'a parser = "string \<Rightarrow> ('a \<times> string) list"

definition is_digit :: "char \<Rightarrow> bool" where
  "is_digit c = (c \<in> set ''0123456789'')"

definition digit_val :: "char \<Rightarrow> nat" where
  "digit_val c = of_char c - 48"

definition two_digits :: "(nat \<Rightarrow> nat \<Rightarrow> bool) \<Rightarrow> nat parser" where
  "two_digits P s =
     (case s of
        c1 # c2 # rest \<Rightarrow>
          if is_digit c1 \<and> is_digit c2 \<and> P (digit_val c1) (digit_val c2)
          then [(10 * digit_val c1 + digit_val c2, rest)] else []
      | _ \<Rightarrow> [])"

definition one_digit :: "(nat \<Rightarrow> bool) \<Rightarrow> nat parser" where
  "one_digit P s =
     (case s of
        c # rest \<Rightarrow> if is_digit c \<and> P (digit_val c) then [(digit_val c, rest)] else []
      | _ \<Rightarrow> [])"

definition space_digit :: "(nat \<Rightarrow> bool) \<Rightarrow> nat parser" where
  "space_digit P s = (case s of c # rest \<Rightarrow> if c = CHR '' '' then one_digit P rest else [] | _ \<Rightarrow> [])"

definition alts :: "'a parser list \<Rightarrow> 'a parser" where
  "alts ps s = concat (map (\<lambda>p. p s) ps)"

definition lit :: "char \<Rightarrow> char \<Rightarrow> string \<Rightarrow> string list" where
  "lit c c' s = (case s of x # rest \<Rightarrow> if x = c \<or> x = c' then [rest] else [] | _ \<Rightarrow> [])"

definition re_Y :: "nat parser" where
  "re_Y s =
     (case s of
        a # b # c # d # rest \<Rightarrow>
          if is_digit a \<and> is_digit b \<and> is_digit c \<and> is_digit d
          then [(1000 * digit_val a + 100 * digit_val b + 10 * digit_val c + digit_val d, rest)]
          else []
      | _ \<Rightarrow> [])"

definition re_m :: "nat parser" where
  "re_m = alts [two_digits (\<lambda>a b. a = 1 \<and> b \<le> 2), two_digits (\<lambda>a b. a = 0 \<and> 1 \<le> b),
     one_digit (\<lambda>a. 1 \<le> a)]"

definition re_d :: "nat parser" where
  "re_d = alts [two_digits (\<lambda>a b. a = 3 \<and> b \<le> 1), two_digits (\<lambda>a b. 1 \<le> a \<and> a \<le> 2),
     two_digits (\<lambda>a b. a = 0 \<and> 1 \<le> b), one_digit (\<lambda>a. 1 \<le> a), space_digit (\<lambda>a. 1 \<le> a)]"

definition re_H :: "nat parser" where
  "re_H = alts [two_digits (\<lambda>a b. a = 2 \<and> b \<le> 3), two_digits (\<lambda>a b. a \<le> 1), one_digit (\<lambda>a. True)]"

definition re_M :: "nat parser" where
  "re_M = alts [two_digits (\<lambda>a b. a \<le> 5), one_digit (\<lambda>a. True)]"

definition re_S :: "nat parser" where
  "re_S = alts [two_digits (\<lambda>a b. a = 6 \<and> b \<le> 1), two_digits (\<lambda>a b. a \<le> 5), one_digit (\<lambda>a. True)]"

definition re_format :: "(nat \<times> nat \<times> nat \<times> nat \<times> nat \<times> nat) parser" where
  "re_format s0 =
     [((Y, m, d, H, M, S), s11).
        (Y, s1) \<leftarrow> re_Y s0, s2 \<leftarrow> lit (CHR ''-'') (CHR ''-'') s1,
        (m, s3) \<leftarrow> re_m s2, s4 \<leftarrow> lit (CHR ''-'') (CHR ''-'') s3,
        (d, s5) \<leftarrow> re_d s4, s6 \<leftarrow> lit (CHR ''T'') (CHR ''t'') s5,
        (H, s7) \<leftarrow> re_H s6, s8 \<leftarrow> lit (CHR '':'') (CHR '':'') s7,
        (M, s9) \<leftarrow> re_M s8, s10 \<leftarrow> lit (CHR '':'') (CHR '':'') s9,
        (S, s10') \<leftarrow> re_S s10, s11 \<leftarrow> lit (CHR ''Z'') (CHR ''z'') s10']"

section \<open>strptime\<close>

definition strptime :: "pyval \<Rightarrow> datetime py" where
  "strptime v =
     (case v of
        PStr s \<Rightarrow>
          (case re_format s of
             [] \<Rightarrow> Inl ValueError
           | ((Y, m, d, H, M, S), rest) # _ \<Rightarrow>
               if rest \<noteq> [] then Inl ValueError
               else if Y < 1 \<or> days_in_month Y m < d \<or> 59 < S then Inl ValueError
               else Inr \<lparr>year = Y, month = m, day = d, hour = H, minute = M, second = S,
                         microsecond = 0\<rparr>)
      | _ \<Rightarrow> Inl TypeError)"

section \<open>Canonical timestamps\<close>

text \<open>
  The GitHub API writes its timestamps as \<open>YYYY-MM-DDTHH:MM:SSZ\<close>. \<open>isoformat_z\<close> is that
  notation; it is the reference against which the parser is checked, not code of the
  program.
\<close>

definition pad2 :: "nat \<Rightarrow> string" where
  "pad2 n = [digit_char (n div 10), digit_char (n mod 10)]"

definition pad4 :: "nat \<Rightarrow> string" where
  "pad4 n = pad2 (n div 100) @ pad2 (n mod 100)"

definition isoformat_z :: "datetime \<Rightarrow> string" where
  "isoformat_z dt =
     pad4 (year dt) @ ''-'' @ pad2 (month dt) @ ''-'' @ pad2 (day dt) @ ''T'' @ pad2 (hour dt) @ '':'' @
     pad2 (minute dt) @ '':'' @ pad2 (second dt) @ ''Z''"

definition noon :: datetime where
  "noon = \<lparr>year = 2024, month = 3, day = 8, hour = 12, minute = 0, second = 0, microsecond = 250\<rparr>"

lemmas re_defs = re_format_def re_Y_def re_m_def re_d_def re_H_def re_M_def re_S_def alts_def
  lit_def one_digit_def two_digits_def space_digit_def is_digit_def digit_val_def

lemmas date_defs = days_in_month_def is_leap_def days_before_year_def days_before_month_def
  toordinal_def to_microseconds_def timedelta_days_def

lemma strptime_example:
  "strptime (PStr ''2024-03-05T10:20:30Z'') =
     Inr \<lparr>year = 2024, month = 3, day = 5, hour = 10, minute = 20, second = 30, microsecond = 0\<rparr>"
  by (simp add: strptime_def re_defs date_defs)

lemma strptime_default: "strptime (PStr ''2000-01-01'') = Inl ValueError"
  by (simp add: strptime_def re_defs)

lemma strptime_lenient: "strptime (PStr ''2024-3-5t1:2:3z'') =
     Inr \<lparr>year = 2024, month = 3, day = 5, hour = 1, minute = 2, second = 3, microsecond = 0\<rparr>"
  by (simp add: strptime_def re_defs date_defs)

lemma strptime_feb30: "strptime (PStr ''2023-02-29T00:00:00Z'') = Inl ValueError"
  by (simp add: strptime_def re_defs date_defs)

lemma toordinal_example:
  "toordinal \<lparr>year = 2024, month = 3, day = 5, hour = 10, minute = 20, second = 30, microsecond = 0\<rparr> = 738950"
  by (simp add: date_defs upt_rec [of _ "numeral _"])

section \<open>Digits\<close>

lemma is_digit_iff: "is_digit c \<longleftrightarrow> (\<exists>d<10. c = digit_char d)"
proof
  assume "is_digit c"
  then consider "c = CHR ''0''" | "c = CHR ''1''" | "c = CHR ''2''" | "c = CHR ''3''" | "c = CHR ''4''"
    | "c = CHR ''5''" | "c = CHR ''6''" | "c = CHR ''7''" | "c = CHR ''8''" | "c = CHR ''9''"
    by (auto simp: is_digit_def)
  then show "\<exists>d<10. c = digit_char d"
    by cases (rule exI [of _ 0] exI [of _ 1] exI [of _ 2] exI [of _ 3] exI [of _ 4] exI [of _ 5]
      exI [of _ 6] exI [of _ 7] exI [of _ 8] exI [of _ 9], simp add: digit_char_def)+
next
  assume "\<exists>d<10. c = digit_char d"
  then obtain d where "d < 10" "c = digit_char d" by blast
  then show "is_digit c" by (auto simp: is_digit_def digit_char_def)
qed

lemma digit_char_digit [simp]: "d < 10 \<Longrightarrow> is_digit (digit_char d)"
  by (auto simp: is_digit_iff)

lemma digit_val_digit_char [simp]: "d < 10 \<Longrightarrow> digit_val (digit_char d) = d"
  by (simp add: digit_val_def of_char_digit_char)

lemma digit_val_le: "is_digit c \<Longrightarrow> digit_val c \<le> 9"
  by (auto simp: is_digit_iff)


lemma two_digits_pad2:
  "n < 100 \<Longrightarrow> two_digits P (pad2 n @ rest) = (if P (n div 10) (n mod 10) then [(n, rest)] else [])"
  by (simp add: two_digits_def pad2_def)

lemma one_digit_pad2:
  "n < 100 \<Longrightarrow> one_digit P (pad2 n @ rest) =
     (if P (n div 10) then [(n div 10, digit_char (n mod 10) # rest)] else [])"
  by (simp add: one_digit_def pad2_def)

lemma space_digit_pad2: "n < 100 \<Longrightarrow> space_digit P (pad2 n @ rest) = []"
  by (auto simp: space_digit_def pad2_def digit_char_def)

lemmas pad2_parsers = alts_def two_digits_pad2 one_digit_pad2 space_digit_pad2


lemma pad2_value:
  fixes n :: nat
  assumes "n < 100"
  shows "n div 10 < 10" "10 * (n div 10) + n mod 10 = n"
  using assms by (simp_all add: less_mult_imp_div_less)

lemma re_Y_pad4:
  assumes "Y < 10000"
  shows "re_Y (pad4 Y @ rest) = [(Y, rest)]"
proof -
  let ?h = "Y div 100" and ?l = "Y mod 100"
  have h: "?h < 100" using assms by (simp add: less_mult_imp_div_less)
  have "1000 * (?h div 10) + 100 * (?h mod 10) = 100 * ?h"
    using pad2_value(2) [OF h] by linarith
  moreover have "10 * (?l div 10) + ?l mod 10 = ?l" by simp
  ultimately have "1000 * (?h div 10) + 100 * (?h mod 10) + 10 * (?l div 10) + ?l mod 10 = Y"
    by simp
  then show ?thesis
    using pad2_value(1) [OF h] pad2_value(1) [of ?l] by (simp add: re_Y_def pad4_def pad2_def)
qed

text \<open>Each field of a canonical timestamp is matched first by the alternative that takes
  both of its digits.\<close>

lemma re_m_pad2:
  assumes "1 \<le> m" "m \<le> 12"
  shows "\<exists>more. re_m (pad2 m @ rest) = (m, rest) # more"
proof -
  have "m div 10 = 1 \<and> m mod 10 \<le> 2 \<or> m div 10 = 0 \<and> 1 \<le> m mod 10"
    using assms by presburger
  then show ?thesis using assms by (auto simp: re_m_def pad2_parsers)
qed

lemma re_d_pad2:
  assumes "1 \<le> d" "d \<le> 31"
  shows "\<exists>more. re_d (pad2 d @ rest) = (d, rest) # more"
proof -
  have "d div 10 = 3 \<and> d mod 10 \<le> 1 \<or> 1 \<le> d div 10 \<and> d div 10 \<le> 2 \<or>
      d div 10 = 0 \<and> 1 \<le> d mod 10"
    using assms by presburger
  then show ?thesis using assms by (auto simp: re_d_def pad2_parsers)
qed

lemma re_H_pad2:
  assumes "H < 24"
  shows "\<exists>more. re_H (pad2 H @ rest) = (H, rest) # more"
proof -
  have "H div 10 = 2 \<and> H mod 10 \<le> 3 \<or> H div 10 \<le> 1"
    using assms by presburger
  then show ?thesis using assms by (auto simp: re_H_def pad2_parsers)
qed

lemma re_M_pad2:
  assumes "M < 60"
  shows "\<exists>more. re_M (pad2 M @ rest) = (M, rest) # more"
proof -
  have "M div 10 \<le> 5" using assms by presburger
  then show ?thesis using assms by (auto simp: re_M_def pad2_parsers)
qed

lemma re_S_pad2:
  assumes "S < 60"
  shows "\<exists>more. re_S (pad2 S @ rest) = (S, rest) # more"
proof -
  have "S div 10 \<le> 5" using assms by presburger
  then show ?thesis using assms by (auto simp: re_S_def pad2_parsers)
qed

section \<open>The parser reads canonical timestamps\<close>

lemma lit_Cons [simp]: "lit c c' (x # s) = (if x = c \<or> x = c' then [s] else [])"
  by (simp add: lit_def)

lemma valid_datetime_fields:
  assumes "valid_datetime d"
  shows "1 \<le> year d" "year d < 10000" "1 \<le> month d" "month d \<le> 12" "1 \<le> day d" "day d \<le> 31"
    "day d \<le> days_in_month (year d) (month d)" "hour d < 24" "minute d < 60" "second d < 60"
  using assms by (auto simp: valid_datetime_def days_in_month_def split: if_splits)

lemma re_format_isoformat_z:
  assumes "valid_datetime d"
  shows "\<exists>more. re_format (isoformat_z d @ rest) =
    ((year d, month d, day d, hour d, minute d, second d), rest) # more"
proof -
  note v = valid_datetime_fields [OF assms]
  obtain r5 where "re_S (pad2 (second d) @ ''Z'' @ rest) = (second d, ''Z'' @ rest) # r5"
    using re_S_pad2 v by blast
  moreover obtain r4 where "re_M (pad2 (minute d) @ '':'' @ pad2 (second d) @ ''Z'' @ rest) =
      (minute d, '':'' @ pad2 (second d) @ ''Z'' @ rest) # r4"
    using re_M_pad2 v by blast
  moreover obtain r3 where "re_H (pad2 (hour d) @ '':'' @ pad2 (minute d) @ '':'' @ pad2 (second d) @ ''Z'' @ rest) =
      (hour d, '':'' @ pad2 (minute d) @ '':'' @ pad2 (second d) @ ''Z'' @ rest) # r3"
    using re_H_pad2 v by blast
  moreover obtain r2 where "re_d (pad2 (day d) @ ''T'' @ pad2 (hour d) @ '':'' @ pad2 (minute d) @ '':'' @ pad2 (second d) @ ''Z'' @ rest) =
      (day d, ''T'' @ pad2 (hour d) @ '':'' @ pad2 (minute d) @ '':'' @ pad2 (second d) @ ''Z'' @ rest) # r2"
    using re_d_pad2 v by blast
  moreover obtain r1 where "re_m (pad2 (month d) @ ''-'' @ pad2 (day d) @ ''T'' @ pad2 (hour d) @ '':'' @ pad2 (minute d) @ '':'' @ pad2 (second d) @ ''Z'' @ rest) =
      (month d, ''-'' @ pad2 (day d) @ ''T'' @ pad2 (hour d) @ '':'' @ pad2 (minute d) @ '':'' @ pad2 (second d) @ ''Z'' @ rest) # r1"
    using re_m_pad2 v by blast
  ultimately show ?thesis
    using v by (simp add: re_format_def isoformat_z_def re_Y_pad4)
qed

text \<open>
  C11: a valid date with no microseconds, written the way the GitHub API writes
  \<open>pushed_at\<close> (four digits of year, two of every other field, \<open>T\<close> and \<open>Z\<close>), is parsed
  by \<open>strptime\<close> to that same date: on the timestamps the service sends the parser never
  raises and loses nothing.
\<close>

theorem strptime_isoformat_z:
  assumes "valid_datetime d" "microsecond d = 0"
  shows "strptime (PStr (isoformat_z d)) = Inr d"
proof -
  obtain more where "re_format (isoformat_z d) =
      ((year d, month d, day d, hour d, minute d, second d), []) # more"
    using re_format_isoformat_z [OF assms(1), of "[]"] by auto
  then show ?thesis
    using valid_datetime_fields [OF assms(1)] assms(2) by (simp add: strptime_def)
qed

theorem strptime_isoformat_z_witness:
  "isoformat_z (noon\<lparr>microsecond := 0\<rparr>) = ''2024-03-08T12:00:00Z'' \<and>
   strptime (PStr ''2024-03-08T12:00:00Z'') = Inr (noon\<lparr>microsecond := 0\<rparr>)"
  using strptime_isoformat_z [of "noon\<lparr>microsecond := 0\<rparr>"]
  by (simp add: noon_def valid_datetime_def days_in_month_def isoformat_z_def pad4_def pad2_def
      digit_char_def)

section \<open>The parser returns dates\<close>

lemma two_digits_sound:
  "(n, r) \<in> set (two_digits P s) \<Longrightarrow> \<exists>a b. a \<le> 9 \<and> b \<le> 9 \<and> P a b \<and> n = 10 * a + b"
proof -
  assume "(n, r) \<in> set (two_digits P s)"
  then obtain c1 c2 where "is_digit c1" "is_digit c2" "P (digit_val c1) (digit_val c2)"
    "n = 10 * digit_val c1 + digit_val c2"
    by (auto simp: two_digits_def split: list.splits if_splits)
  then show ?thesis using digit_val_le by blast
qed

lemma one_digit_sound: "(n, r) \<in> set (one_digit P s) \<Longrightarrow> n \<le> 9 \<and> P n"
  by (auto simp: one_digit_def digit_val_le split: list.splits if_splits)

lemma space_digit_sound: "(n, r) \<in> set (space_digit P s) \<Longrightarrow> n \<le> 9 \<and> P n"
  by (auto simp: space_digit_def dest: one_digit_sound split: list.splits if_splits)

lemmas field_sound = two_digits_sound one_digit_sound space_digit_sound

lemma re_Y_sound: "(Y, r) \<in> set (re_Y s) \<Longrightarrow> Y \<le> 9999"
  by (auto simp: re_Y_def split: list.splits if_splits dest!: digit_val_le)

lemma re_m_sound: "(m, r) \<in> set (re_m s) \<Longrightarrow> 1 \<le> m \<and> m \<le> 12"
  by (auto simp: re_m_def alts_def dest!: field_sound)

lemma re_d_sound: "(d, r) \<in> set (re_d s) \<Longrightarrow> 1 \<le> d"
  by (auto simp: re_d_def alts_def dest!: field_sound)

lemma re_H_sound: "(H, r) \<in> set (re_H s) \<Longrightarrow> H < 24"
  by (auto simp: re_H_def alts_def dest!: field_sound)

lemma re_M_sound: "(M, r) \<in> set (re_M s) \<Longrightarrow> M < 60"
  by (auto simp: re_M_def alts_def dest!: field_sound)

lemma re_format_sound:
  "((Y, m, d, H, M, S), r) \<in> set (re_format s) \<Longrightarrow>
     Y \<le> 9999 \<and> 1 \<le> m \<and> m \<le> 12 \<and> 1 \<le> d \<and> H < 24 \<and> M < 60"
  unfolding re_format_def
  by (auto dest!: re_Y_sound re_m_sound re_d_sound re_H_sound re_M_sound)

text \<open>
  C20: whatever \<open>strptime\<close> returns is a date of the calendar: the year is between 1 and
  9999, the month between 1 and 12, the day exists in that month of that year (leap years
  included), the time is below 24:00:00, and the microseconds are zero. Of the seconds 60
  and 61 that the expression for \<open>%S\<close> admits, none gets through.
\<close>

theorem strptime_valid:
  assumes "strptime v = Inr d"
  shows "valid_datetime d \<and> microsecond d = 0"
proof -
  obtain s Y m dd H M S more where s: "v = PStr s"
    and re: "re_format s = ((Y, m, dd, H, M, S), []) # more"
    and chk: "1 \<le> Y" "dd \<le> days_in_month Y m" "S \<le> 59"
    and d: "d = \<lparr>year = Y, month = m, day = dd, hour = H, minute = M, second = S, microsecond = 0\<rparr>"
    using assms by (auto simp: strptime_def split: pyval.splits list.splits if_splits)
  have "((Y, m, dd, H, M, S), []) \<in> set (re_format s)" by (simp add: re)
  from re_format_sound [OF this] chk d show ?thesis
    by (simp add: valid_datetime_def)
qed

theorem strptime_valid_witness:
  "valid_datetime \<lparr>year = 2024, month = 3, day = 5, hour = 1, minute = 2, second = 3,
     microsecond = 0\<rparr>"
  using strptime_valid [OF strptime_lenient] by simp

end
