(* ===== verification/World.thy ===== *)
theory World
  imports Datetime
begin

text \<open>
  The outside of the program: the two credentials it reads from the environment, the
  GitHub API behind \<open>requests.get\<close>, the clock, the language model, and the page it
  writes to. A run is deterministic once these are fixed, so they are the fields of one
  record \<open>env\<close>; what the run does to the outside (the requests it sends, the messages
  it shows) accumulates in a \<open>world\<close> that every effectful function takes and returns.
  The lists of the world are logs: \<open>grows\<close> relates a world to a later one.
\<close>

named_theorems history \<open>rules that show that a computation only appends to the logs\<close>

section \<open>The environment\<close>

datatype response = Response (status_code: int) (json_body: "pyval option")

datatype model_info = Model (m_name: string) (m_supported_generation_methods: "string list")

datatype message =
    FetchingError pyerr
  | AnalysisError pyerr
  | EnterUsername
  | Scanning
  | UserNotFound
  | TokenNotConfigured
  | AnalysisComplete string

text \<open>
  \<open>http\<close> answers the \<open>n\<close>-th request of the run for a URL, or fails to (a connection
  error); \<open>b64_utf8\<close> is \<open>base64.b64decode(_).decode('utf-8')\<close>; \<open>list_models\<close> is what
  iterating \<open>genai.list_models()\<close> yields, an \<open>Inl\<close> where it raises; \<open>generative_model\<close>
  constructs a model, which maps a prompt to the text of its response or raises;
  \<open>json_loads\<close> is \<open>json.loads\<close>; \<open>set_order\<close> is the order in which a set is iterated.
\<close>

record env =
  github_token :: pyval
  gemini_key :: pyval
  http :: "nat \<Rightarrow> string \<Rightarrow> response option"
  b64_utf8 :: "pyval \<Rightarrow> string py"
  clock :: datetime
  list_models :: "model_info py list"
  generative_model :: "pyval \<Rightarrow> (string \<Rightarrow> string py) py"
  json_loads :: "string \<Rightarrow> pyval py"
  set_order :: "pyval list \<Rightarrow> pyval list"

text \<open>An environment in which nothing outside answers.\<close>

definition offline :: "pyval \<Rightarrow> env" where
  "offline token = \<lparr>github_token = token, gemini_key = PNone, http = (\<lambda>i url. None),
     b64_utf8 = (\<lambda>v. Inl ValueError), clock = noon, list_models = [],
     generative_model = (\<lambda>v. Inl GenerationError), json_loads = (\<lambda>s. Inl JSONDecodeError),
     set_order = (\<lambda>vs. vs)\<rparr>"

record world =
  requests :: "string list"
  prompts :: "string list"
  shown :: "message list"

definition world0 :: world where
  "world0 = \<lparr>requests = [], prompts = [], shown = []\<rparr>"

section \<open>Effectful computations\<close>

type_synonym 'a io = "world \<Rightarrow> 'a py \<times> world"

fun io_then :: "'a py \<times> world \<Rightarrow> ('a \<Rightarrow> 'b io) \<Rightarrow> 'b py \<times> world" where
  "io_then (Inl e, w) f = (Inl e, w)"
| "io_then (Inr x, w) f = f x w"

definition io_bind :: "'a io \<Rightarrow> ('a \<Rightarrow> 'b io) \<Rightarrow> 'b io" where
  "io_bind m f w = io_then (m w) f"

definition io_return :: "'a \<Rightarrow> 'a io" where
  "io_return x w = (Inr x, w)"

definition io_lift :: "'a py \<Rightarrow> 'a io" where
  "io_lift r w = (r, w)"

fun io_handle :: "'a py \<times> world \<Rightarrow> (pyerr \<Rightarrow> 'a io) \<Rightarrow> 'a py \<times> world" where
  "io_handle (Inl e, w) h = h e w"
| "io_handle (Inr x, w) h = (Inr x, w)"

definition io_catch :: "'a io \<Rightarrow> (pyerr \<Rightarrow> 'a io) \<Rightarrow> 'a io" where
  "io_catch m h w = io_handle (m w) h"

definition requests_get :: "env \<Rightarrow> string \<Rightarrow> response io" where
  "requests_get E url w =
     (case http E (length (requests w)) url of
        None \<Rightarrow> (Inl RequestException, w\<lparr>requests := requests w @ [url]\<rparr>)
      | Some r \<Rightarrow> (Inr r, w\<lparr>requests := requests w @ [url]\<rparr>))"

definition response_json :: "response \<Rightarrow> pyval py" where
  "response_json r = (case json_body r of None \<Rightarrow> Inl JSONDecodeError | Some v \<Rightarrow> Inr v)"

definition st_error :: "message \<Rightarrow> unit io" where
  "st_error m w = (Inr (), w\<lparr>shown := shown w @ [m]\<rparr>)"

definition generate_content :: "(string \<Rightarrow> string py) \<Rightarrow> string \<Rightarrow> string io" where
  "generate_content model prompt w = (model prompt, w\<lparr>prompts := prompts w @ [prompt]\<rparr>)"

section \<open>Laws\<close>

lemma io_then_weak_cong [cong]: "r = r' \<Longrightarrow> io_then r f = io_then r' f"
  by simp

lemma io_handle_weak_cong [cong]: "r = r' \<Longrightarrow> io_handle r h = io_handle r' h"
  by simp

lemma io_bind_apply [simp]: "io_bind m f w = io_then (m w) f"
  by (simp add: io_bind_def)

lemma io_catch_apply [simp]: "io_catch m h w = io_handle (m w) h"
  by (simp add: io_catch_def)

lemma io_return_apply [simp]: "io_return x w = (Inr x, w)"
  by (simp add: io_return_def)

lemma io_lift_apply [simp]: "io_lift r w = (r, w)"
  by (simp add: io_lift_def)

lemma io_bind_return: "io_bind (io_return x) f = f x"
  by (rule ext) simp

lemma io_then_cases:
  obtains (raised) e w where "r = (Inl e, w)" | (returned) x w where "r = (Inr x, w)"
  by (cases r; cases "fst r") auto

lemma io_bind_return_right: "io_bind m io_return = m"
proof (rule ext)
  fix w show "io_bind m io_return w = m w"
    by (cases "m w" rule: io_then_cases) simp_all
qed

lemma io_bind_assoc: "io_bind (io_bind m f) g = io_bind m (\<lambda>x. io_bind (f x) g)"
proof (rule ext)
  fix w show "io_bind (io_bind m f) g w = io_bind m (\<lambda>x. io_bind (f x) g) w"
    by (cases "m w" rule: io_then_cases) simp_all
qed

lemma io_then_cong [fundef_cong]:
  "r = r' \<Longrightarrow> (\<And>x w. r' = (Inr x, w) \<Longrightarrow> f x w = f' x w) \<Longrightarrow> io_then r f = io_then r' f'"
  by (cases r' rule: io_then_cases) auto

text \<open>Case analysis on the outcome of the first of two steps.\<close>

lemma io_then_InrE:
  assumes "io_then r f = (Inr y, w')"
  obtains x w1 where "r = (Inr x, w1)" "f x w1 = (Inr y, w')"
  using assms by (cases r rule: io_then_cases) auto

lemma io_handle_InrE:
  assumes "io_handle r h = (Inr y, w')"
  obtains "r = (Inr y, w')" | e w1 where "r = (Inl e, w1)" "h e w1 = (Inr y, w')"
  using assms by (cases r rule: io_then_cases) auto

lemma io_then_split:
  "P (io_then r f) \<longleftrightarrow>
     (\<forall>e w. r = (Inl e, w) \<longrightarrow> P (Inl e, w)) \<and> (\<forall>x w. r = (Inr x, w) \<longrightarrow> P (f x w))"
  by (cases r rule: io_then_cases) auto

lemma io_handle_split:
  "P (io_handle r h) \<longleftrightarrow>
     (\<forall>e w. r = (Inl e, w) \<longrightarrow> P (h e w)) \<and> (\<forall>x w. r = (Inr x, w) \<longrightarrow> P (Inr x, w))"
  by (cases r rule: io_then_cases) auto

text \<open>Every request is logged, whether it is answered or not.\<close>

lemma requests_get_log: "requests (snd (requests_get E url w)) = requests w @ [url]"
  by (simp add: requests_get_def split: option.splits)

lemma requests_get_Inr:
  "requests_get E url w = (Inr r, w') \<Longrightarrow> w' = w\<lparr>requests := requests w @ [url]\<rparr>"
  by (auto simp: requests_get_def split: option.splits)

lemma requests_get_shown:
  "shown (snd (requests_get E url w)) = shown w" "prompts (snd (requests_get E url w)) = prompts w"
  by (simp_all add: requests_get_def split: option.splits)

section \<open>The history only grows\<close>

text \<open>
  The three lists of the world are logs: whatever a computation does, returning or
  raising, it leaves what was logged before it in place and appends.
\<close>

definition grows :: "world \<Rightarrow> world \<Rightarrow> bool" where
  "grows w w' \<longleftrightarrow>
     (\<exists>rs ps ms. w' = w\<lparr>requests := requests w @ rs, prompts := prompts w @ ps,
        shown := shown w @ ms\<rparr>)"

lemma grows_refl [simp, history]: "grows w w"
  unfolding grows_def by (intro exI [of _ "[]"]) simp

lemma grows_trans: "grows w w1 \<Longrightarrow> grows w1 w2 \<Longrightarrow> grows w w2"
  unfolding grows_def by (elim exE) (simp, blast)

lemma grows_step [simp]:
  "grows w (w\<lparr>requests := requests w @ rs\<rparr>)" "grows w (w\<lparr>prompts := prompts w @ ps\<rparr>)"
  "grows w (w\<lparr>shown := shown w @ ms\<rparr>)"
  unfolding grows_def
  by (rule exI [of _ rs], rule exI [of _ "[]"], rule exI [of _ "[]"], simp,
      rule exI [of _ "[]"], rule exI [of _ ps], rule exI [of _ "[]"], simp,
      rule exI [of _ "[]"], rule exI [of _ "[]"], rule exI [of _ ms], simp)

lemma grows_shown: "grows w w' \<Longrightarrow> \<exists>ms. shown w' = shown w @ ms"
  by (auto simp: grows_def)

lemma io_then_grows [history]:
  assumes "grows w (snd r)"
    and "\<And>x w1. r = (Inr x, w1) \<Longrightarrow> grows w1 (snd (f x w1))"
  shows "grows w (snd (io_then r f))"
  using assms by (cases r rule: io_then_cases) (auto intro: grows_trans)

lemma io_handle_grows [history]:
  assumes "grows w (snd r)"
    and "\<And>e w1. r = (Inl e, w1) \<Longrightarrow> grows w1 (snd (h e w1))"
  shows "grows w (snd (io_handle r h))"
  using assms by (cases r rule: io_then_cases) (auto intro: grows_trans)

lemma requests_get_grows [simp, history]: "grows w (snd (requests_get E url w))"
  by (simp add: requests_get_def split: option.splits)

lemma st_error_grows [simp, history]: "grows w (snd (st_error m w))"
  by (simp add: st_error_def)

lemma generate_content_grows [simp, history]: "grows w (snd (generate_content model p w))"
  by (simp add: generate_content_def)

end
