(* ===== verification/Contract.thy ===== *)
theory Contract
  imports Datetime
begin

text \<open>
  The typed view of the data: what a repository, a portfolio and a recommendation are
  once the dictionaries are well-formed, and the scores as functions of that view. The
  component theories prove that the dictionary-level code computes these functions
  wherever the view exists.
\<close>

section \<open>Repositories\<close>

record repository =
  r_readme_exists :: bool
  r_description :: "string option"
  r_homepage :: "string option"
  r_has_wiki :: bool
  r_has_pages :: bool
  r_has_issues :: bool
  r_has_projects :: bool
  r_languages_count :: int
  r_size :: int
  r_stargazers_count :: int
  r_forks_count :: int
  r_open_issues_count :: int
  r_watchers_count :: int
  r_days_since_update :: int

definition nonempty :: "string option \<Rightarrow> bool" where
  "nonempty x = (case x of None \<Rightarrow> False | Some s \<Rightarrow> s \<noteq> [])"

definition points :: "bool \<Rightarrow> int \<Rightarrow> int" where
  "points c n = (if c then n else 0)"

definition documentationScore :: "repository \<Rightarrow> int" where
  "documentationScore r =
     min 100 (points (r_readme_exists r) 40 + points (nonempty (r_description r)) 20 +
       points (nonempty (r_homepage r)) 10 + points (r_has_wiki r) 15 + points (r_has_pages r) 15)"

definition codeQualityScore :: "repository \<Rightarrow> int" where
  "codeQualityScore r =
     min 100 (points (0 < r_languages_count r) 20 + points (r_has_issues r) 15 +
       points (r_has_projects r) 15 + points (0 < r_size r) 25 + points (0 < r_stargazers_count r) 25)"

definition freshnessPoints :: "int \<Rightarrow> int" where
  "freshnessPoints d = (if d < 7 then 40 else if d < 30 then 30 else if d < 90 then 20 else 10)"

definition activityScore :: "repository \<Rightarrow> int" where
  "activityScore r =
     min 100 (freshnessPoints (r_days_since_update r) + points (0 < r_open_issues_count r) 20 +
       points (0 < r_forks_count r) 20 + points (0 < r_watchers_count r) 20)"

section \<open>Portfolios\<close>

record scored =
  s_doc :: int
  s_code :: int
  s_activity :: int
  s_stars :: int
  s_forks :: int
  s_languages :: "string list"

record dimensions =
  d_documentation :: rat
  d_code_quality :: rat
  d_activity :: rat
  d_organization :: rat
  d_impact :: rat
  d_technical_depth :: rat

definition organizationScore :: "bool \<Rightarrow> nat \<Rightarrow> int" where
  "organizationScore has_orgs n = points has_orgs 20 + points (5 \<le> n) 20 + points (3 \<le> n) 20"

definition impactScore :: "scored list \<Rightarrow> rat" where
  "impactScore rs = min 100 (of_int (2 * sum_list (map s_stars rs) + sum_list (map s_forks rs)) / 5)"

definition technicalDepth :: "scored list \<Rightarrow> int" where
  "technicalDepth rs = min 40 (8 * int (card (\<Union>r \<in> set rs. set (s_languages r))))"

definition portfolioDimensions :: "bool \<Rightarrow> scored list \<Rightarrow> dimensions" where
  "portfolioDimensions has_orgs rs =
     \<lparr>d_documentation = mean (map s_doc rs),
      d_code_quality = mean (map s_code rs),
      d_activity = mean (map s_activity rs),
      d_organization = of_int (organizationScore has_orgs (length rs)),
      d_impact = impactScore rs,
      d_technical_depth = of_int (technicalDepth rs)\<rparr>"

definition weighted :: "dimensions \<Rightarrow> rat" where
  "weighted d =
     d_documentation d * (20 / 100) + d_code_quality d * (20 / 100) + d_activity d * (15 / 100) +
     d_organization d * (15 / 100) + d_impact d * (15 / 100) + d_technical_depth d * (15 / 100)"

definition rounded :: "dimensions \<Rightarrow> dimensions" where
  "rounded d =
     \<lparr>d_documentation = py_round1 (d_documentation d),
      d_code_quality = py_round1 (d_code_quality d),
      d_activity = py_round1 (d_activity d),
      d_organization = py_round1 (d_organization d),
      d_impact = py_round1 (d_impact d),
      d_technical_depth = py_round1 (d_technical_depth d)\<rparr>"

definition portfolioScore :: "bool \<Rightarrow> scored list \<Rightarrow> rat \<times> dimensions option" where
  "portfolioScore has_orgs rs =
     (if rs = [] then (0, None)
      else let d = portfolioDimensions has_orgs rs in (py_round1 (weighted d), Some (rounded d)))"

definition dimension_values :: "dimensions \<Rightarrow> rat list" where
  "dimension_values d = [d_documentation d, d_code_quality d, d_activity d, d_organization d,
     d_impact d, d_technical_depth d]"

definition in_range :: "scored \<Rightarrow> bool" where
  "in_range r =
     (list_all (\<lambda>x. 0 \<le> x \<and> x \<le> 100) [s_doc r, s_code r, s_activity r] \<and> 0 \<le> s_stars r \<and>
      0 \<le> s_forks r)"

lemmas contract_defs = documentationScore_def codeQualityScore_def activityScore_def
  freshnessPoints_def points_def nonempty_def

section \<open>Lemmas\<close>

lemma points_bounds [simp]: "0 \<le> n \<Longrightarrow> 0 \<le> points c n" "0 \<le> n \<Longrightarrow> points c n \<le> n"
  by (simp_all add: points_def)

lemma points_mono: "(c \<Longrightarrow> c') \<Longrightarrow> 0 \<le> n \<Longrightarrow> points c n \<le> points c' n"
  by (auto simp: points_def)

lemma freshnessPoints_range: "freshnessPoints d \<in> {10, 20, 30, 40}"
  by (simp add: freshnessPoints_def)

lemma freshnessPoints_antimono: "d \<le> d' \<Longrightarrow> freshnessPoints d' \<le> freshnessPoints d"
  by (simp add: freshnessPoints_def)

lemma documentationScore_bounds: "0 \<le> documentationScore r \<and> documentationScore r \<le> 100"
  by (simp add: documentationScore_def points_def)

lemma codeQualityScore_bounds: "0 \<le> codeQualityScore r \<and> codeQualityScore r \<le> 100"
  by (simp add: codeQualityScore_def points_def)

lemma activityScore_bounds: "10 \<le> activityScore r \<and> activityScore r \<le> 100"
  by (simp add: activityScore_def points_def freshnessPoints_def)

section \<open>Bounds of the portfolio dimensions\<close>

lemma organizationScore_range: "organizationScore has_orgs n \<in> {0, 20, 40, 60}"
  by (simp add: organizationScore_def points_def)

lemma technicalDepth_bounds: "0 \<le> technicalDepth rs \<and> technicalDepth rs \<le> 40"
  by (simp add: technicalDepth_def)

lemma impactScore_bounds:
  assumes "list_all in_range rs"
  shows "0 \<le> impactScore rs \<and> impactScore rs \<le> 100"
proof -
  have "0 \<le> sum_list (map s_stars rs)" "0 \<le> sum_list (map s_forks rs)"
    using assms by (auto simp: list_all_iff in_range_def intro!: sum_list_nonneg)
  then show ?thesis by (simp add: impactScore_def)
qed

lemma mean_scores_bounds:
  assumes "rs \<noteq> []" and "list_all in_range rs"
  shows "0 \<le> mean (map s_doc rs) \<and> mean (map s_doc rs) \<le> 100"
    and "0 \<le> mean (map s_code rs) \<and> mean (map s_code rs) \<le> 100"
    and "0 \<le> mean (map s_activity rs) \<and> mean (map s_activity rs) \<le> 100"
  using assms mean_bounds [of "map s_doc rs" 0 100] mean_bounds [of "map s_code rs" 0 100]
    mean_bounds [of "map s_activity rs" 0 100]
  by (auto simp: list_all_iff in_range_def)

lemma portfolioDimensions_bounds:
  assumes "rs \<noteq> []" and "list_all in_range rs"
  shows "list_all (\<lambda>x. 0 \<le> x \<and> x \<le> 100) (dimension_values (portfolioDimensions has_orgs rs))"
  using mean_scores_bounds [OF assms] impactScore_bounds [OF assms(2)] technicalDepth_bounds [of rs]
    organizationScore_range [of has_orgs "length rs"]
  by (auto simp: dimension_values_def portfolioDimensions_def)

lemma weighted_le_85:
  assumes "rs \<noteq> []" and "list_all in_range rs"
  shows "0 \<le> weighted (portfolioDimensions has_orgs rs) \<and> weighted (portfolioDimensions has_orgs rs) \<le> 85"
proof -
  have "organizationScore has_orgs (length rs) \<le> 60" "0 \<le> organizationScore has_orgs (length rs)"
    using organizationScore_range [of has_orgs "length rs"] by auto
  then have "(of_int (organizationScore has_orgs (length rs)) :: rat) \<le> 60"
    "(0 :: rat) \<le> of_int (organizationScore has_orgs (length rs))"
    by simp_all
  moreover have "(of_int (technicalDepth rs) :: rat) \<le> 40" "(0 :: rat) \<le> of_int (technicalDepth rs)"
    using technicalDepth_bounds [of rs] by simp_all
  ultimately show ?thesis
    using mean_scores_bounds [OF assms] impactScore_bounds [OF assms(2)]
    by (simp add: weighted_def portfolioDimensions_def)
qed

text \<open>The blend is a convex combination: the weights are non-negative and sum to one.\<close>

lemma weighted_convex:
  assumes "list_all (\<lambda>x. lo \<le> x \<and> x \<le> hi) (dimension_values d)"
  shows "lo \<le> weighted d \<and> weighted d \<le> hi"
  using assms by (simp add: dimension_values_def weighted_def)

lemma portfolioScore_bounds:
  assumes "rs \<noteq> []" and "list_all in_range rs"
  shows "0 \<le> fst (portfolioScore has_orgs rs) \<and> fst (portfolioScore has_orgs rs) \<le> 85"
  using weighted_le_85 [OF assms, of has_orgs]
    py_round1_ge [of 0 "weighted (portfolioDimensions has_orgs rs)"]
    py_round1_le [of "weighted (portfolioDimensions has_orgs rs)" 850]
  by (simp add: portfolioScore_def Let_def assms(1))

end
