(* ===== verification/Scoring.thy ===== *)
theory Scoring
  imports Contract
begin

text \<open>
  The three per-repository scores of \<open>app.py\<close>: \<open>calculate_documentation_score\<close>,
  \<open>calculate_code_quality_score\<close> and \<open>calculate_activity_score\<close>. Each takes the
  repository as the dictionary GitHub returned (with the fields the fetcher added) and
  adds fixed points per signal; the model keeps the order of the reads, so the first
  exception the Python would raise is the error it returns.
\<close>

section \<open>The scores\<close>

definition add_if :: "bool \<Rightarrow> int \<Rightarrow> int \<Rightarrow> int" where
  "add_if c n score = (if c then score + n else score)"

definition calculate_documentation_score :: "pyval \<Rightarrow> int py" where
  "calculate_documentation_score repo =
     rbind (py_get repo ''readme_exists'' (PBool False)) (\<lambda>readme_exists.
     let score = add_if (truthy readme_exists) 40 0 in
     rbind (py_get repo ''description'' PNone) (\<lambda>description.
     let score = add_if (truthy description) 20 score in
     rbind (py_get repo ''homepage'' PNone) (\<lambda>homepage.
     let score = add_if (truthy homepage) 10 score in
     rbind (py_get repo ''has_wiki'' PNone) (\<lambda>has_wiki.
     let score = add_if (truthy has_wiki) 15 score in
     rbind (py_get repo ''has_pages'' PNone) (\<lambda>has_pages.
     let score = add_if (truthy has_pages) 15 score in
     Inr (min score 100))))))"

definition calculate_code_quality_score :: "pyval \<Rightarrow> int py" where
  "calculate_code_quality_score repo =
     rbind (py_get repo ''languages_count'' (PInt 0)) (\<lambda>languages_count.
     rbind (py_gt languages_count 0) (\<lambda>has_languages.
     let score = add_if has_languages 20 0 in
     rbind (py_get repo ''has_issues'' (PBool False)) (\<lambda>has_issues.
     let score = add_if (truthy has_issues) 15 score in
     rbind (py_get repo ''has_projects'' (PBool False)) (\<lambda>has_projects.
     let score = add_if (truthy has_projects) 15 score in
     rbind (py_get repo ''size'' (PInt 0)) (\<lambda>size.
     rbind (py_gt size 0) (\<lambda>has_size.
     let score = add_if has_size 25 score in
     rbind (py_get repo ''stargazers_count'' (PInt 0)) (\<lambda>stargazers_count.
     rbind (py_gt stargazers_count 0) (\<lambda>has_stars.
     let score = add_if has_stars 25 score in
     Inr (min score 100)))))))))"

definition freshness :: "int \<Rightarrow> int" where
  "freshness days_since_update =
     (if days_since_update < 7 then 40
      else if days_since_update < 30 then 30
      else if days_since_update < 90 then 20
      else 10)"

definition calculate_activity_score :: "datetime \<Rightarrow> pyval \<Rightarrow> int py" where
  "calculate_activity_score now repo =
     rbind (py_get repo ''pushed_at'' (PStr ''2000-01-01'')) (\<lambda>pushed.
     rbind (strptime pushed) (\<lambda>pushed_at.
     let days_since_update = timedelta_days now pushed_at in
     let score = freshness days_since_update in
     rbind (py_get repo ''open_issues_count'' (PInt 0)) (\<lambda>open_issues_count.
     rbind (py_gt open_issues_count 0) (\<lambda>has_open_issues.
     let score = add_if has_open_issues 20 score in
     rbind (py_get repo ''forks_count'' (PInt 0)) (\<lambda>forks_count.
     rbind (py_gt forks_count 0) (\<lambda>has_forks.
     let score = add_if has_forks 20 score in
     rbind (py_get repo ''watchers_count'' (PInt 0)) (\<lambda>watchers_count.
     rbind (py_gt watchers_count 0) (\<lambda>has_watchers.
     let score = add_if has_watchers 20 score in
     Inr (min score 100)))))))))"

lemmas [score_defs] = calculate_documentation_score_def calculate_code_quality_score_def
  calculate_activity_score_def add_if_def freshness_def

section \<open>The typed view of a repository dictionary\<close>

fun is_bool :: "pyval \<Rightarrow> bool" where
  "is_bool (PBool b) = True"
| "is_bool v = False"

fun is_int :: "pyval \<Rightarrow> bool" where
  "is_int (PInt i) = True"
| "is_int v = False"

fun num_val :: "pyval \<Rightarrow> int" where
  "num_val (PInt i) = i"
| "num_val (PBool b) = (if b then 1 else 0)"
| "num_val v = 0"

fun is_text :: "pyval \<Rightarrow> bool" where
  "is_text (PStr s) = True"
| "is_text PNone = True"
| "is_text v = False"

definition field_ok :: "(pyval \<Rightarrow> bool) \<Rightarrow> pydict \<Rightarrow> string \<Rightarrow> bool" where
  "field_ok P kvs k = (case map_of kvs k of None \<Rightarrow> True | Some v \<Rightarrow> P v)"

definition bool_field :: "pydict \<Rightarrow> string \<Rightarrow> bool" where
  "bool_field kvs k = (case map_of kvs k of Some (PBool b) \<Rightarrow> b | _ \<Rightarrow> False)"

definition int_field :: "pydict \<Rightarrow> string \<Rightarrow> int" where
  "int_field kvs k = (case map_of kvs k of Some (PInt i) \<Rightarrow> i | _ \<Rightarrow> 0)"

definition text_field :: "pydict \<Rightarrow> string \<Rightarrow> string option" where
  "text_field kvs k = (case map_of kvs k of Some (PStr s) \<Rightarrow> Some s | _ \<Rightarrow> None)"

definition wt_repo :: "pydict \<Rightarrow> bool" where
  "wt_repo kvs =
     (list_all (field_ok is_bool kvs) [''readme_exists'', ''has_wiki'', ''has_pages'', ''has_issues'',
        ''has_projects''] \<and>
      list_all (field_ok is_text kvs) [''description'', ''homepage''] \<and>
      list_all (field_ok is_int kvs) [''languages_count'', ''size'', ''stargazers_count'',
        ''forks_count'', ''open_issues_count'', ''watchers_count''])"

definition repo_of :: "int \<Rightarrow> pydict \<Rightarrow> repository" where
  "repo_of days kvs =
     \<lparr>r_readme_exists = bool_field kvs ''readme_exists'',
      r_description = text_field kvs ''description'',
      r_homepage = text_field kvs ''homepage'',
      r_has_wiki = bool_field kvs ''has_wiki'',
      r_has_pages = bool_field kvs ''has_pages'',
      r_has_issues = bool_field kvs ''has_issues'',
      r_has_projects = bool_field kvs ''has_projects'',
      r_languages_count = int_field kvs ''languages_count'',
      r_size = int_field kvs ''size'',
      r_stargazers_count = int_field kvs ''stargazers_count'',
      r_forks_count = int_field kvs ''forks_count'',
      r_open_issues_count = int_field kvs ''open_issues_count'',
      r_watchers_count = int_field kvs ''watchers_count'',
      r_days_since_update = days\<rparr>"

definition doc_keys :: "string list" where
  "doc_keys = [''readme_exists'', ''description'', ''homepage'', ''has_wiki'', ''has_pages'']"

section \<open>Reading typed fields\<close>

lemma truthy_bool_field:
  "field_ok is_bool kvs k \<Longrightarrow> \<not> truthy d \<Longrightarrow> truthy (dict_get kvs k d) = bool_field kvs k"
  by (auto simp: field_ok_def dict_get_def bool_field_def split: option.splits pyval.splits)

lemma truthy_text_field:
  "field_ok is_text kvs k \<Longrightarrow> truthy (dict_get kvs k PNone) = nonempty (text_field kvs k)"
  by (auto simp: field_ok_def dict_get_def text_field_def nonempty_def split: option.splits pyval.splits)

lemma py_gt_int_field:
  "field_ok is_int kvs k \<Longrightarrow> py_gt (dict_get kvs k (PInt 0)) n = Inr (n < int_field kvs k)"
  by (auto simp: field_ok_def dict_get_def int_field_def split: option.splits pyval.splits)

lemma wt_repoD:
  assumes "wt_repo kvs"
  shows "field_ok is_bool kvs ''readme_exists''" "field_ok is_bool kvs ''has_wiki''"
    "field_ok is_bool kvs ''has_pages''" "field_ok is_bool kvs ''has_issues''"
    "field_ok is_bool kvs ''has_projects''" "field_ok is_text kvs ''description''"
    "field_ok is_text kvs ''homepage''" "field_ok is_int kvs ''languages_count''"
    "field_ok is_int kvs ''size''" "field_ok is_int kvs ''stargazers_count''"
    "field_ok is_int kvs ''forks_count''" "field_ok is_int kvs ''open_issues_count''"
    "field_ok is_int kvs ''watchers_count''"
  using assms by (simp_all add: wt_repo_def)

lemmas typed_reads = truthy_bool_field truthy_text_field py_gt_int_field

definition sample_fields :: pydict where
  "sample_fields = [(''name'', PStr ''demo''), (''readme_exists'', PBool True),
     (''description'', PStr ''x''), (''homepage'', PNone), (''has_wiki'', PBool False),
     (''has_pages'', PBool False), (''languages_count'', PInt 2), (''has_issues'', PBool True),
     (''has_projects'', PBool False), (''size'', PInt 120), (''stargazers_count'', PInt 0),
     (''pushed_at'', PStr ''2024-03-05T10:20:30Z''), (''open_issues_count'', PInt 0),
     (''forks_count'', PInt 4), (''watchers_count'', PInt 0)]"

lemma sample_wt: "wt_repo sample_fields"
  by (simp add: sample_fields_def wt_repo_def field_ok_def)

lemmas sample_defs = sample_fields_def repo_of_def bool_field_def int_field_def text_field_def
  contract_defs

section \<open>Documentation score\<close>

lemma add_if_points: "add_if c n s = s + points c n"
  by (simp add: add_if_def points_def)

lemma calculate_documentation_score_dict:
  "calculate_documentation_score (PDict kvs) =
     Inr (min 100 (points (truthy (dict_get kvs ''readme_exists'' (PBool False))) 40 +
       points (truthy (dict_get kvs ''description'' PNone)) 20 +
       points (truthy (dict_get kvs ''homepage'' PNone)) 10 +
       points (truthy (dict_get kvs ''has_wiki'' PNone)) 15 +
       points (truthy (dict_get kvs ''has_pages'' PNone)) 15))"
  by (simp add: calculate_documentation_score_def add_if_points Let_def min.commute)

lemma calculate_documentation_score_not_dict:
  "\<not> is_dict repo \<Longrightarrow> calculate_documentation_score repo = Inl AttributeError"
  by (cases repo) (simp_all add: calculate_documentation_score_def)

text \<open>
  C28: for every repository dictionary the documentation score exists and lies between 0
  and 100.
\<close>

theorem documentation_score_bounds:
  "\<exists>s. calculate_documentation_score (PDict kvs) = Inr s \<and> 0 \<le> s \<and> s \<le> 100"
  by (simp add: calculate_documentation_score_dict points_def)

text \<open>
  C24: on a repository whose fields have the types the GitHub API gives them,
  \<open>calculate_documentation_score\<close> computes the contract's \<open>documentationScore\<close> of the
  typed view.
\<close>

theorem documentation_score_refines:
  assumes "wt_repo kvs"
  shows "calculate_documentation_score (PDict kvs) = Inr (documentationScore (repo_of d kvs))"
  using wt_repoD [OF assms]
  by (simp add: calculate_documentation_score_dict documentationScore_def repo_of_def typed_reads)

theorem documentation_score_refines_witness:
  "calculate_documentation_score (PDict sample_fields) =
     Inr (documentationScore (repo_of 3 sample_fields)) \<and>
   documentationScore (repo_of 3 sample_fields) = 60"
  using documentation_score_refines [OF sample_wt, of 3] by (simp add: sample_defs)

theorem documentation_score_error:
  "calculate_documentation_score repo = Inl e \<longleftrightarrow> \<not> is_dict repo \<and> e = AttributeError"
  by (cases repo) (auto simp: calculate_documentation_score_dict calculate_documentation_score_not_dict)

text \<open>
  C27: setting any field of a repository to a true value never lowers its documentation
  score.
\<close>

theorem documentation_score_monotone:
  assumes "truthy v"
  shows "\<exists>s s'. calculate_documentation_score (PDict kvs) = Inr s \<and>
    calculate_documentation_score (PDict (AList.update k v kvs)) = Inr s' \<and> s \<le> s'"
  using assms by (simp add: calculate_documentation_score_dict points_def)

theorem documentation_score_monotone_witness:
  "\<exists>s s'. calculate_documentation_score (PDict sample_fields) = Inr s \<and>
     calculate_documentation_score (PDict (AList.update ''homepage'' (PStr ''h'') sample_fields)) = Inr s' \<and>
     s \<le> s'"
  using documentation_score_monotone [of "PStr ''h''" sample_fields "''homepage''"] by simp

section \<open>Code quality score\<close>

definition numeric_fields :: "string list" where
  "numeric_fields = [''languages_count'', ''size'', ''stargazers_count'']"

lemma calculate_code_quality_score_dict:
  "calculate_code_quality_score (PDict kvs) =
     rbind (py_gt (dict_get kvs ''languages_count'' (PInt 0)) 0) (\<lambda>a.
     rbind (py_gt (dict_get kvs ''size'' (PInt 0)) 0) (\<lambda>d.
     rbind (py_gt (dict_get kvs ''stargazers_count'' (PInt 0)) 0) (\<lambda>e.
       Inr (min 100 (points a 20 + points (truthy (dict_get kvs ''has_issues'' (PBool False))) 15 +
         points (truthy (dict_get kvs ''has_projects'' (PBool False))) 15 + points d 25 +
         points e 25)))))"
  by (cases "py_gt (dict_get kvs ''languages_count'' (PInt 0)) 0";
      cases "py_gt (dict_get kvs ''size'' (PInt 0)) 0";
      cases "py_gt (dict_get kvs ''stargazers_count'' (PInt 0)) 0")
     (simp_all add: calculate_code_quality_score_def add_if_points Let_def min.commute)

lemma py_gt_if: "py_gt v n = (if is_num v then Inr (n < num_val v) else Inl TypeError)"
  by (cases v) simp_all

text \<open>
  The score exists exactly when the three fields compared with \<open>0\<close> hold numbers (an
  absent field counts as \<open>0\<close>); otherwise the comparison raises \<open>TypeError\<close>.
\<close>

theorem code_quality_score_succeeds_iff:
  "succeeds (calculate_code_quality_score (PDict kvs)) \<longleftrightarrow>
     list_all (\<lambda>k. is_num (dict_get kvs k (PInt 0))) numeric_fields"
  by (simp add: calculate_code_quality_score_dict numeric_fields_def py_gt_if)

theorem code_quality_score_error:
  assumes "calculate_code_quality_score repo = Inl e"
  shows "(\<not> is_dict repo \<and> e = AttributeError) \<or> (is_dict repo \<and> e = TypeError)"
proof (cases repo)
  case (PDict kvs)
  with assms show ?thesis
    by (simp add: calculate_code_quality_score_dict py_gt_if split: if_splits)
qed (use assms in \<open>simp_all add: calculate_code_quality_score_def\<close>)

theorem code_quality_score_bounds:
  assumes "calculate_code_quality_score repo = Inr s"
  shows "0 \<le> s \<and> s \<le> 100"
proof (cases repo)
  case (PDict kvs)
  with assms show ?thesis
    by (auto simp: calculate_code_quality_score_dict result_simps points_def)
qed (use assms in \<open>simp_all add: calculate_code_quality_score_def\<close>)

text \<open>
  C25: on a well-typed repository \<open>calculate_code_quality_score\<close> computes the contract's
  \<open>codeQualityScore\<close> of the typed view.
\<close>

theorem code_quality_score_refines:
  assumes "wt_repo kvs"
  shows "calculate_code_quality_score (PDict kvs) = Inr (codeQualityScore (repo_of d kvs))"
  using wt_repoD [OF assms]
  by (simp add: calculate_code_quality_score_dict codeQualityScore_def repo_of_def typed_reads)

theorem code_quality_score_refines_witness:
  "calculate_code_quality_score (PDict sample_fields) =
     Inr (codeQualityScore (repo_of 3 sample_fields)) \<and>
   codeQualityScore (repo_of 3 sample_fields) = 60"
  using code_quality_score_refines [OF sample_wt, of 3] by (simp add: sample_defs)


section \<open>Activity score\<close>

lemma calculate_activity_score_dict:
  "calculate_activity_score now (PDict kvs) =
     rbind (strptime (dict_get kvs ''pushed_at'' (PStr ''2000-01-01''))) (\<lambda>pushed_at.
     rbind (py_gt (dict_get kvs ''open_issues_count'' (PInt 0)) 0) (\<lambda>a.
     rbind (py_gt (dict_get kvs ''forks_count'' (PInt 0)) 0) (\<lambda>b.
     rbind (py_gt (dict_get kvs ''watchers_count'' (PInt 0)) 0) (\<lambda>c.
       Inr (min 100 (freshnessPoints (timedelta_days now pushed_at) + points a 20 + points b 20 +
         points c 20))))))"
  by (cases "strptime (dict_get kvs ''pushed_at'' (PStr ''2000-01-01''))";
      cases "py_gt (dict_get kvs ''open_issues_count'' (PInt 0)) 0";
      cases "py_gt (dict_get kvs ''forks_count'' (PInt 0)) 0";
      cases "py_gt (dict_get kvs ''watchers_count'' (PInt 0)) 0")
     (simp_all add: calculate_activity_score_def add_if_points Let_def min.commute freshness_def
        freshnessPoints_def)

text \<open>
  C5: a repository without \<open>pushed_at\<close> gets the default \<open>'2000-01-01'\<close>, which the
  format \<open>'%Y-%m-%dT%H:%M:%SZ'\<close> does not match: the activity score raises
  \<open>ValueError\<close> instead of treating the repository as old.
\<close>

theorem activity_score_missing_pushed_at:
  assumes "map_of kvs ''pushed_at'' = None"
  shows "calculate_activity_score now (PDict kvs) = Inl ValueError"
  using assms by (simp add: calculate_activity_score_dict dict_get_def strptime_default)

theorem activity_score_missing_pushed_at_witness:
  "calculate_activity_score noon (PDict [(''name'', PStr ''demo''), (''forks_count'', PInt 3)]) =
     Inl ValueError"
  using activity_score_missing_pushed_at [of "[(''name'', PStr ''demo''), (''forks_count'', PInt 3)]" noon]
  by simp

theorem activity_score_null_pushed_at:
  assumes "map_of kvs ''pushed_at'' = Some PNone"
  shows "calculate_activity_score now (PDict kvs) = Inl TypeError"
  using assms by (simp add: calculate_activity_score_dict dict_get_def strptime_def)

theorem activity_score_bounds:
  assumes "calculate_activity_score now repo = Inr s"
  shows "10 \<le> s \<and> s \<le> 100"
proof (cases repo)
  case (PDict kvs)
  with assms show ?thesis
    by (auto simp: calculate_activity_score_dict result_simps points_def freshnessPoints_def)
qed (use assms in \<open>simp_all add: calculate_activity_score_def\<close>)

text \<open>
  C26: on a well-typed repository whose \<open>pushed_at\<close> parses, \<open>calculate_activity_score\<close>
  computes the contract's \<open>activityScore\<close> of the typed view, with the days between the
  clock and the push.
\<close>

theorem activity_score_refines:
  assumes "wt_repo kvs" and "strptime (dict_get kvs ''pushed_at'' (PStr ''2000-01-01'')) = Inr p"
  shows "calculate_activity_score now (PDict kvs) =
    Inr (activityScore (repo_of (timedelta_days now p) kvs))"
  using wt_repoD [OF assms(1)] assms(2)
  by (simp add: calculate_activity_score_dict activityScore_def repo_of_def typed_reads)

theorem activity_score_refines_witness:
  "calculate_activity_score noon (PDict sample_fields) = Inr (activityScore (repo_of 3 sample_fields)) \<and>
   activityScore (repo_of 3 sample_fields) = 60"
proof -
  have "timedelta_days noon
      \<lparr>year = 2024, month = 3, day = 5, hour = 10, minute = 20, second = 30, microsecond = 0\<rparr> = 3"
    by (simp add: noon_def date_defs upt_rec [of _ "numeral _"])
  then show ?thesis
    using activity_score_refines [OF sample_wt, of _ noon] strptime_example
    by (simp add: sample_defs)
qed

text \<open>A later clock never raises the score of the same repository.\<close>

theorem activity_score_decays:
  assumes "to_microseconds now \<le> to_microseconds now'"
    and "calculate_activity_score now (PDict kvs) = Inr s"
  shows "\<exists>s'. calculate_activity_score now' (PDict kvs) = Inr s' \<and> s' \<le> s"
proof -
  from assms(2) obtain p a b c where
    p: "strptime (dict_get kvs ''pushed_at'' (PStr ''2000-01-01'')) = Inr p"
    and a: "py_gt (dict_get kvs ''open_issues_count'' (PInt 0)) 0 = Inr a"
    and b: "py_gt (dict_get kvs ''forks_count'' (PInt 0)) 0 = Inr b"
    and c: "py_gt (dict_get kvs ''watchers_count'' (PInt 0)) 0 = Inr c"
    and s: "s = min 100 (freshnessPoints (timedelta_days now p) + points a 20 + points b 20 + points c 20)"
    by (auto simp: calculate_activity_score_dict result_simps)
  have "timedelta_days now p \<le> timedelta_days now' p"
    using assms(1) by (simp add: timedelta_days_def zdiv_mono1)
  then have "freshnessPoints (timedelta_days now' p) \<le> freshnessPoints (timedelta_days now p)"
    by (rule freshnessPoints_antimono)
  with p a b c s show ?thesis
    by (simp add: calculate_activity_score_dict)
qed

section \<open>Scenarios\<close>

lemma scenario_A:
  "calculate_documentation_score (PDict [(''readme_exists'', PBool True), (''description'', PStr ''x''),
      (''homepage'', PNone), (''has_wiki'', PBool False), (''has_pages'', PBool False)]) = Inr 60"
  by (simp add: score_defs)

lemma scenario_B:
  "calculate_activity_score
     \<lparr>year = 2024, month = 3, day = 8, hour = 12, minute = 0, second = 0, microsecond = 250\<rparr>
     (PDict [(''pushed_at'', PStr ''2024-03-05T10:20:30Z''), (''open_issues_count'', PInt 0),
       (''forks_count'', PInt 0), (''watchers_count'', PInt 0)]) = Inr 40"
  by (simp add: score_defs strptime_def re_defs date_defs upt_rec [of _ "numeral _"])

end
