(* ===== verification/Fetcher.thy ===== *)
theory Fetcher
  imports World Scoring
begin

text \<open>
  \<open>get_enhanced_github_data\<close> and its helpers \<open>get_readme_content\<close> and
  \<open>get_commit_activity\<close>: the profile request, the pagination loop, the three
  enrichment requests and the three scores per repository, the organisations request,
  and the \<open>try\<close> around all of it. The last sections say what the fetch needs of the
  service to return a bundle, and prove that it then does.
\<close>

section \<open>Requests\<close>

definition user_url :: "string \<Rightarrow> string" where
  "user_url username = ''https://api.github.com/users/'' @ username"

definition repos_url :: "string \<Rightarrow> int \<Rightarrow> string" where
  "repos_url username page =
     ''https://api.github.com/users/'' @ username @ ''/repos?sort=updated&per_page=30&page='' @
       str_int page"

definition orgs_url :: "string \<Rightarrow> string" where
  "orgs_url username = ''https://api.github.com/users/'' @ username @ ''/orgs''"

definition readme_url :: "pyval \<Rightarrow> string" where
  "readme_url repo_full_name = ''https://api.github.com/repos/'' @ py_str repo_full_name @ ''/readme''"

definition commit_activity_url :: "pyval \<Rightarrow> string" where
  "commit_activity_url repo_full_name =
     ''https://api.github.com/repos/'' @ py_str repo_full_name @ ''/stats/commit_activity''"

definition requests_get_value :: "env \<Rightarrow> pyval \<Rightarrow> response io" where
  "requests_get_value E url =
     (case url of PStr u \<Rightarrow> requests_get E u | _ \<Rightarrow> io_lift (Inl RequestException))"

section \<open>Enrichment\<close>

definition get_readme_content :: "env \<Rightarrow> pyval \<Rightarrow> pyval io" where
  "get_readme_content E repo_full_name =
     io_catch
       (io_bind (requests_get E (readme_url repo_full_name)) (\<lambda>response.
        if status_code response = 200 then
          io_bind (io_lift (response_json response)) (\<lambda>body.
          io_bind (io_lift (py_get body ''content'' (PStr ''''))) (\<lambda>content.
          io_bind (io_lift (b64_utf8 E content)) (\<lambda>text.
          io_return (PStr (take 500 text)))))
        else io_return PNone))
       (\<lambda>e. io_return PNone)"

definition get_commit_activity :: "env \<Rightarrow> pyval \<Rightarrow> pyval io" where
  "get_commit_activity E repo_full_name =
     io_catch
       (io_bind (requests_get E (commit_activity_url repo_full_name)) (\<lambda>response.
        if status_code response = 200 then io_lift (response_json response)
        else io_return PNone))
       (\<lambda>e. io_return PNone)"

definition enhance_repo :: "env \<Rightarrow> pyval \<Rightarrow> pyval io" where
  "enhance_repo E repo =
     io_bind (io_lift (py_index repo ''full_name'')) (\<lambda>repo_full_name.
     io_bind (get_readme_content E repo_full_name) (\<lambda>readme.
     io_bind (io_lift (py_setitem repo ''readme_exists'' (PBool (readme \<noteq> PNone)))) (\<lambda>repo.
     io_bind (io_lift (py_setitem repo ''readme_preview'' readme)) (\<lambda>repo.
     io_bind (io_lift (py_index repo ''languages_url'')) (\<lambda>lang_url.
     io_bind (requests_get_value E lang_url) (\<lambda>lang_res.
     io_bind (if status_code lang_res = 200 then io_lift (response_json lang_res)
              else io_return (PDict [])) (\<lambda>languages.
     io_bind (io_lift (py_setitem repo ''languages'' languages)) (\<lambda>repo.
     io_bind (io_lift (rbind (py_index repo ''languages'') py_len)) (\<lambda>n.
     io_bind (io_lift (py_setitem repo ''languages_count'' (PInt (int n)))) (\<lambda>repo.
     io_bind (get_commit_activity E repo_full_name) (\<lambda>commits.
     io_bind (io_lift (py_setitem repo ''commit_activity'' commits)) (\<lambda>repo.
     io_bind (io_lift (calculate_documentation_score repo)) (\<lambda>doc.
     io_bind (io_lift (py_setitem repo ''doc_score'' (PInt doc))) (\<lambda>repo.
     io_bind (io_lift (calculate_code_quality_score repo)) (\<lambda>code.
     io_bind (io_lift (py_setitem repo ''code_score'' (PInt code))) (\<lambda>repo.
     io_bind (io_lift (calculate_activity_score (clock E) repo)) (\<lambda>activity.
     io_bind (io_lift (py_setitem repo ''activity_score'' (PInt activity))) (\<lambda>repo.
     io_return repo))))))))))))))))))"

fun io_map :: "('a \<Rightarrow> 'b io) \<Rightarrow> 'a list \<Rightarrow> 'b list io" where
  "io_map f [] w = (Inr [], w)"
| "io_map f (x # xs) w =
     io_then (f x w) (\<lambda>y w1. io_then (io_map f xs w1) (\<lambda>ys w2. (Inr (y # ys), w2)))"

section \<open>Pagination\<close>

function fetch_pages :: "env \<Rightarrow> string \<Rightarrow> int \<Rightarrow> pyval list \<Rightarrow> pyval list io" where
  "fetch_pages E username page repos w =
     (if length repos < 50 then
        io_then (requests_get E (repos_url username page) w) (\<lambda>repos_res w1.
        if status_code repos_res \<noteq> 200 then (Inr repos, w1)
        else
          io_then (io_lift (response_json repos_res) w1) (\<lambda>page_repos w2.
          if \<not> truthy page_repos then (Inr repos, w2)
          else
            io_then (io_lift (py_iter page_repos) w2) (\<lambda>items w3.
            fetch_pages E username (page + 1) (repos @ items) w3)))
      else (Inr repos, w))"
  by pat_completeness auto
termination
  by (relation "measure (\<lambda>(E, username, page, repos, w). 50 - length repos)")
     (auto simp: py_iter_truthy neq_Nil_conv)

declare fetch_pages.simps [simp del]

section \<open>The fetch\<close>

definition get_enhanced_github_data :: "env \<Rightarrow> string \<Rightarrow> pyval io" where
  "get_enhanced_github_data E username =
     (if \<not> truthy (github_token E) then io_return (PStr ''NO_TOKEN'')
      else
        io_catch
          (io_bind (requests_get E (user_url username)) (\<lambda>user_res.
           if status_code user_res \<noteq> 200 then io_return (PStr ''ERROR'')
           else
             io_bind (io_lift (response_json user_res)) (\<lambda>user_data.
             io_bind (fetch_pages E username 1 []) (\<lambda>repos.
             io_bind (io_map (enhance_repo E) repos) (\<lambda>enhanced_repos.
             io_bind (requests_get E (orgs_url username)) (\<lambda>orgs_res.
             io_bind (if status_code orgs_res = 200 then io_lift (response_json orgs_res)
                      else io_return (PList [])) (\<lambda>orgs.
             io_return (PDict [(''user'', user_data), (''repos'', PList enhanced_repos),
               (''orgs'', orgs)]))))))))
          (\<lambda>e. io_bind (st_error (FetchingError e)) (\<lambda>u. io_return (PStr ''ERROR''))))"

lemmas fetch_defs = get_enhanced_github_data_def enhance_repo_def get_readme_content_def
  get_commit_activity_def requests_get_value_def requests_get_def response_json_def st_error_def
  user_url_def repos_url_def orgs_url_def readme_url_def commit_activity_url_def

section \<open>The pagination loop\<close>

text \<open>One iteration of the loop, in terms of the oracle.\<close>

lemma fetch_pages_step:
  "fetch_pages E u page repos w =
     (if length repos < 50 then
        let w1 = w\<lparr>requests := requests w @ [repos_url u page]\<rparr> in
        case http E (length (requests w)) (repos_url u page) of
          None \<Rightarrow> (Inl RequestException, w1)
        | Some r \<Rightarrow>
            if status_code r \<noteq> 200 then (Inr repos, w1)
            else case json_body r of
              None \<Rightarrow> (Inl JSONDecodeError, w1)
            | Some v \<Rightarrow>
                if \<not> truthy v then (Inr repos, w1)
                else case py_iter v of
                  Inl e \<Rightarrow> (Inl e, w1)
                | Inr items \<Rightarrow> fetch_pages E u (page + 1) (repos @ items) w1
      else (Inr repos, w))"
  by (subst fetch_pages.simps)
     (simp add: requests_get_def response_json_def Let_def split: option.splits sum.splits)

lemma fetch_pages_done: "\<not> length repos < 50 \<Longrightarrow> fetch_pages E u page repos w = (Inr repos, w)"
  by (subst fetch_pages_step) simp

lemma fetch_pages_cases [consumes 1, case_names stop more]:
  assumes "length repos < 50"
  obtains (stop) r where
      "fetch_pages E u page repos w = (r, w\<lparr>requests := requests w @ [repos_url u page]\<rparr>)"
      "r = Inr repos \<or> (\<exists>e. r = Inl e)"
    | (more) resp v items where
      "http E (length (requests w)) (repos_url u page) = Some resp" "json_body resp = Some v"
      "py_iter v = Inr items" "items \<noteq> []"
      "fetch_pages E u page repos w =
         fetch_pages E u (page + 1) (repos @ items) (w\<lparr>requests := requests w @ [repos_url u page]\<rparr>)"
proof -
  let ?w1 = "w\<lparr>requests := requests w @ [repos_url u page]\<rparr>"
  have step: "fetch_pages E u page repos w =
      (case http E (length (requests w)) (repos_url u page) of
         None \<Rightarrow> (Inl RequestException, ?w1)
       | Some r \<Rightarrow>
           if status_code r \<noteq> 200 then (Inr repos, ?w1)
           else case json_body r of
             None \<Rightarrow> (Inl JSONDecodeError, ?w1)
           | Some v \<Rightarrow>
               if \<not> truthy v then (Inr repos, ?w1)
               else case py_iter v of
                 Inl e \<Rightarrow> (Inl e, ?w1)
               | Inr items \<Rightarrow> fetch_pages E u (page + 1) (repos @ items) ?w1)"
    using assms by (subst fetch_pages_step) (simp add: Let_def)
  show thesis
  proof (cases "\<exists>resp v items. http E (length (requests w)) (repos_url u page) = Some resp \<and>
      status_code resp = 200 \<and> json_body resp = Some v \<and> truthy v \<and> py_iter v = Inr items")
    case True
    then obtain resp v items where *: "http E (length (requests w)) (repos_url u page) = Some resp"
      "status_code resp = 200" "json_body resp = Some v" "truthy v" "py_iter v = Inr items"
      by blast
    then have "items \<noteq> []" using py_iter_truthy by blast
    with * show ?thesis using step by (intro more [of resp v items]) simp_all
  next
    case False
    then have "\<exists>r. fetch_pages E u page repos w = (r, ?w1) \<and> (r = Inr repos \<or> (\<exists>e. r = Inl e))"
      using step by (auto split: option.splits sum.splits)
    then show ?thesis using stop by blast
  qed
qed


text \<open>Induction over the iterations of the loop.\<close>

lemma fetch_pages_induct [case_names full stop more]:
  assumes full: "\<And>page repos w. \<not> length repos < 50 \<Longrightarrow> P page repos w (Inr repos, w)"
    and stop: "\<And>page repos w r. length repos < 50 \<Longrightarrow> r = Inr repos \<or> (\<exists>e. r = Inl e) \<Longrightarrow>
      P page repos w (r, w\<lparr>requests := requests w @ [repos_url u page]\<rparr>)"
    and more: "\<And>page repos w resp v items. length repos < 50 \<Longrightarrow>
      http E (length (requests w)) (repos_url u page) = Some resp \<Longrightarrow> json_body resp = Some v \<Longrightarrow>
      py_iter v = Inr items \<Longrightarrow> items \<noteq> [] \<Longrightarrow>
      P (page + 1) (repos @ items) (w\<lparr>requests := requests w @ [repos_url u page]\<rparr>)
        (fetch_pages E u (page + 1) (repos @ items) (w\<lparr>requests := requests w @ [repos_url u page]\<rparr>)) \<Longrightarrow>
      P page repos w
        (fetch_pages E u (page + 1) (repos @ items) (w\<lparr>requests := requests w @ [repos_url u page]\<rparr>))"
  shows "P page repos w (fetch_pages E u page repos w)"
proof (induction "50 - length repos" arbitrary: page repos w rule: less_induct)
  case less
  show ?case
  proof (cases "length repos < 50")
    case False
    then show ?thesis using full by (simp add: fetch_pages_done)
  next
    case True
    then show ?thesis
    proof (cases rule: fetch_pages_cases [of repos E u page w])
      case (stop r)
      then show ?thesis using assms(2) True by simp
    next
      case (more resp v items)
      from more(4) True have "50 - length (repos @ items) < 50 - length repos" by (cases items) auto
      then show ?thesis using less more assms(3) [OF True more(1-4)] by simp
    qed
  qed
qed

definition page_urls :: "string \<Rightarrow> int \<Rightarrow> nat \<Rightarrow> string list" where
  "page_urls u page k = map (\<lambda>i. repos_url u (page + int i)) [0..<k]"

lemma page_urls_Suc: "repos_url u page # page_urls u (page + 1) k = page_urls u page (Suc k)"
  by (simp add: page_urls_def upt_rec [of 0] map_Suc_upt [symmetric] add.assoc del: upt_Suc)

lemma fetch_pages_requests:
  "\<exists>k \<le> 50 - length repos.
     snd (fetch_pages E u page repos w) = w\<lparr>requests := requests w @ page_urls u page k\<rparr>"
proof (induction page repos w rule: fetch_pages_induct [where E = E and u = u])
  case (full page repos w)
  then show ?case by (simp add: page_urls_def)
next
  case (stop page repos w r)
  then show ?case by (intro exI [of _ 1]) (simp add: page_urls_def)
next
  case (more page repos w resp v items)
  then obtain k where "k \<le> 50 - length (repos @ items)"
    "snd (fetch_pages E u (page + 1) (repos @ items) (w\<lparr>requests := requests w @ [repos_url u page]\<rparr>)) =
       w\<lparr>requests := requests w @ page_urls u page (Suc k)\<rparr>"
    by (auto simp: page_urls_Suc [symmetric])
  with more(1,5) show ?case by (intro exI [of _ "Suc k"]) (cases items; simp)
qed

lemma fetch_pages_extends:
  "fetch_pages E u page repos w = (Inr rs, w') \<Longrightarrow> \<exists>items. rs = repos @ items"
proof -
  have "\<forall>rs. fst (fetch_pages E u page repos w) = Inr rs \<longrightarrow> (\<exists>items. rs = repos @ items)"
    by (induction page repos w rule: fetch_pages_induct [where E = E and u = u]) auto
  then show "fetch_pages E u page repos w = (Inr rs, w') \<Longrightarrow> \<exists>items. rs = repos @ items" by simp
qed

definition page_size_at_most :: "env \<Rightarrow> nat \<Rightarrow> bool" where
  "page_size_at_most E n =
     (\<forall>i url r v items. http E i url = Some r \<longrightarrow> json_body r = Some v \<longrightarrow> py_iter v = Inr items \<longrightarrow>
        length items \<le> n)"

lemma fetch_pages_length:
  assumes "page_size_at_most E n"
  shows "fetch_pages E u page repos w = (Inr rs, w') \<Longrightarrow> length rs \<le> max (length repos) (49 + n)"
proof -
  have "\<forall>rs. fst (fetch_pages E u page repos w) = Inr rs \<longrightarrow> length rs \<le> max (length repos) (49 + n)"
  proof (induction page repos w rule: fetch_pages_induct [where E = E and u = u])
    case (more page repos w resp v items)
    then have "length items \<le> n" using assms by (auto simp: page_size_at_most_def)
    with more show ?case by auto
  qed auto
  then show "fetch_pages E u page repos w = (Inr rs, w') \<Longrightarrow> length rs \<le> max (length repos) (49 + n)"
    by simp
qed

section \<open>Enrichment of one repository\<close>

text \<open>The two guarded requests never raise, and each sends exactly one request.\<close>

lemma get_readme_content_total:
  "\<exists>v. get_readme_content E fn w = (Inr v, w\<lparr>requests := requests w @ [readme_url fn]\<rparr>) \<and>
     (v = PNone \<or> (\<exists>s. v = PStr s \<and> length s \<le> 500))"
  by (auto simp: get_readme_content_def requests_get_def response_json_def
      split: option.splits io_then_split io_handle_split)

lemma get_commit_activity_total:
  "\<exists>v. get_commit_activity E fn w = (Inr v, w\<lparr>requests := requests w @ [commit_activity_url fn]\<rparr>)"
  by (auto simp: get_commit_activity_def requests_get_def response_json_def
      split: option.splits io_then_split io_handle_split)

text \<open>
  What enrichment adds to a repository: eight fields, written in this order. A field of
  the raw repository under one of these names is overwritten in place; every other field
  keeps its value and its position.
\<close>

record enrichment =
  e_readme :: pyval
  e_languages :: pyval
  e_count :: nat
  e_commits :: pyval
  e_doc :: int
  e_code :: int
  e_activity :: int

definition enrichment_fields :: "enrichment \<Rightarrow> (string \<times> pyval) list" where
  "enrichment_fields e =
     [(''readme_exists'', PBool (e_readme e \<noteq> PNone)), (''readme_preview'', e_readme e),
      (''languages'', e_languages e), (''languages_count'', PInt (int (e_count e))),
      (''commit_activity'', e_commits e), (''doc_score'', PInt (e_doc e)),
      (''code_score'', PInt (e_code e)), (''activity_score'', PInt (e_activity e))]"

definition enrichment_keys :: "string list" where
  "enrichment_keys = [''readme_exists'', ''readme_preview'', ''languages'', ''languages_count'',
     ''commit_activity'', ''doc_score'', ''code_score'', ''activity_score'']"

definition set_fields :: "(string \<times> pyval) list \<Rightarrow> pydict \<Rightarrow> pydict" where
  "set_fields fs kvs = fold (\<lambda>(k, v). AList.update k v) fs kvs"

definition enrich :: "enrichment \<Rightarrow> pydict \<Rightarrow> pydict" where
  "enrich e kvs = set_fields (enrichment_fields e) kvs"

definition enrichment_ok :: "enrichment \<Rightarrow> bool" where
  "enrichment_ok e \<longleftrightarrow>
     (e_readme e = PNone \<or> (\<exists>s. e_readme e = PStr s \<and> length s \<le> 500)) \<and>
     py_len (e_languages e) = Inr (e_count e) \<and>
     0 \<le> e_doc e \<and> e_doc e \<le> 100 \<and> 0 \<le> e_code e \<and> e_code e \<le> 100 \<and>
     10 \<le> e_activity e \<and> e_activity e \<le> 100"

text \<open>What the scores ask of the raw repository: a timestamp that \<open>strptime\<close> reads and
  numbers, where they are present, in the five fields compared with \<open>0\<close>.\<close>

definition scorable :: "pydict \<Rightarrow> bool" where
  "scorable kvs \<longleftrightarrow>
     succeeds (strptime (dict_get kvs ''pushed_at'' (PStr ''2000-01-01''))) \<and>
     list_all (\<lambda>k. is_num (dict_get kvs k (PInt 0)))
       [''size'', ''stargazers_count'', ''open_issues_count'', ''forks_count'', ''watchers_count'']"

lemma map_of_set_fields: "map_of (set_fields fs kvs) = map_of kvs ++ map_of (rev fs)"
  unfolding set_fields_def
  by (induction fs arbitrary: kvs) (auto simp: update_conv' map_add_upd_left fun_eq_iff map_add_def split: option.splits)

lemma requests_get_value_Inr:
  "requests_get_value E v w = (Inr r, w') \<Longrightarrow>
     \<exists>url. v = PStr url \<and> w' = w\<lparr>requests := requests w @ [url]\<rparr>"
  by (cases v) (auto simp: requests_get_value_def requests_get_def split: option.splits)

lemma enhance_repo_Inr:
  assumes "enhance_repo E repo w = (Inr repo', w')"
  obtains kvs fn url e where
    "repo = PDict kvs" "map_of kvs ''full_name'' = Some fn" "map_of kvs ''languages_url'' = Some (PStr url)"
    "repo' = PDict (enrich e kvs)" "enrichment_ok e"
    "w' = w\<lparr>requests := requests w @ [readme_url fn, url, commit_activity_url fn]\<rparr>"
    "scorable kvs"
proof -
  from assms obtain kvs where kvs: "repo = PDict kvs"
    by (cases repo) (auto simp: enhance_repo_def)
  have readme: "get_readme_content E fn w = (Inr v, w1) \<Longrightarrow>
      w1 = w\<lparr>requests := requests w @ [readme_url fn]\<rparr> \<and> (v = PNone \<or> (\<exists>s. v = PStr s \<and> length s \<le> 500))"
    for fn w v w1 using get_readme_content_total [of E fn w] by auto
  have commits: "get_commit_activity E fn w = (Inr v, w1) \<Longrightarrow>
      w1 = w\<lparr>requests := requests w @ [commit_activity_url fn]\<rparr>" for fn w v w1
    using get_commit_activity_total [of E fn w] by auto
  show thesis
    using assms unfolding kvs enhance_repo_def
    apply simp
    apply (erule io_then_InrE, clarsimp)+
  proof goal_cases
    case (1 fn readme w1 lang_url lang_res w2 languages w3 n commits doc code act)
    let ?e = "\<lparr>e_readme = readme, e_languages = languages, e_count = n, e_commits = commits,
      e_doc = doc, e_code = code, e_activity = act\<rparr>"
    from 1(4) obtain url where url: "lang_url = PStr url" "w2 = w1\<lparr>requests := requests w1 @ [url]\<rparr>"
      by (auto dest: requests_get_value_Inr)
    have w3: "w3 = w2" using 1(5) by (simp split: if_splits)
    have "enrichment_ok ?e"
      using readme [OF 1(2)] 1(6,8) code_quality_score_bounds [OF 1(9)] activity_score_bounds [OF 1(10)]
      by (auto simp: enrichment_ok_def update_conv' calculate_documentation_score_dict points_def)
    moreover have "repo' = PDict (enrich ?e kvs)"
      using 1(11) by (simp add: enrich_def set_fields_def enrichment_fields_def)
    moreover have "w' = w\<lparr>requests := requests w @ [readme_url fn, url, commit_activity_url fn]\<rparr>"
      using readme [OF 1(2)] commits [OF 1(7)] url w3 by simp
    moreover have "scorable kvs"
      using 1(9,10)
      by (auto simp: scorable_def calculate_code_quality_score_dict calculate_activity_score_dict
          result_simps py_gt_if succeeds_iff split: if_splits)
    ultimately show ?case
      using 1(1,3) url that [of kvs fn url ?e]
      by (auto simp: kvs update_conv' split: option.splits)
  qed
qed


definition repo_requests :: "pyval \<Rightarrow> string list" where
  "repo_requests repo =
     (case py_index repo ''full_name'' of
        Inr fn \<Rightarrow>
          (case py_index repo ''languages_url'' of
             Inr (PStr url) \<Rightarrow> [readme_url fn, url, commit_activity_url fn]
           | _ \<Rightarrow> [])
      | _ \<Rightarrow> [])"

definition enriched_from :: "pyval \<Rightarrow> pyval \<Rightarrow> bool" where
  "enriched_from raw repo \<longleftrightarrow>
     (\<exists>kvs e. raw = PDict kvs \<and> scorable kvs \<and> repo = PDict (enrich e kvs) \<and> enrichment_ok e)"

lemma enhance_repo_enriched:
  assumes "enhance_repo E raw w = (Inr repo, w')"
  shows "enriched_from raw repo \<and> w' = w\<lparr>requests := requests w @ repo_requests raw\<rparr>"
  using assms by (rule enhance_repo_Inr) (auto simp: enriched_from_def repo_requests_def)

lemma io_map_enhance:
  "io_map (enhance_repo E) raws w = (Inr repos, w') \<Longrightarrow>
     list_all2 enriched_from raws repos \<and>
     w' = w\<lparr>requests := requests w @ concat (map repo_requests raws)\<rparr>"
proof (induction raws arbitrary: repos w)
  case Nil
  then show ?case by simp
next
  case (Cons raw raws)
  from Cons.prems obtain repo w1 rest where 1: "enhance_repo E raw w = (Inr repo, w1)"
    and 2: "io_map (enhance_repo E) raws w1 = (Inr rest, w')" and 3: "repos = repo # rest"
    by (auto elim!: io_then_InrE)
  show ?case using enhance_repo_enriched [OF 1] Cons.IH [OF 2] 3 by simp
qed

lemma fetch_succeeds:
  assumes "get_enhanced_github_data E u w = (Inr (PDict kvs), w')"
  obtains user raws repos orgs k where
    "kvs = [(''user'', user), (''repos'', PList repos), (''orgs'', orgs)]"
    "list_all2 enriched_from raws repos" "k \<le> 50"
    "w' = w\<lparr>requests := requests w @ [user_url u] @ page_urls u 1 k @
       concat (map repo_requests raws) @ [orgs_url u]\<rparr>"
    "\<forall>n. page_size_at_most E n \<longrightarrow> length raws \<le> 49 + n"
proof -
  note rule = that
  have main: thesis
    if p: "requests_get E (user_url u) w = (Inr x, w1)" "fetch_pages E u 1 [] w1 = (Inr raws, w2)"
      "io_map (enhance_repo E) raws w2 = (Inr repos, w3)"
      "requests_get E (orgs_url u) w3 = (Inr r, w')"
      "kvs = [(''user'', a), (''repos'', PList repos), (''orgs'', b)]"
    for x w1 raws w2 repos w3 r a b
  proof -
    obtain k where "k \<le> 50" "w2 = w1\<lparr>requests := requests w1 @ page_urls u 1 k\<rparr>"
      using fetch_pages_requests [of "[]" E u 1 w1] p(2) by auto
    moreover have "\<forall>n. page_size_at_most E n \<longrightarrow> length raws \<le> 49 + n"
      using fetch_pages_length [OF _ p(2)] by auto
    ultimately show thesis
      using p(1,4) [THEN requests_get_Inr] io_map_enhance [OF p(3)] p(5)
      by (intro rule [of a repos b raws k]) simp_all
  qed
  show thesis
    using assms unfolding get_enhanced_github_data_def
    apply (simp split: if_splits)
    apply (erule io_handle_InrE)
     apply ((erule io_then_InrE, clarsimp split: if_splits)+)[1]
      apply (rule main; assumption)
     apply (rule main; assumption)
    apply (simp add: st_error_def)
    done
qed

lemma repo_requests_length: "length (repo_requests r) \<le> 3"
  by (simp add: repo_requests_def split: sum.splits pyval.splits)

lemma length_concat_le:
  "(\<And>x. x \<in> set xs \<Longrightarrow> length (f x) \<le> n) \<Longrightarrow> length (concat (map f xs)) \<le> n * length xs"
  by (induction xs) (auto simp: add_le_mono)


section \<open>Enrichment is append-only\<close>

lemma keys_set_fields: "\<exists>new. map fst (set_fields fs kvs) = map fst kvs @ new \<and> set new \<subseteq> set (map fst fs)"
  unfolding set_fields_def
proof (induction fs arbitrary: kvs)
  case (Cons f fs)
  obtain k v where f: "f = (k, v)" by (cases f)
  obtain new where "map fst (fold (\<lambda>(k, v). AList.update k v) fs (AList.update k v kvs)) =
      map fst (AList.update k v kvs) @ new" "set new \<subseteq> set (map fst fs)"
    using Cons by blast
  then show ?case by (auto simp: f update_keys)
qed simp

lemma enrichment_fields_keys: "map fst (enrichment_fields e) = enrichment_keys"
  by (simp add: enrichment_fields_def enrichment_keys_def)

lemma enrich_other: "k \<notin> set enrichment_keys \<Longrightarrow> map_of (enrich e kvs) k = map_of kvs k"
  by (simp add: enrich_def map_of_set_fields map_add_def enrichment_fields_def enrichment_keys_def)

lemma enrich_scores:
  "map_of (enrich e kvs) ''doc_score'' = Some (PInt (e_doc e))"
  "map_of (enrich e kvs) ''code_score'' = Some (PInt (e_code e))"
  "map_of (enrich e kvs) ''activity_score'' = Some (PInt (e_activity e))"
  "map_of (enrich e kvs) ''languages'' = Some (e_languages e)"
  "map_of (enrich e kvs) ''languages_count'' = Some (PInt (int (e_count e)))"
  "map_of (enrich e kvs) ''readme_exists'' = Some (PBool (e_readme e \<noteq> PNone))"
  by (simp_all add: enrich_def map_of_set_fields map_add_def enrichment_fields_def)

text \<open>
  C8: enrichment never removes or reorders a field of the raw repository: the keys of the
  result are the raw keys followed by new enrichment keys, and every field that is not an
  enrichment field keeps its value.
\<close>

theorem enrichment_append_only:
  assumes "enhance_repo E (PDict kvs) w = (Inr repo', w')"
  shows "\<exists>kvs' new. repo' = PDict kvs' \<and> map fst kvs' = map fst kvs @ new \<and>
    set new \<subseteq> set enrichment_keys \<and> (\<forall>k. k \<notin> set enrichment_keys \<longrightarrow> map_of kvs' k = map_of kvs k)"
  using assms
proof (rule enhance_repo_Inr)
  fix kvs0 e assume *: "PDict kvs = PDict kvs0" "repo' = PDict (enrich e kvs0)"
  obtain new where "map fst (enrich e kvs) = map fst kvs @ new" "set new \<subseteq> set enrichment_keys"
    using keys_set_fields [of "enrichment_fields e" kvs] by (auto simp: enrich_def enrichment_fields_keys)
  then show ?thesis using * by (auto simp: enrich_other)
qed

section \<open>An unguarded request\<close>

text \<open>The request for the languages of a repository is outside any \<open>try\<close>: when it
  fails, enrichment raises after two requests.\<close>

text \<open>
  C12: when the request for the languages of a repository is not answered, \<open>enhance_repo\<close>
  raises \<open>RequestException\<close> after the README request and the languages request; the
  \<open>try\<close> of the fetch then turns the whole fetch into \<open>ERROR\<close>.
\<close>

theorem languages_failure_raises:
  assumes "map_of kvs ''full_name'' = Some fn" "map_of kvs ''languages_url'' = Some (PStr url)"
    and "http E (Suc (length (requests w))) url = None"
  shows "enhance_repo E (PDict kvs) w =
    (Inl RequestException, w\<lparr>requests := requests w @ [readme_url fn, url]\<rparr>)"
proof -
  obtain v where "get_readme_content E fn w = (Inr v, w\<lparr>requests := requests w @ [readme_url fn]\<rparr>)"
    using get_readme_content_total by blast
  then show ?thesis
    using assms by (simp add: enhance_repo_def update_conv' requests_get_value_def requests_get_def)
qed

section \<open>Outcomes of the fetch\<close>

text \<open>The fetch and its parts change nothing of the world but the list of requests,
  whether they return or raise.\<close>

definition only_requests :: "world \<Rightarrow> world \<Rightarrow> bool" where
  "only_requests w w' \<longleftrightarrow> (\<exists>rs. w' = w\<lparr>requests := requests w @ rs\<rparr>)"

lemma only_requests_refl [simp]: "only_requests w w"
  by (auto simp: only_requests_def intro: exI [of _ "[]"])

lemma only_requests_trans: "only_requests w w1 \<Longrightarrow> only_requests w1 w2 \<Longrightarrow> only_requests w w2"
  by (auto simp: only_requests_def)

lemma only_requests_step [simp]: "only_requests w (w\<lparr>requests := requests w @ rs\<rparr>)"
  by (auto simp: only_requests_def)

lemma only_requestsD: "only_requests w w' \<Longrightarrow> shown w' = shown w \<and> prompts w' = prompts w"
  by (auto simp: only_requests_def)

lemma io_then_frame:
  assumes "only_requests w (snd r)"
    and "\<And>x w1. r = (Inr x, w1) \<Longrightarrow> only_requests w1 (snd (f x w1))"
  shows "only_requests w (snd (io_then r f))"
  using assms by (cases r rule: io_then_cases) (auto intro: only_requests_trans)

lemma io_handle_frame:
  assumes "only_requests w (snd r)"
    and "\<And>e w1. r = (Inl e, w1) \<Longrightarrow> only_requests w1 (snd (h e w1))"
  shows "only_requests w (snd (io_handle r h))"
  using assms by (cases r rule: io_then_cases) (auto intro: only_requests_trans)

lemma requests_get_frame [simp]: "only_requests w (snd (requests_get E url w))"
  by (simp add: requests_get_def split: option.splits)

lemma requests_get_value_frame [simp]: "only_requests w (snd (requests_get_value E v w))"
  by (cases v) (simp_all add: requests_get_value_def)

lemma get_readme_content_frame [simp]: "only_requests w (snd (get_readme_content E fn w))"
  using get_readme_content_total [of E fn w] by auto

lemma get_commit_activity_frame [simp]: "only_requests w (snd (get_commit_activity E fn w))"
  using get_commit_activity_total [of E fn w] by auto

lemma fetch_pages_frame [simp]: "only_requests w (snd (fetch_pages E u page repos w))"
  using fetch_pages_requests [of repos E u page w] by auto

lemma enhance_repo_frame [simp]: "only_requests w (snd (enhance_repo E repo w))"
  unfolding enhance_repo_def io_bind_apply
  by (intro io_then_frame) (simp_all split: if_splits)

lemma io_map_frame [simp]: "only_requests w (snd (io_map (enhance_repo E) repos w))"
  by (induction repos arbitrary: w) (auto intro!: io_then_frame)


lemma fetch_outcome:
  "\<exists>v. fst (get_enhanced_github_data E u w) = Inr v \<and>
     (v = PStr ''NO_TOKEN'' \<or> v = PStr ''ERROR'' \<or> is_dict v)"
  by (auto simp: get_enhanced_github_data_def st_error_def split: io_handle_split io_then_split)

text \<open>
  C19: \<open>get_enhanced_github_data\<close> never raises: it returns one of the two sentinels or a
  dictionary, and it has only sent requests, or it returns \<open>ERROR\<close> having shown the
  exception it caught.
\<close>

theorem fetch_never_raises:
  "\<exists>v w'. get_enhanced_github_data E u w = (Inr v, w') \<and>
     (v = PStr ''NO_TOKEN'' \<or> v = PStr ''ERROR'' \<or> is_dict v) \<and>
     (only_requests w w' \<or>
      (v = PStr ''ERROR'' \<and>
       (\<exists>e w1. only_requests w w1 \<and> w' = w1\<lparr>shown := shown w1 @ [FetchingError e]\<rparr>)))"
proof -
  obtain v w' where r: "get_enhanced_github_data E u w = (Inr v, w')"
    and v: "v = PStr ''NO_TOKEN'' \<or> v = PStr ''ERROR'' \<or> is_dict v"
    using fetch_outcome [of E u w] by (cases "get_enhanced_github_data E u w") auto
  have "only_requests w w' \<or>
      (v = PStr ''ERROR'' \<and>
       (\<exists>e w1. only_requests w w1 \<and> w' = w1\<lparr>shown := shown w1 @ [FetchingError e]\<rparr>))"
  proof (cases "truthy (github_token E)")
    case False
    then show ?thesis using r by (simp add: get_enhanced_github_data_def)
  next
    case True
    define m where "m = io_bind (requests_get E (user_url u)) (\<lambda>user_res.
           if status_code user_res \<noteq> 200 then io_return (PStr ''ERROR'')
           else
             io_bind (io_lift (response_json user_res)) (\<lambda>user_data.
             io_bind (fetch_pages E u 1 []) (\<lambda>repos.
             io_bind (io_map (enhance_repo E) repos) (\<lambda>enhanced_repos.
             io_bind (requests_get E (orgs_url u)) (\<lambda>orgs_res.
             io_bind (if status_code orgs_res = 200 then io_lift (response_json orgs_res)
                      else io_return (PList [])) (\<lambda>orgs.
             io_return (PDict [(''user'', user_data), (''repos'', PList enhanced_repos),
               (''orgs'', orgs)])))))))"
    have frame: "only_requests w (snd (m w))"
      unfolding m_def io_bind_apply
      by ((intro io_then_frame conjI impI | simp split: if_splits)+)
    have "get_enhanced_github_data E u w =
        io_handle (m w) (\<lambda>e. io_bind (st_error (FetchingError e)) (\<lambda>u. io_return (PStr ''ERROR'')))"
      using True by (simp add: get_enhanced_github_data_def m_def)
    then show ?thesis
      using r frame by (cases "m w" rule: io_then_cases) (auto simp: st_error_def)
  qed
  with r v show ?thesis by blast
qed

theorem fetch_user_not_found:
  assumes "truthy (github_token E)" "http E (length (requests w)) (user_url u) = Some r"
    "status_code r \<noteq> 200"
  shows "get_enhanced_github_data E u w = (Inr (PStr ''ERROR''), w\<lparr>requests := requests w @ [user_url u]\<rparr>)"
  using assms by (simp add: get_enhanced_github_data_def requests_get_def)

theorem fetch_user_unreachable:
  assumes "truthy (github_token E)" "http E (length (requests w)) (user_url u) = None"
  shows "get_enhanced_github_data E u w =
    (Inr (PStr ''ERROR''),
     w\<lparr>requests := requests w @ [user_url u], shown := shown w @ [FetchingError RequestException]\<rparr>)"
  using assms by (simp add: get_enhanced_github_data_def requests_get_def st_error_def)

text \<open>With the message of a caught exception, the fetch only appends to the logs.\<close>

lemma only_requests_grows: "only_requests w w' \<Longrightarrow> grows w w'"
  by (auto simp: only_requests_def)

lemma fetch_pages_grows [simp, history]: "grows w (snd (fetch_pages E u page repos w))"
  by (rule only_requests_grows) simp

lemma io_map_enhance_grows [simp, history]: "grows w (snd (io_map (enhance_repo E) repos w))"
  by (rule only_requests_grows) simp

lemma fetch_grows [simp, history]: "grows w (snd (get_enhanced_github_data E u w))"
  unfolding get_enhanced_github_data_def io_bind_apply io_catch_apply
  by ((intro history conjI impI | simp split: if_splits)+)

section \<open>A service that answers\<close>

text \<open>
  What the fetch needs of the service to return a bundle. \<open>answers E url r\<close>: the URL is
  answered with \<open>r\<close> whenever it is requested. A repository of a page can be enriched
  when it names itself and the URL of its languages, that URL is answered with a sized
  value or with a status other than 200, and its fields can be scored. Nothing is asked
  of the README and the commit statistics: those requests are guarded.
\<close>

definition answers :: "env \<Rightarrow> string \<Rightarrow> response \<Rightarrow> bool" where
  "answers E url r \<longleftrightarrow> (\<forall>i. http E i url = Some r)"

definition languages_of :: "response \<Rightarrow> pyval py" where
  "languages_of r = (if status_code r = 200 then response_json r else Inr (PDict []))"

definition enrichable :: "env \<Rightarrow> (pydict \<Rightarrow> pyval \<Rightarrow> bool) \<Rightarrow> pyval \<Rightarrow> bool" where
  "enrichable E P repo \<longleftrightarrow>
     (\<exists>kvs fn url r l. repo = PDict kvs \<and> map_of kvs ''full_name'' = Some fn \<and>
        map_of kvs ''languages_url'' = Some (PStr url) \<and> answers E url r \<and>
        languages_of r = Inr l \<and> succeeds (py_len l) \<and> scorable kvs \<and> P kvs l)"

definition serves_pages :: "env \<Rightarrow> string \<Rightarrow> (pydict \<Rightarrow> pyval \<Rightarrow> bool) \<Rightarrow> bool" where
  "serves_pages E u P \<longleftrightarrow>
     (\<forall>page. \<exists>r. answers E (repos_url u page) r \<and>
        (status_code r = 200 \<longrightarrow>
           (\<exists>body. json_body r = Some body \<and>
              (truthy body \<longrightarrow> (\<exists>items. body = PList items \<and> list_all (enrichable E P) items)))))"

definition well_served :: "env \<Rightarrow> string \<Rightarrow> (pydict \<Rightarrow> pyval \<Rightarrow> bool) \<Rightarrow> bool" where
  "well_served E u P \<longleftrightarrow>
     truthy (github_token E) \<and>
     (\<exists>r. answers E (user_url u) r \<and> status_code r = 200 \<and> json_body r \<noteq> None) \<and>
     serves_pages E u P \<and>
     (\<exists>r. answers E (orgs_url u) r \<and> (status_code r = 200 \<longrightarrow> json_body r \<noteq> None))"

text \<open>The repositories of the first page, when it is answered with a list.\<close>

definition first_page :: "env \<Rightarrow> string \<Rightarrow> pyval list" where
  "first_page E u =
     (case http E 0 (repos_url u 1) of
        Some r \<Rightarrow>
          (if status_code r = 200 then (case json_body r of Some (PList items) \<Rightarrow> items | _ \<Rightarrow> [])
           else [])
      | None \<Rightarrow> [])"

text \<open>The repository as enrichment leaves it, with what was asked of the raw repository
  and of the answer to its languages request.\<close>

definition served_from :: "(pydict \<Rightarrow> pyval \<Rightarrow> bool) \<Rightarrow> pyval \<Rightarrow> pyval \<Rightarrow> bool" where
  "served_from P raw repo \<longleftrightarrow>
     enriched_from raw repo \<and>
     (\<exists>kvs l. raw = PDict kvs \<and> py_index repo ''languages'' = Inr l \<and> P kvs l)"

lemma answersD: "answers E url r \<Longrightarrow> http E i url = Some r"
  by (simp add: answers_def)

lemma requests_get_answers:
  "answers E url r \<Longrightarrow> requests_get E url w = (Inr r, w\<lparr>requests := requests w @ [url]\<rparr>)"
  by (simp add: requests_get_def answersD)

lemma enhance_repo_succeeds:
  assumes "map_of kvs ''full_name'' = Some fn" "map_of kvs ''languages_url'' = Some (PStr url)"
    and "answers E url r" "languages_of r = Inr l" "succeeds (py_len l)" "scorable kvs"
  shows "\<exists>repo w'. enhance_repo E (PDict kvs) w = (Inr repo, w') \<and> py_index repo ''languages'' = Inr l"
proof -
  obtain readme where readme:
    "get_readme_content E fn w = (Inr readme, w\<lparr>requests := requests w @ [readme_url fn]\<rparr>)"
    using get_readme_content_total [of E fn w] by blast
  let ?w2 = "w\<lparr>requests := requests w @ [readme_url fn, url]\<rparr>"
  obtain commits where commits:
    "get_commit_activity E fn ?w2 = (Inr commits, ?w2\<lparr>requests := requests ?w2 @ [commit_activity_url fn]\<rparr>)"
    using get_commit_activity_total [of E fn ?w2] by blast
  obtain n where n: "py_len l = Inr n" using assms(5) by (auto simp: succeeds_iff)
  obtain pushed where pushed: "strptime (dict_get kvs ''pushed_at'' (PStr ''2000-01-01'')) = Inr pushed"
    using assms(6) by (auto simp: scorable_def succeeds_iff)
  have num: "is_num (dict_get kvs k (PInt 0))"
    if "k \<in> {''size'', ''stargazers_count'', ''open_issues_count'', ''forks_count'', ''watchers_count''}" for k
    using assms(6) that by (auto simp: scorable_def)
  show ?thesis
    using assms(1-4) readme commits n pushed num
    by (simp add: enhance_repo_def requests_get_value_def requests_get_answers languages_of_def
        calculate_documentation_score_dict calculate_code_quality_score_dict
        calculate_activity_score_dict update_conv' py_gt_if split: if_splits)
qed

lemma enhance_repo_served:
  assumes "enrichable E P raw"
  shows "\<exists>repo w'. enhance_repo E raw w = (Inr repo, w') \<and> served_from P raw repo"
proof -
  from assms obtain kvs fn url r l where *: "raw = PDict kvs" "map_of kvs ''full_name'' = Some fn"
    "map_of kvs ''languages_url'' = Some (PStr url)" "answers E url r" "languages_of r = Inr l"
    "succeeds (py_len l)" "scorable kvs" "P kvs l"
    by (auto simp: enrichable_def)
  from enhance_repo_succeeds [OF *(2-7), of w] obtain repo w' where
    "enhance_repo E raw w = (Inr repo, w')" "py_index repo ''languages'' = Inr l"
    using *(1) by blast
  then show ?thesis
    using * enhance_repo_enriched [of E raw w repo w'] by (auto simp: served_from_def)
qed

lemma io_map_served:
  "list_all (enrichable E P) raws \<Longrightarrow>
     \<exists>repos w'. io_map (enhance_repo E) raws w = (Inr repos, w') \<and> list_all2 (served_from P) raws repos"
proof (induction raws arbitrary: w)
  case Nil
  then show ?case by simp
next
  case (Cons raw raws)
  then obtain repo w1 where 1: "enhance_repo E raw w = (Inr repo, w1)" "served_from P raw repo"
    using enhance_repo_served [of E P raw w] by auto
  from Cons obtain repos w' where "io_map (enhance_repo E) raws w1 = (Inr repos, w')"
    "list_all2 (served_from P) raws repos"
    by force
  with 1 show ?case by simp
qed

lemma fetch_pages_served:
  assumes "serves_pages E u P"
  shows "list_all (enrichable E P) repos \<Longrightarrow>
    \<exists>raws w'. fetch_pages E u page repos w = (Inr raws, w') \<and> list_all (enrichable E P) raws"
proof (induction "50 - length repos" arbitrary: page repos w rule: less_induct)
  case less
  let ?w1 = "w\<lparr>requests := requests w @ [repos_url u page]\<rparr>"
  obtain r where r: "http E (length (requests w)) (repos_url u page) = Some r"
    and body: "status_code r = 200 \<Longrightarrow> \<exists>body. json_body r = Some body \<and>
      (truthy body \<longrightarrow> (\<exists>items. body = PList items \<and> list_all (enrichable E P) items))"
    using assms [unfolded serves_pages_def, THEN spec, of page] by (auto simp: answers_def)
  show ?case
  proof (cases "length repos < 50 \<and> status_code r = 200 \<and> (\<exists>v. json_body r = Some v \<and> truthy v)")
    case False
    then have "fetch_pages E u page repos w = (Inr repos, w) \<or>
        fetch_pages E u page repos w = (Inr repos, ?w1)"
      using r body by (subst (1 2) fetch_pages_step) (auto simp: Let_def)
    then show ?thesis using less.prems by auto
  next
    case True
    then obtain items where items: "json_body r = Some (PList items)" "items \<noteq> []"
      "list_all (enrichable E P) items"
      using body by auto
    then have "fetch_pages E u page repos w = fetch_pages E u (page + 1) (repos @ items) ?w1"
      using True r by (subst fetch_pages_step) (simp add: Let_def)
    moreover have "50 - length (repos @ items) < 50 - length repos"
      using True items(2) by (cases items) auto
    ultimately show ?thesis using less.hyps [of "repos @ items"] less.prems items(3) by simp
  qed
qed

lemma fetch_pages_first:
  assumes "serves_pages E u P" "fetch_pages E u 1 [] w = (Inr raws, w')"
  shows "\<exists>more. raws = first_page E u @ more"
proof -
  let ?w1 = "w\<lparr>requests := requests w @ [repos_url u 1]\<rparr>"
  obtain r where r: "answers E (repos_url u 1) r"
    and body: "status_code r = 200 \<Longrightarrow> \<exists>body. json_body r = Some body \<and>
      (truthy body \<longrightarrow> (\<exists>items. body = PList items))"
    using assms(1) [unfolded serves_pages_def, THEN spec, of 1] by auto
  show ?thesis
  proof (cases "status_code r = 200 \<and> (\<exists>v. json_body r = Some v \<and> truthy v)")
    case False
    then have "first_page E u = []"
      using r by (auto simp: first_page_def answersD split: option.splits pyval.splits)
    then show ?thesis by simp
  next
    case True
    then obtain items where items: "json_body r = Some (PList items)" "items \<noteq> []"
      using body by auto
    then have "fetch_pages E u 1 [] w = fetch_pages E u (1 + 1) ([] @ items) ?w1"
      using True r by (subst fetch_pages_step) (simp add: Let_def answersD)
    then obtain more where "raws = ([] @ items) @ more"
      using assms(2) fetch_pages_extends [of E u "1 + 1" "[] @ items" ?w1 raws w'] by auto
    moreover have "first_page E u = items"
      using True r items by (simp add: first_page_def answersD)
    ultimately show ?thesis by simp
  qed
qed

text \<open>The fetch from a service that answers: the bundle, the repositories of the pages
  behind its own, and the first page at their head.\<close>

lemma fetch_served:
  assumes "well_served E u P"
  obtains user raws repos orgs more w' where
    "get_enhanced_github_data E u w =
       (Inr (PDict [(''user'', user), (''repos'', PList repos), (''orgs'', orgs)]), w')"
    "list_all2 (served_from P) raws repos" "raws = first_page E u @ more"
    "\<exists>r. answers E (user_url u) r \<and> json_body r = Some user"
proof -
  from assms obtain ru ro user where token: "truthy (github_token E)"
    and ru: "answers E (user_url u) ru" "status_code ru = 200" "json_body ru = Some user"
    and pages: "serves_pages E u P"
    and ro: "answers E (orgs_url u) ro" "status_code ro = 200 \<Longrightarrow> json_body ro \<noteq> None"
    by (auto simp: well_served_def)
  let ?w1 = "w\<lparr>requests := requests w @ [user_url u]\<rparr>"
  obtain raws w2 where raws: "fetch_pages E u 1 [] ?w1 = (Inr raws, w2)" "list_all (enrichable E P) raws"
    using fetch_pages_served [OF pages, of "[]" 1 ?w1] by auto
  obtain repos w3 where repos: "io_map (enhance_repo E) raws w2 = (Inr repos, w3)"
    "list_all2 (served_from P) raws repos"
    using io_map_served [OF raws(2), of w2] by auto
  obtain more where more: "raws = first_page E u @ more"
    using fetch_pages_first [OF pages raws(1)] by blast
  have "\<exists>orgs w'. get_enhanced_github_data E u w =
      (Inr (PDict [(''user'', user), (''repos'', PList repos), (''orgs'', orgs)]), w')"
    using token ru ro raws(1) repos(1)
    by (cases "status_code ro = 200")
      (auto simp: get_enhanced_github_data_def requests_get_answers response_json_def)
  then show thesis using that repos(2) more ru by blast
qed

text \<open>
  C13: a service that answers the profile, the pages, the languages of every repository
  and the organisations as the API does makes \<open>get_enhanced_github_data\<close> return a bundle:
  no sentinel and no exception. The repositories of the bundle are those of the pages,
  enriched, beginning with the first page; the README and the commit statistics may
  fail in any way.
\<close>

theorem fetch_returns_bundle:
  assumes "well_served E u P"
  shows "\<exists>user raws repos orgs more w'. get_enhanced_github_data E u w =
      (Inr (PDict [(''user'', user), (''repos'', PList repos), (''orgs'', orgs)]), w') \<and>
    list_all2 (served_from P) raws repos \<and> raws = first_page E u @ more"
  using assms by (rule fetch_served [where w = w]) blast

section \<open>Three profiles\<close>

definition raw_repo :: pyval where
  "raw_repo = PDict [(''name'', PStr ''demo''), (''full_name'', PStr ''u/demo''),
     (''description'', PStr ''x''), (''languages_url'', PStr ''L''), (''size'', PInt 3),
     (''stargazers_count'', PInt 2), (''forks_count'', PInt 0),
     (''pushed_at'', PStr ''2024-03-05T10:20:30Z'')]"

definition steady :: env where
  "steady = (offline (PStr ''t''))
     \<lparr>http := (\<lambda>i url.
        if i = 0 then Some (Response 200 (Some (PDict [(''login'', PStr ''u'')])))
        else if i = 1 then Some (Response 200 (Some (PList [raw_repo])))
        else if i = 2 then Some (Response 200 (Some (PList [])))
        else if i = 3 then Some (Response 404 None)
        else if i = 4 then Some (Response 200 (Some (PDict [(''Python'', PInt 10)])))
        else if i = 5 then Some (Response 202 (Some (PDict [])))
        else Some (Response 200 (Some (PList []))))\<rparr>"

definition steady_repo :: pyval where
  "steady_repo = PDict (enrich
     \<lparr>e_readme = PNone, e_languages = PDict [(''Python'', PInt 10)], e_count = 1, e_commits = PNone,
      e_doc = 20, e_code = 70, e_activity = 40\<rparr>
     [(''name'', PStr ''demo''), (''full_name'', PStr ''u/demo''),
     (''description'', PStr ''x''), (''languages_url'', PStr ''L''), (''size'', PInt 3),
     (''stargazers_count'', PInt 2), (''forks_count'', PInt 0),
     (''pushed_at'', PStr ''2024-03-05T10:20:30Z'')])"

text \<open>A profile with one repository: seven requests, and the repository enriched.\<close>

lemma steady_fetch:
  "get_enhanced_github_data steady ''u'' world0 =
     (Inr (PDict [(''user'', PDict [(''login'', PStr ''u'')]), (''repos'', PList [steady_repo]),
        (''orgs'', PList [])]),
      world0\<lparr>requests := [user_url ''u'', repos_url ''u'' 1, repos_url ''u'' 2,
        readme_url (PStr ''u/demo''), ''L'', commit_activity_url (PStr ''u/demo''), orgs_url ''u'']\<rparr>)"
  by (simp add: fetch_pages.simps fetch_defs steady_def offline_def world0_def raw_repo_def
      steady_repo_def enrich_def set_fields_def enrichment_fields_def noon_def
      score_defs strptime_def re_defs date_defs upt_rec [of _ "numeral _"] str_defs)

text \<open>The same profile when the request for the languages is not answered.\<close>

lemma steady_enhance:
  "enhance_repo steady raw_repo (world0\<lparr>requests := [user_url ''u'', repos_url ''u'' 1, repos_url ''u'' 2]\<rparr>) =
     (Inr steady_repo,
      world0\<lparr>requests := [user_url ''u'', repos_url ''u'' 1, repos_url ''u'' 2,
        readme_url (PStr ''u/demo''), ''L'', commit_activity_url (PStr ''u/demo'')]\<rparr>)"
  by (simp add: fetch_defs steady_def offline_def world0_def raw_repo_def
      steady_repo_def enrich_def set_fields_def enrichment_fields_def noon_def
      score_defs strptime_def re_defs date_defs upt_rec [of _ "numeral _"] str_defs)

theorem enrichment_append_only_witness:
  "\<exists>kvs' new. steady_repo = PDict kvs' \<and>
     map fst kvs' = [''name'', ''full_name'', ''description'', ''languages_url'', ''size'',
       ''stargazers_count'', ''forks_count'', ''pushed_at''] @ new \<and>
     set new \<subseteq> set enrichment_keys \<and> map_of kvs' ''size'' = Some (PInt 3)"
proof -
  let ?raw = "[(''name'', PStr ''demo''), (''full_name'', PStr ''u/demo''),
     (''description'', PStr ''x''), (''languages_url'', PStr ''L''), (''size'', PInt 3),
     (''stargazers_count'', PInt 2), (''forks_count'', PInt 0),
     (''pushed_at'', PStr ''2024-03-05T10:20:30Z'')]"
  obtain kvs' new where *: "steady_repo = PDict kvs'" "map fst kvs' = map fst ?raw @ new"
    "set new \<subseteq> set enrichment_keys"
    "\<forall>k. k \<notin> set enrichment_keys \<longrightarrow> map_of kvs' k = map_of ?raw k"
    using enrichment_append_only [OF steady_enhance [unfolded raw_repo_def]] by blast
  from *(4) [rule_format, of "''size''"] have "map_of kvs' ''size'' = Some (PInt 3)"
    by (simp add: enrichment_keys_def)
  with *(1-3) show ?thesis by (intro exI [of _ kvs'] exI [of _ new]) simp_all
qed

lemma steady_page_size: "page_size_at_most steady 30"
  by (auto simp: page_size_at_most_def steady_def offline_def raw_repo_def split: if_splits)


definition flaky :: env where
  "flaky = steady\<lparr>http := (\<lambda>i url. if i = 4 then None else http steady i url)\<rparr>"

lemma flaky_fetch:
  "get_enhanced_github_data flaky ''u'' world0 =
     (Inr (PStr ''ERROR''),
      world0\<lparr>requests := [user_url ''u'', repos_url ''u'' 1, repos_url ''u'' 2,
        readme_url (PStr ''u/demo''), ''L''], shown := [FetchingError RequestException]\<rparr>)"
  by (simp add: fetch_pages.simps fetch_defs flaky_def steady_def offline_def world0_def raw_repo_def
      str_defs)

text \<open>Pages of thirty: the loop stops after the second page, with sixty repositories.\<close>

theorem languages_failure_raises_witness:
  "enhance_repo flaky raw_repo (world0\<lparr>requests := [user_url ''u'', repos_url ''u'' 1, repos_url ''u'' 2]\<rparr>) =
     (Inl RequestException,
      world0\<lparr>requests := [user_url ''u'', repos_url ''u'' 1, repos_url ''u'' 2,
        readme_url (PStr ''u/demo''), ''L'']\<rparr>)"
  unfolding raw_repo_def
  by (rule languages_failure_raises [THEN trans])
     (simp_all add: flaky_def steady_def offline_def world0_def)

definition crowded :: env where
  "crowded = (offline (PStr ''t''))
     \<lparr>http := (\<lambda>i url. Some (Response 200 (Some (PList (replicate 30 (PDict []))))))\<rparr>"


section \<open>Credentials\<close>

text \<open>
  C32: without a token \<open>get_enhanced_github_data\<close> returns \<open>NO_TOKEN\<close> and leaves the
  world as it was: nothing is requested and nothing is shown.
\<close>

theorem no_token_no_request:
  assumes "\<not> truthy (github_token E)"
  shows "get_enhanced_github_data E username w = (Inr (PStr ''NO_TOKEN''), w)"
  using assms by (simp add: get_enhanced_github_data_def)

theorem no_token_no_request_witness:
  "get_enhanced_github_data (offline PNone) ''octocat'' world0 = (Inr (PStr ''NO_TOKEN''), world0) \<and>
   get_enhanced_github_data (offline (PStr [])) ''octocat'' world0 = (Inr (PStr ''NO_TOKEN''), world0)"
  using no_token_no_request [of "offline PNone" "''octocat''" world0]
    no_token_no_request [of "offline (PStr [])" "''octocat''" world0]
  by (simp add: offline_def)

section \<open>A service that answers by URL\<close>

definition site :: env where
  "site = (offline (PStr ''t''))
     \<lparr>http := (\<lambda>i url.
        if url = user_url ''u'' then Some (Response 200 (Some (PDict [(''login'', PStr ''u'')])))
        else if url = repos_url ''u'' 1 then Some (Response 200 (Some (PList [raw_repo])))
        else if url = ''L'' then Some (Response 200 (Some (PDict [(''Python'', PInt 10)])))
        else Some (Response 404 None))\<rparr>"

lemma site_enrichable: "enrichable site (\<lambda>kvs l. True) raw_repo"
proof -
  let ?r = "Response 200 (Some (PDict [(''Python'', PInt 10)]))"
  have "answers site ''L'' ?r"
    by (simp add: answers_def site_def fetch_defs)
  moreover have "languages_of ?r = Inr (PDict [(''Python'', PInt 10)])"
    by (simp add: languages_of_def response_json_def)
  moreover have "\<exists>kvs. raw_repo = PDict kvs \<and> map_of kvs ''full_name'' = Some (PStr ''u/demo'') \<and>
      map_of kvs ''languages_url'' = Some (PStr ''L'') \<and> scorable kvs"
    by (simp add: raw_repo_def scorable_def strptime_def re_defs date_defs)
  ultimately show ?thesis unfolding enrichable_def by force
qed

lemma site_well_served: "well_served site ''u'' (\<lambda>kvs l. True)"
proof -
  have first: "answers site (repos_url ''u'' 1) (Response 200 (Some (PList [raw_repo])))"
    by (simp add: answers_def site_def fetch_defs)
  have later: "answers site (repos_url ''u'' page) (Response 404 None)"
    if "repos_url ''u'' page \<noteq> repos_url ''u'' 1" for page
    using that by (simp add: answers_def site_def user_url_def repos_url_def)
  have "\<exists>r. answers site (repos_url ''u'' page) r \<and>
      (status_code r = 200 \<longrightarrow> (\<exists>body. json_body r = Some body \<and>
        (truthy body \<longrightarrow> (\<exists>items. body = PList items \<and>
          list_all (enrichable site (\<lambda>kvs l. True)) items))))" for page
  proof (cases "repos_url ''u'' page = repos_url ''u'' 1")
    case True
    then show ?thesis using first by (intro exI [of _ "Response 200 (Some (PList [raw_repo]))"])
      (simp add: site_enrichable)
  next
    case False
    then show ?thesis using later by (intro exI [of _ "Response 404 None"]) simp
  qed
  then have "serves_pages site ''u'' (\<lambda>kvs l. True)" by (simp add: serves_pages_def)
  moreover have "answers site (user_url ''u'') (Response 200 (Some (PDict [(''login'', PStr ''u'')])))"
    "answers site (orgs_url ''u'') (Response 404 None)"
    by (simp_all add: answers_def site_def fetch_defs)
  ultimately show ?thesis
    unfolding well_served_def
    by (intro conjI exI [of _ "Response 404 None"]
        exI [of _ "Response 200 (Some (PDict [(''login'', PStr ''u'')]))"])
      (simp_all add: site_def offline_def)
qed

theorem fetch_returns_bundle_witness:
  "\<exists>user raws repos orgs more w'. get_enhanced_github_data site ''u'' world0 =
      (Inr (PDict [(''user'', user), (''repos'', PList repos), (''orgs'', orgs)]), w') \<and>
    list_all2 (served_from (\<lambda>kvs l. True)) raws repos \<and> raws = first_page site ''u'' @ more"
  using fetch_returns_bundle [of site "''u''" "\<lambda>kvs l. True" world0] by (simp add: site_well_served)

end
