(* ===== verification/Portfolio.thy ===== *)
theory Portfolio
  imports Scoring
begin

text \<open>
  \<open>calculate_portfolio_score\<close>: the means of the three per-repository scores, the
  organisation, impact and technical-depth dimensions computed over the whole bundle,
  and their weighted blend, each rounded to one decimal. The function returns the pair
  of the blend and the dictionary of the six dimensions, or \<open>(0, {})\<close> when there is
  nothing to score.
\<close>

section \<open>Definitions\<close>

definition sum_field :: "string \<Rightarrow> pyval list \<Rightarrow> int py" where
  "sum_field k repos =
     rbind (rmap (\<lambda>r. rbind (py_get r k (PInt 0)) py_num) repos) (\<lambda>xs. Inr (sum_list xs))"

definition language_set :: "pyval list \<Rightarrow> string list py" where
  "language_set repos =
     rbind (rmap (\<lambda>repo. rbind (py_get repo ''languages'' (PDict [])) py_keys) repos)
       (\<lambda>ks. Inr (remdups (concat ks)))"

definition weights :: "(string \<times> rat) list" where
  "weights = [(''documentation'', 20 / 100), (''code_quality'', 20 / 100), (''activity'', 15 / 100),
     (''organization'', 15 / 100), (''impact'', 15 / 100), (''technical_depth'', 15 / 100)]"

definition weight :: "string \<Rightarrow> rat" where
  "weight k = (case map_of weights k of None \<Rightarrow> 0 | Some w \<Rightarrow> w)"

definition organization_score :: "bool \<Rightarrow> nat \<Rightarrow> int" where
  "organization_score has_orgs n =
     add_if (3 \<le> n) 20 (add_if (5 \<le> n) 20 (add_if has_orgs 20 0))"

definition impact_score :: "int \<Rightarrow> int \<Rightarrow> rat" where
  "impact_score total_stars total_forks = min 100 (of_int (total_stars * 2 + total_forks) / 5)"

definition tech_score :: "nat \<Rightarrow> int" where
  "tech_score n_languages = min 40 (int n_languages * 8)"

definition blend :: "rat \<Rightarrow> rat \<Rightarrow> rat \<Rightarrow> rat \<Rightarrow> rat \<Rightarrow> rat \<Rightarrow> rat" where
  "blend doc code act org imp tech =
     doc * weight ''documentation'' + code * weight ''code_quality'' + act * weight ''activity'' +
     org * weight ''organization'' + imp * weight ''impact'' + tech * weight ''technical_depth''"

definition dimension_names :: "string list" where
  "dimension_names = [''Documentation Quality'', ''Code Structure & Best Practices'',
     ''Activity Consistency'', ''Repository Organization'', ''Project Impact'', ''Technical Depth'']"

definition calculate_portfolio_score :: "pyval \<Rightarrow> (rat \<times> (string \<times> rat) list) py" where
  "calculate_portfolio_score data =
     (if \<not> truthy data \<or> data \<in> set [PStr ''ERROR'', PStr ''NO_TOKEN''] then Inr (0, [])
      else
        rbind (py_get data ''repos'' (PList [])) (\<lambda>repos.
        if \<not> truthy repos then Inr (0, [])
        else
          rbind (py_iter repos) (\<lambda>rs.
          let n = length rs in
          rbind (sum_field ''doc_score'' rs) (\<lambda>doc_sum.
          rbind (sum_field ''code_score'' rs) (\<lambda>code_sum.
          rbind (sum_field ''activity_score'' rs) (\<lambda>activity_sum.
          let doc_score = of_int doc_sum / of_nat n;
              code_score = of_int code_sum / of_nat n;
              activity_score = of_int activity_sum / of_nat n
          in
          rbind (py_get data ''orgs'' PNone) (\<lambda>orgs.
          let org_score = organization_score (truthy orgs) n in
          rbind (sum_field ''stargazers_count'' rs) (\<lambda>total_stars.
          rbind (sum_field ''forks_count'' rs) (\<lambda>total_forks.
          let impact = impact_score total_stars total_forks in
          rbind (language_set rs) (\<lambda>languages.
          let tech = tech_score (length languages);
              final_score = blend doc_score code_score activity_score (of_int org_score) impact
                (of_int tech);
              dimension_scores = zip dimension_names
                [py_round1 doc_score, py_round1 code_score, py_round1 activity_score,
                 py_round1 (of_int org_score), py_round1 impact, py_round1 (of_int tech)]
          in Inr (py_round1 final_score, dimension_scores)))))))))))"

section \<open>The typed view of a scored bundle\<close>

definition wt_scored :: "pyval \<Rightarrow> bool" where
  "wt_scored r =
     (case r of
        PDict kvs \<Rightarrow>
          list_all (field_ok is_int kvs) [''doc_score'', ''code_score'', ''activity_score'',
            ''stargazers_count'', ''forks_count''] \<and> field_ok is_dict kvs ''languages''
      | _ \<Rightarrow> False)"

definition language_names :: "pydict \<Rightarrow> string list" where
  "language_names kvs = (case map_of kvs ''languages'' of Some (PDict l) \<Rightarrow> map fst l | _ \<Rightarrow> [])"

definition scored_of :: "pyval \<Rightarrow> scored" where
  "scored_of r =
     (case r of
        PDict kvs \<Rightarrow>
          \<lparr>s_doc = int_field kvs ''doc_score'', s_code = int_field kvs ''code_score'',
           s_activity = int_field kvs ''activity_score'', s_stars = int_field kvs ''stargazers_count'',
           s_forks = int_field kvs ''forks_count'', s_languages = language_names kvs\<rparr>
      | _ \<Rightarrow> \<lparr>s_doc = 0, s_code = 0, s_activity = 0, s_stars = 0, s_forks = 0, s_languages = []\<rparr>)"

definition sample_repos :: "pyval list" where
  "sample_repos =
     [PDict [(''doc_score'', PInt 60), (''code_score'', PInt 45), (''activity_score'', PInt 40),
        (''stargazers_count'', PInt 3), (''forks_count'', PInt 1),
        (''languages'', PDict [(''Python'', PInt 100), (''HTML'', PInt 20)])],
      PDict [(''doc_score'', PInt 75), (''code_score'', PInt 100), (''activity_score'', PInt 70),
        (''stargazers_count'', PInt 10), (''forks_count'', PInt 0),
        (''languages'', PDict [(''Python'', PInt 7)])]]"

definition sample_bundle :: pyval where
  "sample_bundle = PDict [(''user'', PDict []), (''repos'', PList sample_repos), (''orgs'', PList [])]"

definition wf_scored :: "pyval \<Rightarrow> bool" where
  "wf_scored r = (wt_scored r \<and> in_range (scored_of r))"

definition dimension_dict :: "dimensions option \<Rightarrow> (string \<times> rat) list" where
  "dimension_dict d = (case d of None \<Rightarrow> [] | Some x \<Rightarrow> zip dimension_names (dimension_values x))"

lemmas portfolio_defs = calculate_portfolio_score_def sum_field_def language_set_def weight_def
  weights_def organization_score_def impact_score_def tech_score_def blend_def dimension_names_def
  add_if_def

section \<open>Lemmas\<close>

lemma weights_sum: "sum_list (map snd weights) = 1"
  by (simp add: weights_def)

lemma weight_simps [simp]:
  "weight ''documentation'' = 1 / 5" "weight ''code_quality'' = 1 / 5" "weight ''activity'' = 3 / 20"
  "weight ''organization'' = 3 / 20" "weight ''impact'' = 3 / 20" "weight ''technical_depth'' = 3 / 20"
  by (simp_all add: weight_def weights_def)

section \<open>Nothing to score\<close>

lemma calculate_portfolio_score_sentinel:
  "calculate_portfolio_score (PStr ''ERROR'') = Inr (0, [])"
  "calculate_portfolio_score (PStr ''NO_TOKEN'') = Inr (0, [])"
  "calculate_portfolio_score PNone = Inr (0, [])"
  by (simp_all add: calculate_portfolio_score_def)

theorem portfolio_score_no_repos:
  assumes "\<not> truthy (dict_get kvs ''repos'' (PList []))"
  shows "calculate_portfolio_score (PDict kvs) = Inr (0, [])"
  using assms by (simp add: calculate_portfolio_score_def)

section \<open>Refinement\<close>

lemma read_int_field:
  "field_ok is_int kvs k \<Longrightarrow> py_num (dict_get kvs k (PInt 0)) = Inr (int_field kvs k)"
  by (auto simp: field_ok_def int_field_def dict_get_def split: option.splits pyval.splits)

lemma read_languages:
  "field_ok is_dict kvs ''languages'' \<Longrightarrow>
   py_keys (dict_get kvs ''languages'' (PDict [])) = Inr (language_names kvs)"
  by (auto simp: field_ok_def language_names_def dict_get_def split: option.splits pyval.splits)

lemma wt_scored_dict: "wt_scored r \<Longrightarrow> \<exists>kvs. r = PDict kvs"
  by (cases r) (simp_all add: wt_scored_def)

lemma sum_field_read:
  assumes "list_all wt_scored rs"
    and "\<And>kvs. wt_scored (PDict kvs) \<Longrightarrow> field_ok is_int kvs k \<and> g (PDict kvs) = int_field kvs k"
  shows "sum_field k rs = Inr (sum_list (map g rs))"
proof -
  have "rmap (\<lambda>r. rbind (py_get r k (PInt 0)) py_num) rs = Inr (map g rs)"
  proof (rule rmap_Inr_map)
    fix r assume "r \<in> set rs"
    with assms(1) have "wt_scored r" by (simp add: list_all_iff)
    then obtain kvs where "r = PDict kvs" "wt_scored (PDict kvs)" by (auto dest: wt_scored_dict)
    with assms(2) [of kvs] show "rbind (py_get r k (PInt 0)) py_num = Inr (g r)"
      by (simp add: read_int_field)
  qed
  then show ?thesis by (simp add: sum_field_def)
qed

lemma sum_field_typed:
  assumes "list_all wt_scored rs"
  shows "sum_field ''doc_score'' rs = Inr (sum_list (map (s_doc \<circ> scored_of) rs))"
    and "sum_field ''code_score'' rs = Inr (sum_list (map (s_code \<circ> scored_of) rs))"
    and "sum_field ''activity_score'' rs = Inr (sum_list (map (s_activity \<circ> scored_of) rs))"
    and "sum_field ''stargazers_count'' rs = Inr (sum_list (map (s_stars \<circ> scored_of) rs))"
    and "sum_field ''forks_count'' rs = Inr (sum_list (map (s_forks \<circ> scored_of) rs))"
  by (rule sum_field_read [OF assms], simp add: wt_scored_def scored_of_def)+

lemma language_set_typed:
  assumes "list_all wt_scored rs"
  shows "language_set rs = Inr (remdups (concat (map (\<lambda>r. s_languages (scored_of r)) rs)))"
proof -
  have "rmap (\<lambda>repo. rbind (py_get repo ''languages'' (PDict [])) py_keys) rs =
      Inr (map (\<lambda>r. s_languages (scored_of r)) rs)"
  proof (rule rmap_Inr_map)
    fix r assume "r \<in> set rs"
    with assms have "wt_scored r" by (simp add: list_all_iff)
    then show "rbind (py_get r ''languages'' (PDict [])) py_keys = Inr (s_languages (scored_of r))"
      by (cases r) (simp_all add: wt_scored_def scored_of_def read_languages)
  qed
  then show ?thesis by (simp add: language_set_def)
qed

lemma tech_score_technicalDepth:
  "tech_score (length (remdups (concat (map (\<lambda>r. s_languages (scored_of r)) rs)))) =
     technicalDepth (map scored_of rs)"
  by (simp add: tech_score_def technicalDepth_def length_remdups_card_conv mult.commute)

lemma organization_score_eq: "organization_score b n = organizationScore b n"
  by (simp add: organization_score_def organizationScore_def add_if_points)

lemma impact_score_eq:
  "impact_score (sum_list (map (s_stars \<circ> f) xs)) (sum_list (map (s_forks \<circ> f) xs)) =
     impactScore (map f xs)"
  by (simp add: impact_score_def impactScore_def mult.commute)

lemma blend_weighted:
  "blend (d_documentation d) (d_code_quality d) (d_activity d) (d_organization d) (d_impact d)
     (d_technical_depth d) = weighted d"
  by (simp add: blend_def weighted_def)

text \<open>With at least one repository the result is the rounded blend of the contract's
  dimensions, and the dimensions rounded, under the six names.\<close>

lemma portfolio_score_dimensions:
  assumes repos: "map_of kvs ''repos'' = Some (PList rs)" and wt: "list_all wt_scored rs"
    and ne: "rs \<noteq> []"
  shows "calculate_portfolio_score (PDict kvs) =
    (let d = portfolioDimensions (truthy (dict_get kvs ''orgs'' PNone)) (map scored_of rs)
     in Inr (py_round1 (weighted d), zip dimension_names (dimension_values (rounded d))))"
proof -
  from repos have kvs: "kvs \<noteq> []" by auto
  show ?thesis
    using ne repos kvs
    by (simp add: calculate_portfolio_score_def dict_get_def sum_field_typed [OF wt]
        language_set_typed [OF wt] tech_score_technicalDepth organization_score_eq impact_score_eq
        portfolioDimensions_def mean_def dimension_values_def rounded_def Let_def
        blend_weighted [symmetric])
qed

text \<open>
  C7: on a bundle whose repositories carry integer scores and counts and a dictionary of
  languages, \<open>calculate_portfolio_score\<close> returns what the contract's \<open>portfolioScore\<close>
  prescribes for the typed view of the bundle.
\<close>

theorem portfolio_score_refines:
  assumes repos: "map_of kvs ''repos'' = Some (PList rs)" and wt: "list_all wt_scored rs"
  shows "calculate_portfolio_score (PDict kvs) =
    Inr (map_prod id dimension_dict
      (portfolioScore (truthy (dict_get kvs ''orgs'' PNone)) (map scored_of rs)))"
proof (cases "rs = []")
  case True
  with repos show ?thesis
    by (simp add: calculate_portfolio_score_def dict_get_def portfolioScore_def dimension_dict_def)
next
  case False
  then show ?thesis
    by (simp add: portfolio_score_dimensions [OF repos wt] portfolioScore_def dimension_dict_def
        Let_def)
qed

section \<open>Bounds\<close>

text \<open>
  With every per-repository score in 0..100 and no negative counts, the six
  dimensions lie in 0..100 and the portfolio score in 0..85: organisation stops at 60 and
  technical depth at 40, so 100 is out of reach.
\<close>

theorem portfolio_score_bounds:
  assumes "map_of kvs ''repos'' = Some (PList rs)" and "rs \<noteq> []" and "list_all wf_scored rs"
  shows "\<exists>final dims. calculate_portfolio_score (PDict kvs) = Inr (final, dims) \<and>
    0 \<le> final \<and> final \<le> 85 \<and> map fst dims = dimension_names \<and>
    list_all (\<lambda>v. 0 \<le> v \<and> v \<le> 100) (map snd dims)"
proof -
  let ?b = "truthy (dict_get kvs ''orgs'' PNone)" and ?rs = "map scored_of rs"
  from assms(3) have wt: "list_all wt_scored rs" and rng: "list_all in_range ?rs"
    by (simp_all add: list_all_iff wf_scored_def)
  from assms(2) have ne: "?rs \<noteq> []" by simp
  have vals: "list_all (\<lambda>x. 0 \<le> x \<and> x \<le> 100) (dimension_values (portfolioDimensions ?b ?rs))"
    by (rule portfolioDimensions_bounds [OF ne rng])
  have "list_all (\<lambda>x. 0 \<le> x \<and> x \<le> 100) (dimension_values (rounded (portfolioDimensions ?b ?rs)))"
    using vals py_round1_ge [of 0] py_round1_le [of _ 1000]
    by (simp add: dimension_values_def rounded_def)
  moreover have "length (dimension_values d) = length dimension_names" for d
    by (simp add: dimension_values_def dimension_names_def)
  ultimately show ?thesis
    using portfolioScore_bounds [OF ne rng, of ?b] ne
    by (simp add: portfolio_score_dimensions [OF assms(1) wt] portfolioScore_def Let_def)
qed

section \<open>A bundle of two repositories\<close>

lemma sample_wf: "list_all wf_scored sample_repos"
  by (simp add: sample_repos_def wf_scored_def wt_scored_def scored_of_def in_range_def field_ok_def
      int_field_def language_names_def)

theorem portfolio_score_refines_witness:
  "calculate_portfolio_score sample_bundle =
     Inr (map_prod id dimension_dict (portfolioScore False (map scored_of sample_repos)))"
  using portfolio_score_refines [of "[(''user'', PDict []), (''repos'', PList sample_repos), (''orgs'', PList [])]"
      sample_repos] sample_wf
  by (simp add: sample_bundle_def list_all_iff wf_scored_def)

theorem portfolio_score_bounds_witness:
  "\<exists>final dims. calculate_portfolio_score sample_bundle = Inr (final, dims) \<and> 0 \<le> final \<and>
     final \<le> 85 \<and> map fst dims = dimension_names \<and> list_all (\<lambda>v. 0 \<le> v \<and> v \<le> 100) (map snd dims)"
  using portfolio_score_bounds [of "[(''user'', PDict []), (''repos'', PList sample_repos), (''orgs'', PList [])]"
      sample_repos] sample_wf
  by (simp add: sample_bundle_def sample_repos_def)

section \<open>Example\<close>

lemma portfolio_example:
  "calculate_portfolio_score sample_bundle =
   Inr (395 / 10, [(''Documentation Quality'', 675 / 10), (''Code Structure & Best Practices'', 725 / 10),
      (''Activity Consistency'', 55), (''Repository Organization'', 0), (''Project Impact'', 54 / 10),
      (''Technical Depth'', 16)])"
  by (simp add: sample_bundle_def sample_repos_def portfolio_defs py_round1_def round_half_even_def)

end
