(* ===== verification/Recommend.thy ===== *)
theory Recommend
  imports Portfolio
begin

text \<open>
  \<open>get_actionable_recommendations\<close>: two rules on the portfolio's dimensions, two rules
  per repository in the order of the bundle, and the first five of what they produce.
\<close>

section \<open>Definitions\<close>

record recommendation =
  rec_repo :: pyval
  rec_issue :: string
  rec_action :: string
  rec_priority :: string

definition dim_lookup :: "(string \<times> rat) list \<Rightarrow> string \<Rightarrow> rat py" where
  "dim_lookup dims k = (case map_of dims k of None \<Rightarrow> Inl (KeyError k) | Some v \<Rightarrow> Inr v)"

definition poor_documentation :: recommendation where
  "poor_documentation =
     \<lparr>rec_repo = PStr ''General'', rec_issue = ''Poor Documentation'',
      rec_action = ''Add comprehensive READMEs with setup instructions, features, and screenshots'',
      rec_priority = ''High''\<rparr>"

definition inconsistent_activity :: recommendation where
  "inconsistent_activity =
     \<lparr>rec_repo = PStr ''General'', rec_issue = ''Inconsistent Activity'',
      rec_action = ''Commit code at least 3-4 times per week to show active development'',
      rec_priority = ''Medium''\<rparr>"

definition missing_documentation :: "pyval \<Rightarrow> recommendation" where
  "missing_documentation name =
     \<lparr>rec_repo = name, rec_issue = ''Missing Documentation'',
      rec_action = ''Add a detailed README.md to '' @ py_str name @
        '' with project description and setup guide'',
      rec_priority = ''High''\<rparr>"

definition low_impact :: "pyval \<Rightarrow> recommendation" where
  "low_impact name =
     \<lparr>rec_repo = name, rec_issue = ''Low Impact'',
      rec_action = ''Promote '' @ py_str name @
        '' on social media and add screenshots to attract users'',
      rec_priority = ''Medium''\<rparr>"

definition repo_recommendations :: "pyval \<Rightarrow> recommendation list py" where
  "repo_recommendations repo =
     rbind (py_get repo ''doc_score'' (PInt 0)) (\<lambda>doc_score.
     rbind (py_lt doc_score 40) (\<lambda>low_doc.
     rbind (if low_doc then rbind (py_index repo ''name'') (\<lambda>name. Inr [missing_documentation name])
            else Inr []) (\<lambda>recs.
     rbind (py_get repo ''stargazers_count'' (PInt 0)) (\<lambda>stars.
     if py_eq_int stars 0 then
       rbind (py_get repo ''forks_count'' (PInt 0)) (\<lambda>forks.
       if py_eq_int forks 0 then rbind (py_index repo ''name'') (\<lambda>name. Inr (recs @ [low_impact name]))
       else Inr recs)
     else Inr recs))))"

definition all_recommendations :: "pyval \<Rightarrow> (string \<times> rat) list \<Rightarrow> recommendation list py" where
  "all_recommendations data dimension_scores =
     rbind (dim_lookup dimension_scores ''Documentation Quality'') (\<lambda>documentation.
     let recs = (if documentation < 60 then [poor_documentation] else []) in
     rbind (dim_lookup dimension_scores ''Activity Consistency'') (\<lambda>activity.
     let recs = (if activity < 50 then recs @ [inconsistent_activity] else recs) in
     rbind (py_get data ''repos'' (PList [])) (\<lambda>repos.
     rbind (py_iter repos) (\<lambda>rs.
     rbind (rmap repo_recommendations rs) (\<lambda>per_repo.
     Inr (recs @ concat per_repo))))))"

definition get_actionable_recommendations ::
    "pyval \<Rightarrow> (string \<times> rat) list \<Rightarrow> recommendation list py" where
  "get_actionable_recommendations data dimension_scores =
     rbind (all_recommendations data dimension_scores) (\<lambda>recommendations.
     Inr (take 5 recommendations))"

lemmas recommend_defs = get_actionable_recommendations_def all_recommendations_def
  repo_recommendations_def dim_lookup_def poor_documentation_def inconsistent_activity_def
  missing_documentation_def low_impact_def

section \<open>The cap\<close>

text \<open>C22: the function never returns more than five recommendations, whatever the rules produce.\<close>

theorem recommendations_at_most_five:
  assumes "get_actionable_recommendations data dims = Inr recs"
  shows "length recs \<le> 5"
  using assms by (auto simp: get_actionable_recommendations_def result_simps)

theorem recommendations_first_five:
  "get_actionable_recommendations data dims = Inr recs \<longleftrightarrow>
     (\<exists>all. all_recommendations data dims = Inr all \<and> recs = take 5 all)"
  by (auto simp: get_actionable_recommendations_def result_simps)

section \<open>Errors\<close>


text \<open>The dimensions that \<open>calculate_portfolio_score\<close> returns for a portfolio with
  repositories can all be looked up.\<close>

lemma dim_lookup_succeeds:
  "map fst dims = dimension_names \<Longrightarrow> k \<in> set dimension_names \<Longrightarrow> succeeds (dim_lookup dims k)"
  by (auto simp: dim_lookup_def succeeds_iff map_of_eq_None_iff simp flip: set_map split: option.splits)

section \<open>Scenario\<close>

definition bare_repo :: "string \<Rightarrow> pyval" where
  "bare_repo name = PDict [(''name'', PStr name), (''doc_score'', PInt 20),
     (''stargazers_count'', PInt 0), (''forks_count'', PInt 0)]"

lemma repo_recommendations_bare:
  "repo_recommendations (bare_repo n) = Inr [missing_documentation (PStr n), low_impact (PStr n)]"
  by (simp add: repo_recommendations_def bare_repo_def)

lemma scenario_D:
  "get_actionable_recommendations
     (PDict [(''repos'', PList [bare_repo ''a'', bare_repo ''b''])])
     [(''Documentation Quality'', 20), (''Activity Consistency'', 10)] =
   Inr [poor_documentation, inconsistent_activity, missing_documentation (PStr ''a''),
     low_impact (PStr ''a''), missing_documentation (PStr ''b'')]"
  by (simp add: get_actionable_recommendations_def all_recommendations_def dim_lookup_def
      repo_recommendations_bare)

theorem recommendations_at_most_five_witness:
  "length [poor_documentation, inconsistent_activity, missing_documentation (PStr ''a''),
     low_impact (PStr ''a''), missing_documentation (PStr ''b'')] \<le> 5"
  using recommendations_at_most_five [OF scenario_D] by simp

end
