(* ===== verification/PyText.thy ===== *)
theory PyText
  imports PyValue
begin

text \<open>
  The sequence and string operations of Python that the assessment adapter and the report
  use: the slice \<open>x[:n]\<close>, the substring test \<open>a in b\<close>, \<open>str.replace\<close>, \<open>str.strip\<close>,
  \<open>str.join\<close> over values and \<open>set\<close> of a list. Strings are lists of bytes, so a slice of
  a string counts bytes where Python counts code points; the two agree on ASCII text.
\<close>

section \<open>Slices\<close>

text \<open>
  \<open>x[:n]\<close> for a literal \<open>n\<close>. A dictionary raises here as well: \<open>TypeError\<close> up to
  Python 3.11, where a slice is not hashable.
\<close>

fun py_slice_to :: "pyval \<Rightarrow> nat \<Rightarrow> pyval py" where
  "py_slice_to (PList xs) n = Inr (PList (take n xs))"
| "py_slice_to (PStr s) n = Inr (PStr (take n s))"
| "py_slice_to v n = Inl TypeError"

section \<open>Substrings\<close>

definition starts_with :: "string \<Rightarrow> string \<Rightarrow> bool" where
  "starts_with s sub = (take (length sub) s = sub)"

fun contains :: "string \<Rightarrow> string \<Rightarrow> bool" where
  "contains sub [] = (sub = [])"
| "contains sub (c # cs) = (starts_with (c # cs) sub \<or> contains sub cs)"

function replace_all :: "string \<Rightarrow> string \<Rightarrow> string \<Rightarrow> string" where
  "replace_all old new [] = []"
| "replace_all old new (c # cs) =
     (if old \<noteq> [] \<and> starts_with (c # cs) old
      then new @ replace_all old new (drop (length old) (c # cs))
      else c # replace_all old new cs)"
  by pat_completeness auto
termination
  by (relation "measure (\<lambda>(old, new, s). length s)") auto

definition py_replace :: "string \<Rightarrow> string \<Rightarrow> string \<Rightarrow> string" where
  "py_replace old new s =
     (if old = [] then new @ concat (map (\<lambda>c. c # new) s) else replace_all old new s)"

definition is_space :: "char \<Rightarrow> bool" where
  "is_space c = (let n = (of_char c :: nat) in (9 \<le> n \<and> n \<le> 13) \<or> (28 \<le> n \<and> n \<le> 32))"

definition py_strip :: "string \<Rightarrow> string" where
  "py_strip s = rev (dropWhile is_space (rev (dropWhile is_space s)))"

section \<open>Joining and sets\<close>

fun as_str :: "pyval \<Rightarrow> string py" where
  "as_str (PStr s) = Inr s"
| "as_str v = Inl TypeError"

definition py_join :: "string \<Rightarrow> pyval list \<Rightarrow> string py" where
  "py_join sep vs = rbind (rmap as_str vs) (\<lambda>ss. Inr (join sep ss))"

text \<open>
  \<open>set(xs)\<close> hashes every element, so a list or a dictionary among them raises; equal
  elements (\<open>True\<close> and \<open>1\<close> are equal) are kept once, the first of them. The order in
  which the set is then iterated is not determined by the program.
\<close>

fun hash_key :: "pyval \<Rightarrow> pyval py" where
  "hash_key (PBool b) = Inr (PInt (if b then 1 else 0))"
| "hash_key (PList xs) = Inl TypeError"
| "hash_key (PDict kvs) = Inl TypeError"
| "hash_key v = Inr v"

definition py_set :: "pyval list \<Rightarrow> pyval list py" where
  "py_set vs = rbind (rmap hash_key vs) (\<lambda>ks. Inr (map snd (AList.clearjunk (zip ks vs))))"

lemmas text_defs = starts_with_def py_replace_def is_space_def py_strip_def py_join_def py_set_def

section \<open>Lemmas\<close>

lemma py_slice_to_iter:
  "py_slice_to v n = Inr v' \<Longrightarrow> py_iter v = Inr xs \<Longrightarrow> py_iter v' = Inr (take n xs)"
  by (cases v) (auto simp: take_map)

lemma starts_with_iff: "starts_with s sub \<longleftrightarrow> (\<exists>post. s = sub @ post)"
  unfolding starts_with_def by (metis append_eq_conv_conj append_take_drop_id)

lemma starts_with_Nil [simp]: "starts_with s []" "starts_with [] sub \<longleftrightarrow> sub = []"
  by (auto simp: starts_with_def)

lemma starts_with_Cons [simp]:
  "starts_with (c # cs) (d # ds) \<longleftrightarrow> c = d \<and> starts_with cs ds"
  by (auto simp: starts_with_def)

text \<open>\<open>sub in s\<close> holds exactly when \<open>s\<close> has \<open>sub\<close> as a contiguous part.\<close>

lemma contains_iff: "contains sub s \<longleftrightarrow> (\<exists>pre post. s = pre @ sub @ post)"
proof (induction s)
  case Nil
  show ?case by auto
next
  case (Cons c cs)
  show ?case
  proof
    assume "contains sub (c # cs)"
    then consider "starts_with (c # cs) sub" | "contains sub cs" by auto
    then show "\<exists>pre post. c # cs = pre @ sub @ post"
    proof cases
      case 1
      then show ?thesis by (metis append_Nil starts_with_iff)
    next
      case 2
      then obtain pre post where "cs = pre @ sub @ post" using Cons.IH by blast
      then have "c # cs = (c # pre) @ sub @ post" by simp
      then show ?thesis by blast
    qed
  next
    assume "\<exists>pre post. c # cs = pre @ sub @ post"
    then obtain pre post where eq: "c # cs = pre @ sub @ post" by blast
    show "contains sub (c # cs)"
    proof (cases pre)
      case Nil
      then have "starts_with (c # cs) sub" using eq by (auto simp: starts_with_iff)
      then show ?thesis by simp
    next
      case (Cons d ds)
      then have "cs = ds @ sub @ post" using eq by simp
      then show ?thesis using Cons.IH by auto
    qed
  qed
qed

lemma contains_self [simp]: "contains s s"
  by (metis append_Nil append_Nil2 contains_iff)

lemma contains_set: "contains sub s \<Longrightarrow> set sub \<subseteq> set s"
  by (auto simp: contains_iff)

text \<open>Replacing a text that does not occur changes nothing.\<close>

lemma replace_all_absent: "\<not> contains old s \<Longrightarrow> replace_all old new s = s"
  by (induction s) auto

text \<open>A stretch of characters that cannot begin \<open>old\<close> is copied, and an occurrence
  at the front is replaced.\<close>

lemma replace_all_skip:
  "old \<noteq> [] \<Longrightarrow> hd old \<notin> set s \<Longrightarrow> replace_all old new (s @ t) = s @ replace_all old new t"
  by (induction s) (auto simp: starts_with_iff neq_Nil_conv)

lemma replace_all_hit:
  "old \<noteq> [] \<Longrightarrow> replace_all old new (old @ t) = new @ replace_all old new t"
  by (cases old) (auto simp: starts_with_def)

lemma replace_all_delete_length: "length (replace_all old [] s) \<le> length s"
  by (induction old "[] :: string" s rule: replace_all.induct) auto

lemma py_strip_Nil [simp]: "py_strip [] = []"
  by (simp add: py_strip_def)

lemma py_strip_ends:
  "py_strip s \<noteq> [] \<Longrightarrow> \<not> is_space (hd (py_strip s)) \<and> \<not> is_space (last (py_strip s))"
proof -
  let ?a = "dropWhile is_space s" and ?b = "dropWhile is_space (rev (dropWhile is_space s))"
  assume ne: "py_strip s \<noteq> []"
  then have b: "?b \<noteq> []" by (simp add: py_strip_def)
  then have last: "\<not> is_space (hd ?b)" by (rule hd_dropWhile)
  have "?a \<noteq> []"
  proof
    assume "?a = []"
    then have "?b = []" by (metis dropWhile.simps(1) rev.simps(1))
    with b show False ..
  qed
  then have "\<not> is_space (hd ?a)" by (rule hd_dropWhile)
  moreover obtain pre where "rev ?a = pre @ ?b"
    by (metis takeWhile_dropWhile_id)
  then have "?a = rev ?b @ rev pre" by (metis rev_append rev_rev_ident)
  then have "hd ?a = hd (rev ?b)" using b by (metis hd_append2 rev_is_Nil_conv)
  ultimately show ?thesis using last b by (simp add: py_strip_def hd_rev last_rev)
qed

lemma dropWhile_hd: "s \<noteq> [] \<Longrightarrow> \<not> P (hd s) \<Longrightarrow> dropWhile P s = s"
  by (cases s) auto

lemma py_strip_fixed:
  assumes "s \<noteq> []" "\<not> is_space (hd s)" "\<not> is_space (last s)"
  shows "py_strip s = s"
proof -
  have "dropWhile is_space (rev s) = rev s"
    using assms by (intro dropWhile_hd) (simp_all add: hd_rev)
  then show ?thesis using assms by (simp add: py_strip_def dropWhile_hd)
qed

text \<open>Whitespace around a text that neither begins nor ends with whitespace is removed,
  and nothing else.\<close>

lemma py_strip_pad:
  assumes "\<forall>c\<in>set a. is_space c" "\<forall>c\<in>set b. is_space c"
    and "s \<noteq> []" "\<not> is_space (hd s)" "\<not> is_space (last s)"
  shows "py_strip (a @ s @ b) = s"
proof -
  have "dropWhile is_space (a @ s @ b) = s @ b"
    using assms by (simp add: dropWhile_append2 dropWhile_hd)
  moreover have "dropWhile is_space (rev b @ rev s) = dropWhile is_space (rev s)"
    by (rule dropWhile_append2) (use assms in simp)
  moreover have "dropWhile is_space (rev s) = rev s"
    by (rule dropWhile_hd) (use assms in \<open>simp_all add: hd_rev\<close>)
  ultimately show ?thesis by (simp add: py_strip_def)
qed

lemma py_strip_idem: "py_strip (py_strip s) = py_strip s"
  by (cases "py_strip s = []") (simp_all add: py_strip_ends py_strip_fixed)

lemma py_join_strings [simp]: "py_join sep (map PStr ss) = Inr (join sep ss)"
proof -
  have "rmap as_str (map PStr ss) = Inr ss" by (induction ss) simp_all
  then show ?thesis by (simp add: py_join_def)
qed

lemma hash_key_error: "hash_key v = Inl e \<Longrightarrow> e = TypeError"
  by (cases v) auto

lemma set_clearjunk_subset: "set (AList.clearjunk al) \<subseteq> set al"
  by (induction al rule: AList.clearjunk.induct) (auto simp: AList.delete_eq)

lemma py_set_subset: "py_set vs = Inr us \<Longrightarrow> set us \<subseteq> set vs"
proof -
  assume "py_set vs = Inr us"
  then obtain ks where ks: "rmap hash_key vs = Inr ks"
    and us: "us = map snd (AList.clearjunk (zip ks vs))"
    by (auto simp: py_set_def result_simps)
  show ?thesis
    using set_clearjunk_subset [of "zip ks vs"] us by (auto dest!: subsetD set_zip_rightD)
qed

lemma text_examples:
  "contains ''flash'' ''models/gemini-1.5-flash''"
  "\<not> contains ''flash'' ''models/gemini-pro''"
  "py_replace ''ab'' ''-'' ''xabyabab'' = ''x-y--''"
  "py_replace '''' ''-'' ''abc'' = ''-a-b-c-''"
  "py_strip ('' '' @ [CHR 0x0A] @ ''a b'' @ [CHR 0x09]) = ''a b''"
  "py_set [PStr ''Go'', PBool True, PStr ''C'', PInt 1, PStr ''Go''] =
     Inr [PStr ''Go'', PBool True, PStr ''C'']"
  "py_set [PStr ''Go'', PList []] = Inl TypeError"
  by (simp_all add: text_defs)

end
