(* ===== verification/Assessment.thy ===== *)
theory Assessment
  imports World PyText
begin

text \<open>
  \<open>get_working_model\<close> and \<open>analyze_with_ai\<close>: the choice of a language model, the prompt
  built from the fetched bundle, the call, and the clean-up and parsing of the answer.
  The prompt is the text of the source, byte for byte; the model, \<open>json.loads\<close> and the
  iteration order of a set are fields of the environment.
\<close>

section \<open>Choosing a model\<close>

definition fallback_model :: pyval where
  "fallback_model = PStr ''models/gemini-1.5-flash''"

text \<open>The loop over the listed models: the first that generates content and is a flash
  model; the fallback when the list ends or the listing raises.\<close>

fun first_flash :: "model_info py list \<Rightarrow> pyval" where
  "first_flash [] = fallback_model"
| "first_flash (Inl e # ms) = fallback_model"
| "first_flash (Inr m # ms) =
     (if ''generateContent'' \<in> set (m_supported_generation_methods m) then
        if contains ''flash'' (m_name m) then PStr (m_name m) else first_flash ms
      else first_flash ms)"

definition get_working_model :: "env \<Rightarrow> pyval" where
  "get_working_model E = (if \<not> truthy (gemini_key E) then PNone else first_flash (list_models E))"

section \<open>The prompt\<close>

definition star :: string where
  "star = [CHR 0xE2, CHR 0xAD, CHR 0x90]"

definition nl :: string where
  "nl = [CHR 0x0A]"

definition dq :: "string \<Rightarrow> string" where
  "dq s = CHR 0x22 # s @ [CHR 0x22]"

definition summary_line :: "pyval \<Rightarrow> string py" where
  "summary_line r =
     rbind (py_index r ''name'') (\<lambda>name.
     rbind (py_get r ''language'' (PStr ''N/A'')) (\<lambda>language.
     rbind (py_get r ''stargazers_count'' (PInt 0)) (\<lambda>stars.
     Inr (py_str name @ '' ('' @ py_str language @ '') - '' @ star @ py_str stars))))"

definition repo_summary :: "pyval \<Rightarrow> string list py" where
  "repo_summary data =
     rbind (py_index data ''repos'') (\<lambda>repos.
     rbind (py_slice_to repos 10) (\<lambda>top.
     rbind (py_iter top) (rmap summary_line)))"

definition language_of :: "pyval \<Rightarrow> pyval list py" where
  "language_of r =
     rbind (py_get r ''language'' PNone) (\<lambda>l.
     if truthy l then rbind (py_get r ''language'' PNone) (\<lambda>l. Inr [l]) else Inr [])"

definition langs :: "env \<Rightarrow> pyval \<Rightarrow> pyval list py" where
  "langs E data =
     rbind (py_index data ''repos'') (\<lambda>repos.
     rbind (py_iter repos) (\<lambda>rs.
     rbind (rmap language_of rs) (\<lambda>ls.
     rbind (py_set (concat ls)) (\<lambda>s. Inr (set_order E s)))))"

definition user_index :: "pyval \<Rightarrow> string \<Rightarrow> pyval py" where
  "user_index data k = rbind (py_index data ''user'') (\<lambda>user. py_index user k)"

definition user_get :: "pyval \<Rightarrow> string \<Rightarrow> string \<Rightarrow> pyval py" where
  "user_get data k d = rbind (py_index data ''user'') (\<lambda>user. py_get user k (PStr d))"

definition instructions :: "string list" where
  "instructions =
    [''    Based on this data, provide a detailed JSON analysis with:'',
     ''    1. Overall score (0-100)'',
     ''    2. Verdict (Hire/Strong Consider/Interview/Cultivate/Pass)'',
     ''    3. Best fitting job role'',
     ''    4. Executive summary'',
     ''    5. Technical skills with proficiency scores'',
     ''    6. Soft skills assessment'',
     ''    7. Top 5 strengths'',
     ''    8. Top 5 red flags'',
     ''    9. 5 specific interview questions based on their actual projects'',
     ''    10. 3 repos to archive (with reasons)'',
     ''    11. 3 repos to improve (with specific improvements)'',
     ''    '',
     ''    RETURN STRICT JSON (No Markdown):'',
     ''    {'',
     ''        '' @ dq ''score'' @ '': 0,'',
     ''        '' @ dq ''verdict'' @ '': '' @ dq ''Verdict'' @ '','',
     ''        '' @ dq ''role'' @ '': '' @ dq ''Best Fitting Role'' @ '','',
     ''        '' @ dq ''summary'' @ '': '' @ dq ''Executive summary here'' @ '','',
     ''        '' @ dq ''skills'' @ '': {'' @ dq ''Python'' @ '': 90, '' @ dq ''React'' @ '': 80},'',
     ''        '' @ dq ''soft_skills'' @ '': {'' @ dq ''Communication'' @ '': 70, '' @
        dq ''Leadership'' @ '': 60},'',
     ''        '' @ dq ''pros'' @ '': ['' @ dq ''strength1'' @ '', '' @ dq ''strength2'' @ '', '' @
        dq ''strength3'' @ '', '' @ dq ''strength4'' @ '', '' @ dq ''strength5'' @ ''],'',
     ''        '' @ dq ''cons'' @ '': ['' @ dq ''redflag1'' @ '', '' @ dq ''redflag2'' @ '', '' @
        dq ''redflag3'' @ '', '' @ dq ''redflag4'' @ '', '' @ dq ''redflag5'' @ ''],'',
     ''        '' @ dq ''interview_questions'' @ '': ['' @ dq ''Q1 based on their projects'' @
        '', '' @ dq ''Q2'' @ '', '' @ dq ''Q3'' @ '', '' @ dq ''Q4'' @ '', '' @ dq ''Q5'' @ ''],'',
     ''        '' @ dq ''archive_repos'' @ '': [{'' @ dq ''name'' @ '': '' @ dq ''repo1'' @ '', '' @
        dq ''reason'' @ '': '' @ dq ''why to archive'' @ ''}],'',
     ''        '' @ dq ''improve_repos'' @ '': [{'' @ dq ''name'' @ '': '' @ dq ''repo2'' @ '', '' @
        dq ''improvement'' @ '': '' @ dq ''specific improvement'' @ ''}]'',
     ''    }'',
     ''    '']"

definition prompt :: "pyval \<Rightarrow> string list \<Rightarrow> pyval list \<Rightarrow> string py" where
  "prompt data summary ls =
     rbind (user_index data ''login'') (\<lambda>login.
     rbind (user_get data ''name'' ''N/A'') (\<lambda>name.
     rbind (user_get data ''bio'' ''None'') (\<lambda>bio.
     rbind (user_get data ''location'' ''N/A'') (\<lambda>location.
     rbind (user_index data ''followers'') (\<lambda>followers.
     rbind (user_index data ''following'') (\<lambda>following.
     rbind (user_index data ''public_repos'') (\<lambda>public_repos.
     rbind (rbind (user_index data ''created_at'') (\<lambda>c. py_slice_to c 10)) (\<lambda>created.
     rbind (if ls \<noteq> [] then py_join '', '' ls else Inr ''None'') (\<lambda>languages.
     rbind (rbind (py_get data ''orgs'' (PList [])) py_len) (\<lambda>orgs.
     Inr (join nl
       ([[],
         ''    Act as a VP of Engineering at a top tech company. Analyze this GitHub profile thoroughly.'',
         ''    '',
         ''    USER PROFILE:'',
         ''    Username: '' @ py_str login,
         ''    Name: '' @ py_str name,
         ''    Bio: '' @ py_str bio,
         ''    Location: '' @ py_str location,
         ''    Followers: '' @ py_str followers,
         ''    Following: '' @ py_str following,
         ''    Public Repos: '' @ py_str public_repos,
         ''    Account Created: '' @ py_str created,
         ''    '',
         ''    TOP REPOSITORIES (with stars):'',
         ''    '' @ join nl summary,
         ''    '',
         ''    LANGUAGES USED: '' @ languages,
         ''    '',
         ''    ORGANIZATIONS: '' @ str_int (int orgs),
         ''    ''] @ instructions))))))))))))"

section \<open>The call\<close>

definition fence :: string where
  "fence = [CHR 0x60, CHR 0x60, CHR 0x60]"

definition strip_fences :: "string \<Rightarrow> string" where
  "strip_fences text = py_strip (py_replace fence [] (py_replace (fence @ ''json'') [] text))"

definition analyze_with_ai :: "env \<Rightarrow> pyval \<Rightarrow> pyval \<Rightarrow> pyval io" where
  "analyze_with_ai E data model_name =
     (if \<not> truthy model_name then io_return PNone
      else
        io_bind (io_lift (generative_model E model_name)) (\<lambda>model.
        io_bind (io_lift (repo_summary data)) (\<lambda>summary.
        io_bind (io_lift (langs E data)) (\<lambda>languages.
        io_bind (io_lift (prompt data summary languages)) (\<lambda>text.
        io_catch
          (io_bind (generate_content model text) (\<lambda>answer.
           io_lift (json_loads E (strip_fences answer))))
          (\<lambda>e. io_bind (st_error (AnalysisError e)) (\<lambda>u. io_return PNone)))))))"

section \<open>A scripted model\<close>

definition demo_data :: pyval where
  "demo_data = PDict
     [(''user'', PDict [(''login'', PStr ''octocat''), (''name'', PNone), (''followers'', PInt 10),
        (''following'', PInt 2), (''public_repos'', PInt 2),
        (''created_at'', PStr ''2011-01-25T18:44:36Z'')]),
      (''repos'', PList
        [PDict [(''name'', PStr ''hello''), (''language'', PStr ''C''), (''stargazers_count'', PInt 3)],
         PDict [(''name'', PStr ''notes''), (''language'', PNone)]]),
      (''orgs'', PList [])]"

definition demo_models :: "model_info py list" where
  "demo_models =
     [Inr (Model ''models/gemini-pro'' [''generateContent'']),
      Inr (Model ''models/embed-flash'' [''embedContent'']),
      Inr (Model ''models/gemini-2.0-flash'' [''generateContent'', ''countTokens'']),
      Inl RequestException]"

definition scripted :: "string py \<Rightarrow> env" where
  "scripted answer = (offline PNone)
     \<lparr>gemini_key := PStr ''key'', list_models := demo_models,
      generative_model := (\<lambda>name. Inr (\<lambda>p. answer)),
      json_loads := (\<lambda>s. if s = ''{}'' then Inr (PDict []) else Inl JSONDecodeError)\<rparr>"

definition demo_prompt :: string where
  "demo_prompt = join nl
     ([[],
       ''    Act as a VP of Engineering at a top tech company. Analyze this GitHub profile thoroughly.'',
       ''    '',
       ''    USER PROFILE:'',
       ''    Username: octocat'',
       ''    Name: None'',
       ''    Bio: None'',
       ''    Location: N/A'',
       ''    Followers: 10'',
       ''    Following: 2'',
       ''    Public Repos: 2'',
       ''    Account Created: 2011-01-25'',
       ''    '',
       ''    TOP REPOSITORIES (with stars):'',
       ''    hello (C) - '' @ star @ ''3'',
       ''notes (None) - '' @ star @ ''0'',
       ''    '',
       ''    LANGUAGES USED: C'',
       ''    '',
       ''    ORGANIZATIONS: 0'',
       ''    ''] @ instructions)"

lemmas assess_defs = get_working_model_def fallback_model_def summary_line_def repo_summary_def
  language_of_def langs_def user_index_def user_get_def prompt_def star_def nl_def dq_def
  fence_def strip_fences_def analyze_with_ai_def generate_content_def st_error_def

lemmas demo_defs = demo_data_def demo_models_def scripted_def offline_def world0_def

section \<open>Properties of the model choice\<close>

definition stops :: "model_info py \<Rightarrow> bool" where
  "stops r = (case r of Inl e \<Rightarrow> True
     | Inr m \<Rightarrow> ''generateContent'' \<in> set (m_supported_generation_methods m) \<and>
         contains ''flash'' (m_name m))"

text \<open>
  C39: the loop of \<open>get_working_model\<close> is a search: it ends at the first listed model
  that generates content and is a flash model, or at the first failure of the listing,
  and then, or when the list ends, the fallback name is returned.
\<close>

theorem first_flash_find:
  "first_flash ms = (case find stops ms of Some (Inr m) \<Rightarrow> PStr (m_name m) | _ \<Rightarrow> fallback_model)"
  by (induction ms rule: first_flash.induct) (auto simp: stops_def)

lemma first_flash_truthy [simp]: "truthy (first_flash ms)"
  by (induction ms rule: first_flash.induct) (auto simp: fallback_model_def)

lemma first_flash_sound:
  "first_flash ms = fallback_model \<or>
   (\<exists>m. Inr m \<in> set ms \<and> first_flash ms = PStr (m_name m) \<and> contains ''flash'' (m_name m) \<and>
      ''generateContent'' \<in> set (m_supported_generation_methods m))"
  by (induction ms rule: first_flash.induct) auto

text \<open>A model is chosen exactly when the credential is set.\<close>

lemma get_working_model_truthy: "truthy (get_working_model E) \<longleftrightarrow> truthy (gemini_key E)"
  by (simp add: get_working_model_def)

lemma get_working_model_listing_fails:
  "truthy (gemini_key E) \<Longrightarrow> list_models E = Inl e # ms \<Longrightarrow> get_working_model E = fallback_model"
  by (simp add: get_working_model_def)

section \<open>Properties of the call\<close>

text \<open>
  C31: without the model credential \<open>get_working_model\<close> chooses no model, and
  \<open>analyze_with_ai\<close> then returns \<open>None\<close> without constructing a model, sending a
  prompt or showing a message.
\<close>

theorem no_key_no_assessment:
  assumes "\<not> truthy (gemini_key E)"
  shows "get_working_model E = PNone \<and>
    analyze_with_ai E data (get_working_model E) w = (Inr PNone, w)"
  using assms by (simp add: get_working_model_def analyze_with_ai_def)

text \<open>
  Once the model is constructed and the prompt is built, the call cannot raise: the
  prompt is sent once, and the result is what \<open>json.loads\<close> makes of the cleaned answer,
  or \<open>None\<close> with one message on the page.
\<close>

lemma analyze_with_ai_called:
  assumes "truthy model_name" "generative_model E model_name = Inr model"
    and "repo_summary data = Inr summary" "langs E data = Inr ls" "prompt data summary ls = Inr p"
  shows "analyze_with_ai E data model_name w =
     (case rbind (model p) (\<lambda>answer. json_loads E (strip_fences answer)) of
        Inr v \<Rightarrow> (Inr v, w\<lparr>prompts := prompts w @ [p]\<rparr>)
      | Inl e \<Rightarrow> (Inr PNone, w\<lparr>prompts := prompts w @ [p], shown := shown w @ [AnalysisError e]\<rparr>))"
proof (cases "model p")
  case (Inl e)
  then show ?thesis
    using assms by (simp add: analyze_with_ai_def generate_content_def st_error_def)
next
  case (Inr answer)
  then show ?thesis
    using assms
    by (cases "json_loads E (strip_fences answer)")
       (simp_all add: analyze_with_ai_def generate_content_def st_error_def)
qed

text \<open>
  C9: \<open>analyze_with_ai\<close> returns whatever value \<open>json.loads\<close> makes of the cleaned
  answer of the model: the value is not checked against the schema the prompt asks for.
\<close>

theorem assessment_not_validated:
  assumes "truthy model_name" "generative_model E model_name = Inr model"
    and "repo_summary data = Inr summary" "langs E data = Inr ls" "prompt data summary ls = Inr p"
    and "model p = Inr answer" "json_loads E (strip_fences answer) = Inr v"
  shows "analyze_with_ai E data model_name w = (Inr v, w\<lparr>prompts := prompts w @ [p]\<rparr>)"
  using assms by (simp add: analyze_with_ai_called)

text \<open>
  C17: when the model raises or its cleaned answer does not parse, \<open>analyze_with_ai\<close>
  returns \<open>None\<close>, having sent the prompt once and shown the error on the page.
\<close>

theorem assessment_fails_closed:
  assumes "truthy model_name" "generative_model E model_name = Inr model"
    and "repo_summary data = Inr summary" "langs E data = Inr ls" "prompt data summary ls = Inr p"
    and "rbind (model p) (\<lambda>answer. json_loads E (strip_fences answer)) = Inl e"
  shows "analyze_with_ai E data model_name w =
     (Inr PNone, w\<lparr>prompts := prompts w @ [p], shown := shown w @ [AnalysisError e]\<rparr>)"
  using assms by (simp add: analyze_with_ai_called)

text \<open>
  C33: what is raised while the prompt is built, before the \<open>try\<close>, is raised by
  \<open>analyze_with_ai\<close>: nothing is sent and nothing is shown.
\<close>

theorem analyze_with_ai_prompt_raises:
  assumes "truthy model_name" "generative_model E model_name = Inr model"
    and "rbind (repo_summary data) (\<lambda>summary. rbind (langs E data) (prompt data summary)) = Inl e"
  shows "analyze_with_ai E data model_name w = (Inl e, w)"
proof (cases "repo_summary data")
  case (Inl e')
  then show ?thesis using assms by (simp add: analyze_with_ai_def)
next
  case summary: (Inr summary)
  show ?thesis
  proof (cases "langs E data")
    case (Inl e')
    then show ?thesis using assms summary by (simp add: analyze_with_ai_def)
  next
    case (Inr ls)
    then show ?thesis using assms summary by (simp add: analyze_with_ai_def)
  qed
qed

section \<open>Fences\<close>

lemma replace_fence_json: "replace_all (fence @ ''json'') [] fence = fence"
  by (simp add: fence_def)

text \<open>
  C30: an answer wrapped in a \<open>json\<close> fence is unwrapped by \<open>strip_fences\<close> to its body,
  when the body has no backquote and neither begins nor ends with whitespace.
\<close>

theorem strip_fences_fenced:
  assumes "CHR 0x60 \<notin> set body" "body \<noteq> []" "\<not> is_space (hd body)" "\<not> is_space (last body)"
  shows "strip_fences (fence @ ''json'' @ nl @ body @ nl @ fence) = body"
proof -
  let ?old = "fence @ ''json''"
  have old: "?old \<noteq> []" "hd ?old = CHR 0x60" "fence \<noteq> []" "hd fence = CHR 0x60"
    by (simp_all add: fence_def)
  have tick: "CHR 0x60 \<notin> set (nl @ body @ nl)" using assms by (simp add: nl_def)
  have skip: "replace_all old [] ((nl @ body @ nl) @ t) = (nl @ body @ nl) @ replace_all old [] t"
    if "old \<noteq> []" "hd old = CHR 0x60" for old t
    by (rule replace_all_skip) (use that tick in simp_all)
  have "replace_all ?old [] (?old @ (nl @ body @ nl) @ fence) = (nl @ body @ nl) @ fence"
    using replace_all_hit [OF old(1), of "[]"] skip [OF old(1,2)] by (simp only: replace_fence_json append_Nil)
  moreover have "replace_all fence [] ((nl @ body @ nl) @ fence @ []) = nl @ body @ nl"
    using replace_all_hit [OF old(3), of "[]" "[]"] skip [OF old(3,4)] by simp
  ultimately have "py_replace fence [] (py_replace ?old [] (fence @ ''json'' @ nl @ body @ nl @ fence)) =
      nl @ body @ nl"
    using old by (simp add: py_replace_def)
  moreover have "py_strip (nl @ body @ nl) = body"
    using assms by (intro py_strip_pad) (simp_all add: nl_def is_space_def)
  ultimately show ?thesis by (simp add: strip_fences_def)
qed

section \<open>Examples\<close>

theorem no_key_no_assessment_witness:
  "get_working_model (offline (PStr ''t'')) = PNone \<and>
   analyze_with_ai (offline (PStr ''t'')) demo_data (get_working_model (offline (PStr ''t''))) world0 =
     (Inr PNone, world0)"
  by (rule no_key_no_assessment) (simp add: offline_def)

theorem strip_fences_fenced_witness:
  "strip_fences (fence @ ''json'' @ nl @ ''{}'' @ nl @ fence) = ''{}''"
  using strip_fences_fenced [of "''{}''"] by (simp add: is_space_def)

lemma demo_model: "get_working_model (scripted a) = PStr ''models/gemini-2.0-flash''"
  by (simp add: get_working_model_def demo_defs)

lemma demo_prompt:
  "repo_summary demo_data = Inr [''hello (C) - '' @ star @ ''3'', ''notes (None) - '' @ star @ ''0'']"
  "langs (scripted a) demo_data = Inr [PStr ''C'']"
  "prompt demo_data [''hello (C) - '' @ star @ ''3'', ''notes (None) - '' @ star @ ''0''] [PStr ''C''] =
     Inr demo_prompt"
  by (simp_all add: assess_defs demo_defs demo_prompt_def text_defs str_defs)

text \<open>An answer that parses is returned as it is: here an object with none of the keys
  the prompt asks for.\<close>

theorem assessment_not_validated_witness:
  "analyze_with_ai (scripted (Inr ''{}'')) demo_data (PStr ''models/gemini-2.0-flash'') world0 =
     (Inr (PDict []), world0\<lparr>prompts := [demo_prompt]\<rparr>)"
  using assessment_not_validated [of "PStr ''models/gemini-2.0-flash''" "scripted (Inr ''{}'')"
      "\<lambda>p. Inr ''{}''" demo_data _ _ demo_prompt "''{}''" "PDict []" world0, OF _ _ demo_prompt]
  by (simp add: demo_defs strip_fences_def fence_def text_defs)

text \<open>An answer that does not parse gives \<open>None\<close> and a message, and so does a model
  that raises.\<close>

theorem assessment_fails_closed_witness:
  "analyze_with_ai (scripted (Inr ''Sorry, no.'')) demo_data (PStr ''m'') world0 =
     (Inr PNone, world0\<lparr>prompts := [demo_prompt], shown := [AnalysisError JSONDecodeError]\<rparr>)"
  using assessment_fails_closed [of "PStr ''m''" "scripted (Inr ''Sorry, no.'')"
      "\<lambda>p. Inr ''Sorry, no.''" demo_data _ _ demo_prompt JSONDecodeError world0, OF _ _ demo_prompt]
  by (simp add: demo_defs strip_fences_def fence_def text_defs)

lemma model_raises_example:
  "analyze_with_ai (scripted (Inl GenerationError)) demo_data (PStr ''m'') world0 =
     (Inr PNone, world0\<lparr>prompts := [demo_prompt], shown := [AnalysisError GenerationError]\<rparr>)"
  using analyze_with_ai_called [of "PStr ''m''" "scripted (Inl GenerationError)"
      "\<lambda>p. Inl GenerationError" demo_data _ _ demo_prompt world0, OF _ _ demo_prompt]
  by (simp add: demo_defs)

text \<open>A bundle whose profile lacks a field the prompt reads makes the call raise.\<close>

theorem analyze_with_ai_prompt_raises_witness:
  "analyze_with_ai (scripted (Inr ''{}''))
     (PDict [(''user'', PDict [(''login'', PStr ''x'')]), (''repos'', PList [])]) (PStr ''m'') world0 =
     (Inl (KeyError ''followers''), world0)"
  by (rule analyze_with_ai_prompt_raises)
     (simp_all add: assess_defs demo_defs text_defs)

section \<open>The logs\<close>

lemma analyze_with_ai_grows [simp, history]: "grows w (snd (analyze_with_ai E data model_name w))"
  unfolding analyze_with_ai_def io_bind_apply io_catch_apply
  by ((intro history conjI impI | simp split: if_splits)+)

end
