(* ===== verification/App.thy ===== *)
theory App
  imports Fetcher Recommend Assessment
begin

text \<open>
  One run of the page script: \<open>load_lottieurl\<close>, the body of \<open>if analyze_btn:\<close> up to the
  four artifacts it hands to the dashboard, and the report of the export button. The
  messages the run shows are recorded in the world; the dashboard drawn from the
  artifacts is theory \<open>Dashboard\<close>. The last two sections show that a run only appends
  to the logs of the world and that a run that returns has shown a message.
\<close>

section \<open>The animation\<close>

definition lottie_url :: string where
  "lottie_url = ''https://assets9.lottiefiles.com/packages/lf20_w51pcehl.json''"

definition load_lottieurl :: "env \<Rightarrow> string \<Rightarrow> pyval io" where
  "load_lottieurl E url =
     io_bind (requests_get E url) (\<lambda>r.
     if status_code r \<noteq> 200 then io_return PNone else io_lift (response_json r))"

section \<open>The run\<close>

record artifacts =
  a_data :: pyval
  a_portfolio_score :: rat
  a_dimension_scores :: "(string \<times> rat) list"
  a_ai_result :: pyval
  a_recommendations :: "recommendation list"

definition st_show :: "message \<Rightarrow> unit io" where
  "st_show m w = (Inr (), w\<lparr>shown := shown w @ [m]\<rparr>)"

text \<open>The last branch of the run: the four artifacts of a fetched bundle.\<close>

definition build_artifacts :: "env \<Rightarrow> string \<Rightarrow> pyval \<Rightarrow> artifacts option io" where
  "build_artifacts E username data =
     io_bind (io_lift (calculate_portfolio_score data)) (\<lambda>(portfolio_score, dimension_scores).
     io_bind (analyze_with_ai E data (get_working_model E)) (\<lambda>ai_result.
     io_bind (io_lift (get_actionable_recommendations data dimension_scores))
       (\<lambda>recommendations.
     io_bind (st_show (AnalysisComplete username)) (\<lambda>u.
     io_return (Some \<lparr>a_data = data, a_portfolio_score = portfolio_score,
       a_dimension_scores = dimension_scores, a_ai_result = ai_result,
       a_recommendations = recommendations\<rparr>)))))"

definition analyze :: "env \<Rightarrow> string \<Rightarrow> pyval \<Rightarrow> artifacts option io" where
  "analyze E username lottie_scanning =
     (if username = [] then io_bind (st_show EnterUsername) (\<lambda>u. io_return None)
      else
        io_bind (if truthy lottie_scanning then st_show Scanning else io_return ()) (\<lambda>u.
        io_bind (get_enhanced_github_data E username) (\<lambda>data.
        if data = PStr ''ERROR'' then io_bind (st_show UserNotFound) (\<lambda>u. io_return None)
        else if data = PStr ''NO_TOKEN'' then
          io_bind (st_show TokenNotConfigured) (\<lambda>u. io_return None)
        else build_artifacts E username data)))"

definition run :: "env \<Rightarrow> bool \<Rightarrow> string \<Rightarrow> artifacts option io" where
  "run E analyze_btn username =
     io_bind (load_lottieurl E lottie_url) (\<lambda>lottie_scanning.
     if analyze_btn then analyze E username lottie_scanning else io_return None)"

section \<open>The report\<close>

record report =
  rep_username :: string
  rep_portfolio_score :: rat
  rep_dimension_scores :: "(string \<times> rat) list"
  rep_ai_analysis :: pyval
  rep_repositories :: "pyval list"

definition report_row :: "pyval \<Rightarrow> pyval py" where
  "report_row r =
     rbind (py_index r ''name'') (\<lambda>name.
     rbind (py_index r ''stargazers_count'') (\<lambda>stars.
     rbind (py_index r ''forks_count'') (\<lambda>forks.
     rbind (py_index r ''doc_score'') (\<lambda>doc_score.
     Inr (PDict [(''name'', name), (''stars'', stars), (''forks'', forks),
       (''doc_score'', doc_score)])))))"

definition export_report :: "string \<Rightarrow> artifacts \<Rightarrow> report py" where
  "export_report username a =
     rbind (py_index (a_data a) ''repos'') (\<lambda>repos.
     rbind (py_slice_to repos 10) (\<lambda>top.
     rbind (py_iter top) (\<lambda>rs.
     rbind (rmap report_row rs) (\<lambda>rows.
     Inr \<lparr>rep_username = username, rep_portfolio_score = a_portfolio_score a,
       rep_dimension_scores = a_dimension_scores a, rep_ai_analysis = a_ai_result a,
       rep_repositories = rows\<rparr>))))"

section \<open>A profile without repositories\<close>

definition newcomer :: env where
  "newcomer = (offline (PStr ''token''))
     \<lparr>http := (\<lambda>i url.
        if i = 0 then Some (Response 404 None)
        else if i = 1 then Some (Response 200 (Some (PDict [(''login'', PStr ''newcomer'')])))
        else Some (Response 200 (Some (PList []))))\<rparr>"

definition newcomer_data :: pyval where
  "newcomer_data = PDict [(''user'', PDict [(''login'', PStr ''newcomer'')]), (''repos'', PList []),
     (''orgs'', PList [])]"

lemmas app_defs = lottie_url_def load_lottieurl_def st_show_def analyze_def run_def
  build_artifacts_def report_row_def export_report_def

section \<open>The animation is not optional\<close>

text \<open>A status other than 200 gives no animation; a failed request or a body that is
  not JSON raises.\<close>

lemma load_lottieurl_cases:
  "load_lottieurl E url w =
     (case http E (length (requests w)) url of
        None \<Rightarrow> (Inl RequestException, w\<lparr>requests := requests w @ [url]\<rparr>)
      | Some r \<Rightarrow>
          (if status_code r \<noteq> 200 then Inr PNone else response_json r,
           w\<lparr>requests := requests w @ [url]\<rparr>))"
  by (simp add: load_lottieurl_def requests_get_def split: option.splits)

text \<open>
  C34: when the request for the animation is not answered, \<open>run\<close> raises before it looks
  at the button: \<open>load_lottieurl\<close> has no \<open>try\<close>.
\<close>

theorem run_animation_unreachable:
  assumes "http E (length (requests w)) lottie_url = None"
  shows "run E analyze_btn username w = (Inl RequestException, w\<lparr>requests := requests w @ [lottie_url]\<rparr>)"
  using assms by (simp add: run_def load_lottieurl_cases)

theorem run_animation_unreachable_witness:
  "run (offline (PStr ''t'')) False ''u'' world0 =
     (Inl RequestException, world0\<lparr>requests := [lottie_url]\<rparr>)"
  using run_animation_unreachable [of "offline (PStr ''t'')" world0 False "''u''"]
  by (simp add: offline_def world0_def)

section \<open>Runs that stop early\<close>

lemma analyze_no_username:
  "analyze E [] lottie w = (Inr None, w\<lparr>shown := shown w @ [EnterUsername]\<rparr>)"
  by (simp add: analyze_def st_show_def)

lemma analyze_no_token:
  assumes "\<not> truthy (github_token E)" "username \<noteq> []"
  shows "analyze E username PNone w = (Inr None, w\<lparr>shown := shown w @ [TokenNotConfigured]\<rparr>)"
  using assms by (simp add: analyze_def st_show_def get_enhanced_github_data_def)

section \<open>The artifacts\<close>

text \<open>When the last branch returns, it returns the four artifacts, each computed from the
  bundle, and the page shows the success message last.\<close>

lemma build_artifacts_Inr:
  assumes "build_artifacts E u data w = (Inr r, w')"
  obtains a w1 where "r = Some a" "a_data a = data"
    "calculate_portfolio_score data = Inr (a_portfolio_score a, a_dimension_scores a)"
    "analyze_with_ai E data (get_working_model E) w = (Inr (a_ai_result a), w1)"
    "get_actionable_recommendations data (a_dimension_scores a) = Inr (a_recommendations a)"
    "w' = w1\<lparr>shown := shown w1 @ [AnalysisComplete u]\<rparr>"
proof -
  obtain score dims where 1: "calculate_portfolio_score data = Inr (score, dims)"
    using assms by (cases "calculate_portfolio_score data") (auto simp: build_artifacts_def)
  obtain ai w1 where 2: "analyze_with_ai E data (get_working_model E) w = (Inr ai, w1)"
    using assms 1 by (auto simp: build_artifacts_def elim!: io_then_InrE)
  obtain recs where 3: "get_actionable_recommendations data dims = Inr recs"
    using assms 1 2 by (cases "get_actionable_recommendations data dims") (auto simp: build_artifacts_def)
  show thesis
    using assms 1 2 3
    by (intro that [of "\<lparr>a_data = data, a_portfolio_score = score, a_dimension_scores = dims,
        a_ai_result = ai, a_recommendations = recs\<rparr>" w1])
       (auto simp: build_artifacts_def st_show_def)
qed

section \<open>A portfolio without repositories\<close>

text \<open>
  C2: for a bundle whose list of repositories is empty \<open>calculate_portfolio_score\<close>
  returns no dimensions, and the run then raises \<open>KeyError\<close> when the recommendations
  read the first of them; the assessment has been requested by then, and no artifact
  reaches the dashboard.
\<close>

theorem empty_portfolio_raises:
  assumes "\<not> truthy (dict_get kvs ''repos'' (PList []))"
    and "analyze_with_ai E (PDict kvs) (get_working_model E) w = (Inr ai, w')"
  shows "build_artifacts E username (PDict kvs) w = (Inl (KeyError ''Documentation Quality''), w')"
  using assms
  by (simp add: build_artifacts_def portfolio_score_no_repos recommend_defs)

lemma newcomer_fetch:
  "get_enhanced_github_data newcomer ''newcomer'' (world0\<lparr>requests := [lottie_url]\<rparr>) =
     (Inr newcomer_data,
      world0\<lparr>requests := [lottie_url, user_url ''newcomer'', repos_url ''newcomer'' 1,
        orgs_url ''newcomer'']\<rparr>)"
  by (simp add: fetch_defs fetch_pages.simps newcomer_def newcomer_data_def offline_def world0_def
      str_defs)

theorem empty_portfolio_raises_witness:
  "run newcomer True ''newcomer'' world0 =
     (Inl (KeyError ''Documentation Quality''),
      world0\<lparr>requests := [lottie_url, user_url ''newcomer'', repos_url ''newcomer'' 1,
        orgs_url ''newcomer'']\<rparr>)"
proof -
  let ?w = "world0\<lparr>requests := [lottie_url, user_url ''newcomer'', repos_url ''newcomer'' 1,
        orgs_url ''newcomer'']\<rparr>"
  have "analyze_with_ai newcomer newcomer_data (get_working_model newcomer) ?w = (Inr PNone, ?w)"
    by (simp add: get_working_model_def analyze_with_ai_def newcomer_def offline_def)
  then have "build_artifacts newcomer ''newcomer'' newcomer_data ?w =
      (Inl (KeyError ''Documentation Quality''), ?w)"
    unfolding newcomer_data_def by (rule empty_portfolio_raises [rotated]) simp
  moreover have "load_lottieurl newcomer lottie_url world0 =
      (Inr PNone, world0\<lparr>requests := [lottie_url]\<rparr>)"
    by (simp add: load_lottieurl_cases newcomer_def offline_def world0_def)
  ultimately show ?thesis
    using newcomer_fetch by (simp add: run_def analyze_def newcomer_data_def)
qed

section \<open>The report\<close>

lemma report_row_keys:
  "report_row r = Inr row \<Longrightarrow> py_keys row = Inr [''name'', ''stars'', ''forks'', ''doc_score'']"
  by (auto simp: report_row_def result_simps)

text \<open>
  C40: the report of the export button has the username, the score and the assessment of
  the run and at most ten repositories.
\<close>

theorem export_report_rows:
  assumes "export_report username a = Inr rep"
  shows "length (rep_repositories rep) \<le> 10 \<and> rep_username rep = username \<and>
    rep_portfolio_score rep = a_portfolio_score a \<and> rep_ai_analysis rep = a_ai_result a"
proof -
  obtain repos top rs rows where "py_slice_to repos 10 = Inr top" "py_iter top = Inr rs"
    "rmap report_row rs = Inr rows"
    and rep: "rep = \<lparr>rep_username = username, rep_portfolio_score = a_portfolio_score a,
       rep_dimension_scores = a_dimension_scores a, rep_ai_analysis = a_ai_result a,
       rep_repositories = rows\<rparr>"
    using assms by (auto simp: export_report_def result_simps)
  then have "length rows = length rs" "length rs \<le> 10"
    by (auto dest: rmap_length simp: take_map elim!: py_slice_to.elims)
  then show ?thesis using rep by simp
qed

section \<open>The history of a run\<close>

lemma st_show_grows [simp, history]: "grows w (snd (st_show m w))"
  by (simp add: st_show_def)

lemma load_lottieurl_grows [simp, history]: "grows w (snd (load_lottieurl E url w))"
  unfolding load_lottieurl_def io_bind_apply
  by ((intro history conjI impI | simp split: if_splits)+)

lemma build_artifacts_grows [simp, history]: "grows w (snd (build_artifacts E u data w))"
  unfolding build_artifacts_def io_bind_apply
  by ((intro history conjI impI allI | simp split: if_splits prod.splits)+)

lemma analyze_grows [simp, history]: "grows w (snd (analyze E u lottie w))"
  unfolding analyze_def io_bind_apply
  by ((intro history conjI impI | simp split: if_splits)+)


section \<open>Every run that returns says something\<close>

lemma build_artifacts_shows:
  assumes "build_artifacts E u data w = (Inr r, w')"
  shows "length (shown w) < length (shown w')"
  using assms
proof (rule build_artifacts_Inr)
  fix a w1
  assume "analyze_with_ai E data (get_working_model E) w = (Inr (a_ai_result a), w1)"
    "w' = w1\<lparr>shown := shown w1 @ [AnalysisComplete u]\<rparr>"
  then show ?thesis
    using analyze_with_ai_grows [of w E data "get_working_model E"] by (auto dest: grows_shown)
qed

lemma analyze_shows:
  assumes "analyze E u lottie w = (Inr r, w')"
  shows "length (shown w) < length (shown w')"
proof (cases "u = []")
  case True
  then show ?thesis using assms by (auto simp: analyze_no_username)
next
  case False
  obtain w1 where w1: "(if truthy lottie then st_show Scanning else io_return ()) w = (Inr (), w1)"
    "length (shown w) \<le> length (shown w1)"
    by (cases "truthy lottie") (auto simp: st_show_def)
  obtain data w2 where w2: "get_enhanced_github_data E u w1 = (Inr data, w2)"
    using fetch_outcome [of E u w1] by (cases "get_enhanced_github_data E u w1") auto
  then have "length (shown w1) \<le> length (shown w2)"
    using fetch_grows [of w1 E u] by (auto dest: grows_shown)
  moreover have "length (shown w2) < length (shown w')"
    using assms False w1(1) w2
    by (auto simp: analyze_def st_show_def dest: build_artifacts_shows split: if_splits)
  ultimately show ?thesis using w1(2) by simp
qed

text \<open>
  C16: when the analyze button is pressed and the run returns, the page has at least one
  more message than before: the request for a username, one of the two errors of the
  fetch, or the success message. The script never ends in silence.
\<close>

theorem run_responds:
  assumes "run E True username w = (Inr r, w')"
  shows "length (shown w) < length (shown w')"
proof -
  from assms obtain lottie w1 where "load_lottieurl E lottie_url w = (Inr lottie, w1)"
    "analyze E username lottie w1 = (Inr r, w')"
    by (auto simp: run_def elim!: io_then_InrE)
  then show ?thesis
    using load_lottieurl_grows [of w E lottie_url] by (auto dest!: analyze_shows grows_shown)
qed

theorem run_responds_witness:
  "length (shown world0) < length (shown (snd (run (offline PNone
     \<lparr>http := (\<lambda>i url. Some (Response 404 None))\<rparr>) True [] world0)))"
proof -
  let ?E = "offline PNone\<lparr>http := (\<lambda>i url. Some (Response 404 None))\<rparr>"
  have "run ?E True [] world0 =
      (Inr None, world0\<lparr>requests := [lottie_url], shown := [EnterUsername]\<rparr>)"
    by (simp add: run_def load_lottieurl_cases analyze_no_username world0_def)
  from run_responds [OF this] show ?thesis
    by (simp add: run_def load_lottieurl_cases analyze_no_username world0_def)
qed

end
