(* ===== verification/View.thy ===== *)
theory View
  imports PyText Datetime "HOL-Library.Multiset"
begin

text \<open>
  What the dashboard hands to Streamlit, and the Python operations only the dashboard
  uses: \<open>==\<close> on values, \<open>in\<close>, \<open>dict.items\<close>, \<open>+\<close> on strings, \<open>collections.Counter\<close>
  and the value of a select box. A widget carries the values the code computes for it;
  its label and the fixed part of its text are kept without their emoji, with \<open>{}\<close> where
  an f-string interpolates, and the styling arguments of the charts are left out.
  Rendering is a writer: the widgets emitted so far, and the exception that stopped the
  script if one did. Containers (\<open>with col:\<close>, \<open>with tab:\<close>, \<open>with st.expander(...)\<close>) are
  flattened, since every tab is rendered on every run.
\<close>

section \<open>Widgets\<close>

datatype cell = V pyval | F rat | N int

type_synonym fstring = "string \<times> cell list"
type_synonym rows = "(pyval \<times> pyval) list"

datatype chart =
    Scatterpolar "rat list" "string list"
  | Pie rows
  | Bar rows

datatype widget =
    Metric string fstring "string option"
  | Subheader string
  | Plotly chart
  | Info fstring
  | Success fstring
  | Error fstring
  | Warning fstring
  | Write fstring
  | Text fstring
  | Markdown fstring
  | Expander fstring

section \<open>Rendering\<close>

type_synonym render = "widget list \<times> pyerr option"

definition emit :: "widget \<Rightarrow> render" where
  "emit x = ([x], None)"

definition nothing :: render where
  "nothing = ([], None)"

fun and_then :: "render \<Rightarrow> render \<Rightarrow> render" where
  "and_then (ws, Some e) r = (ws, Some e)"
| "and_then (ws, None) (ws', r) = (ws @ ws', r)"

definition compute :: "'a py \<Rightarrow> ('a \<Rightarrow> render) \<Rightarrow> render" where
  "compute m f = (case m of Inl e \<Rightarrow> ([], Some e) | Inr x \<Rightarrow> f x)"

definition in_order :: "render list \<Rightarrow> render" where
  "in_order rs = foldr and_then rs nothing"

definition for_each :: "'a list \<Rightarrow> ('a \<Rightarrow> render) \<Rightarrow> render" where
  "for_each xs f = in_order (map f xs)"

definition completes :: "render \<Rightarrow> bool" where
  "completes r = (snd r = None)"

section \<open>Operations on values\<close>

text \<open>
  \<open>a == b\<close>. \<open>True\<close> and \<open>1\<close> are equal; two dictionaries are equal when they have the same
  keys with equal values, in whatever order.
\<close>

fun py_eq :: "pyval \<Rightarrow> pyval \<Rightarrow> bool" where
  "py_eq (PBool a) (PInt i) = ((if a then 1 else 0) = i)"
| "py_eq (PInt i) (PBool a) = ((if a then 1 else 0) = i)"
| "py_eq (PList xs) (PList ys) = list_all2 py_eq xs ys"
| "py_eq (PDict a) (PDict b) =
     (length a = length b \<and>
      list_all (\<lambda>kv. case map_of b (fst kv) of None \<Rightarrow> False | Some v \<Rightarrow> py_eq (snd kv) v) a)"
| "py_eq a b = (a = b)"

fun py_in :: "string \<Rightarrow> pyval \<Rightarrow> bool py" where
  "py_in k (PDict kvs) = Inr (k \<in> set (map fst kvs))"
| "py_in k (PList xs) = Inr (PStr k \<in> set xs)"
| "py_in k (PStr s) = Inr (contains k s)"
| "py_in k v = Inl TypeError"

fun py_items :: "pyval \<Rightarrow> rows py" where
  "py_items (PDict kvs) = Inr (map (\<lambda>kv. (PStr (fst kv), snd kv)) kvs)"
| "py_items v = Inl AttributeError"

fun py_add_str :: "pyval \<Rightarrow> string \<Rightarrow> pyval py" where
  "py_add_str (PStr s) t = Inr (PStr (s @ t))"
| "py_add_str v t = Inl TypeError"

text \<open>
  \<open>Counter(xs)\<close> counts by item assignment, so its items come in the order in which
  each element first occurs.
\<close>

definition counter :: "string list \<Rightarrow> (string \<times> nat) list" where
  "counter xs =
     fold (\<lambda>x c. AList.update x (Suc (case map_of c x of None \<Rightarrow> 0 | Some n \<Rightarrow> n)) c) xs []"

text \<open>
  \<open>st.selectbox(label, options)\<close> returns the chosen option, \<open>None\<close> when there is
  none to choose. The choice is the position the user picked, the first by default.
\<close>

definition selectbox :: "pyval list \<Rightarrow> nat \<Rightarrow> pyval" where
  "selectbox options choice = (case drop choice options of [] \<Rightarrow> PNone | x # xs \<Rightarrow> x)"

text \<open>\<open>next(r for r in rs if p(r))\<close>, where \<open>p\<close> may raise.\<close>

fun py_next :: "('a \<Rightarrow> bool py) \<Rightarrow> 'a list \<Rightarrow> 'a py" where
  "py_next p [] = Inl StopIteration"
| "py_next p (x # xs) = rbind (p x) (\<lambda>b. if b then Inr x else py_next p xs)"

lemmas view_defs = emit_def nothing_def compute_def in_order_def for_each_def completes_def
  selectbox_def counter_def

section \<open>Laws of rendering\<close>

lemma and_then_nothing [simp]: "and_then nothing r = r" "and_then r nothing = r"
  by (cases r; cases "snd r"; simp add: nothing_def)+

lemma and_then_assoc: "and_then (and_then a b) c = and_then a (and_then b c)"
  by (cases a; cases "snd a"; cases b; cases "snd b"; cases c; simp)

lemma and_then_emit [simp]: "and_then (emit x) r = (x # fst r, snd r)"
  by (cases r) (simp add: emit_def)

lemma render_sel [simp]:
  "fst (emit x) = [x]" "snd (emit x) = None" "fst nothing = []" "snd nothing = None"
  by (simp_all add: emit_def nothing_def)

lemma in_order_simps [simp]:
  "in_order [] = nothing" "in_order (r # rs) = and_then r (in_order rs)"
  by (simp_all add: in_order_def)

lemma in_order_append: "in_order (rs @ rs') = and_then (in_order rs) (in_order rs')"
  by (induction rs) (simp_all add: and_then_assoc)

lemma for_each_simps [simp]:
  "for_each [] f = nothing" "for_each (x # xs) f = and_then (f x) (for_each xs f)"
  by (simp_all add: for_each_def)

lemma compute_simps [simp]: "compute (Inr x) f = f x" "compute (Inl e) f = ([], Some e)"
  by (simp_all add: compute_def)

lemma compute_weak_cong [cong]: "m = m' \<Longrightarrow> compute m f = compute m' f"
  by simp

text \<open>What a sequence shows and how it ends.\<close>

lemma snd_and_then: "snd (and_then a b) = (case snd a of Some e \<Rightarrow> Some e | None \<Rightarrow> snd b)"
  by (cases a; cases "snd a"; cases b; simp)

lemma fst_and_then: "fst (and_then a b) = (case snd a of Some e \<Rightarrow> fst a | None \<Rightarrow> fst a @ fst b)"
  by (cases a; cases "snd a"; cases b; simp)

lemma and_then_raises: "\<not> completes a \<Longrightarrow> and_then a b = a"
  by (cases a; cases "snd a"; simp add: completes_def)

lemma completes_simps [simp]: "completes nothing" "completes (emit x)" "completes (ws, None)"
  "\<not> completes (ws, Some e)"
  by (simp_all add: completes_def nothing_def emit_def)

lemma completes_snd [simp]: "completes (ws, snd r) \<longleftrightarrow> completes r"
  by (simp add: completes_def)

lemma completes_and_then [simp]: "completes (and_then a b) \<longleftrightarrow> completes a \<and> completes b"
  by (auto simp: completes_def snd_and_then split: option.splits)

lemma completes_in_order: "completes (in_order rs) \<longleftrightarrow> list_all completes rs"
  by (induction rs) simp_all

lemma completes_for_each: "completes (for_each xs f) \<longleftrightarrow> list_all (\<lambda>x. completes (f x)) xs"
  by (induction xs) simp_all

lemma completes_compute: "completes (compute m f) \<longleftrightarrow> (\<exists>x. m = Inr x \<and> completes (f x))"
  by (cases m) simp_all

lemma completes_computeI: "m = Inr x \<Longrightarrow> completes (f x) \<Longrightarrow> completes (compute m f)"
  by simp

lemma completes_if [simp]:
  "completes (if c then a else b) \<longleftrightarrow> (if c then completes a else completes b)"
  by simp

section \<open>Equality, membership and selection\<close>

lemma py_eq_str [simp]: "py_eq (PStr s) v \<longleftrightarrow> v = PStr s" "py_eq v (PStr s) \<longleftrightarrow> v = PStr s"
  by (cases v; auto)+

lemma py_eq_refl: "wf_val v \<Longrightarrow> py_eq v v"
proof (induction v)
  case (PList xs)
  then show ?case by (auto simp: list_all2_same list_all_iff)
next
  case (PDict kvs)
  then have "py_eq (snd kv) (snd kv)" if "kv \<in> set kvs" for kv
    using that by (cases kv) (auto simp: list_all_iff snds.simps)
  then show ?case using PDict.prems by (auto simp: list_all_iff)
qed simp_all

lemma selectbox_nth: "choice < length options \<Longrightarrow> selectbox options choice = options ! choice"
  by (simp add: selectbox_def Cons_nth_drop_Suc [symmetric])

lemma selectbox_cases: "selectbox options choice = PNone \<or> selectbox options choice \<in> set options"
proof (cases "drop choice options")
  case Nil
  then show ?thesis by (simp add: selectbox_def)
next
  case (Cons x xs)
  then have "x \<in> set (drop choice options)" by simp
  then have "x \<in> set options" by (rule in_set_dropD)
  then show ?thesis using Cons by (simp add: selectbox_def)
qed

lemma py_next_found:
  assumes "\<forall>y\<in>set xs. succeeds (p y)" "\<exists>x\<in>set xs. p x = Inr True"
  shows "\<exists>y\<in>set xs. py_next p xs = Inr y \<and> p y = Inr True"
  using assms
proof (induction xs)
  case Nil
  then show ?case by simp
next
  case (Cons a xs)
  then obtain b where b: "p a = Inr b" by (auto simp: succeeds_iff)
  show ?case
  proof (cases b)
    case True
    then show ?thesis using b by simp
  next
    case False
    then have "\<exists>x\<in>set xs. p x = Inr True" using Cons.prems(2) b by auto
    then show ?thesis using Cons.IH Cons.prems(1) b False by auto
  qed
qed

section \<open>Counting\<close>

text \<open>The reference: every element once, in the order of first occurrence, with the number
  of its occurrences.\<close>

definition first_occurrences :: "'a list \<Rightarrow> 'a list" where
  "first_occurrences xs = rev (remdups (rev xs))"

definition tally :: "string list \<Rightarrow> (string \<times> nat) list" where
  "tally xs = map (\<lambda>x. (x, count_list xs x)) (first_occurrences xs)"

lemma first_occurrences_snoc:
  "first_occurrences (xs @ [x]) =
     (if x \<in> set xs then first_occurrences xs else first_occurrences xs @ [x])"
  by (simp add: first_occurrences_def)

lemma set_first_occurrences [simp]: "set (first_occurrences xs) = set xs"
  by (simp add: first_occurrences_def)

lemma distinct_first_occurrences [simp]: "distinct (first_occurrences xs)"
  by (simp add: first_occurrences_def)

lemma update_tabulated:
  "distinct ks \<Longrightarrow> AList.update k v (map (\<lambda>x. (x, f x)) ks) =
     (if k \<in> set ks then map (\<lambda>x. (x, (f(k := v)) x)) ks
      else map (\<lambda>x. (x, f x)) ks @ [(k, v)])"
  by (induction ks) auto

lemma map_of_tally: "map_of (tally xs) x = (if x \<in> set xs then Some (count_list xs x) else None)"
  by (auto simp: tally_def map_of_map_restrict restrict_map_def)

lemma counter_snoc:
  "counter (xs @ [x]) =
     AList.update x (Suc (case map_of (counter xs) x of None \<Rightarrow> 0 | Some n \<Rightarrow> n)) (counter xs)"
  by (simp add: counter_def)

text \<open>
  C29: \<open>Counter(xs)\<close>, built by one item assignment per element, lists every element of
  \<open>xs\<close> once, in the order of first occurrence, with the number of its occurrences.
\<close>

theorem counter_tally: "counter xs = tally xs"
proof (induction xs rule: rev_induct)
  case Nil
  show ?case by (simp add: counter_def tally_def first_occurrences_def)
next
  case (snoc x xs)
  have "counter (xs @ [x]) = AList.update x (Suc (count_list xs x)) (tally xs)"
    by (simp add: counter_snoc snoc.IH map_of_tally)
  also have "\<dots> = tally (xs @ [x])"
    unfolding tally_def
    by (subst update_tabulated) (auto simp: first_occurrences_snoc)
  finally show ?case .
qed

end
