(* ===== verification/Dashboard.thy ===== *)
theory Dashboard
  imports App View
begin

text \<open>
  The dashboard that \<open>app.py\<close> draws from the four artifacts of a run: the row of
  metrics, the four tabs and the footer, one definition per block of the script, in its
  order. Each block reads the bundle and the assessment with the subscripts and slices
  of the source, so a missing key stops the page at the widget that needed it.
\<close>

section \<open>Reading the artifacts\<close>

definition repos_of :: "pyval \<Rightarrow> pyval list py" where
  "repos_of data = rbind (py_index data ''repos'') py_iter"

definition user_field :: "pyval \<Rightarrow> string \<Rightarrow> pyval py" where
  "user_field data k = rbind (py_index data ''user'') (\<lambda>user. py_index user k)"

text \<open>\<open>for x in v[:n]\<close>.\<close>

definition first_items :: "pyval \<Rightarrow> nat \<Rightarrow> pyval list py" where
  "first_items v n = rbind (py_slice_to v n) py_iter"

section \<open>The metrics\<close>

definition top_metrics :: "artifacts \<Rightarrow> render" where
  "top_metrics a =
     in_order
       [emit (Metric ''Portfolio Score'' (''{}/100'', [F (a_portfolio_score a)])
          (if 80 < a_portfolio_score a then Some ''Top 10%'' else None)),
        compute (user_field (a_data a) ''public_repos'') (\<lambda>n.
          emit (Metric ''Total Repos'' (''{}'', [V n]) None)),
        compute (rbind (repos_of (a_data a)) (sum_field ''stargazers_count'')) (\<lambda>total_stars.
          emit (Metric ''Total Stars'' (''{}'', [N total_stars]) None)),
        compute (user_field (a_data a) ''followers'') (\<lambda>n.
          emit (Metric ''Followers'' (''{}'', [V n]) None)),
        if truthy (a_ai_result a) then
          compute (py_index (a_ai_result a) ''verdict'') (\<lambda>verdict.
            emit (Metric ''AI Verdict'' (''{}'', [V verdict]) None))
        else nothing]"

section \<open>Portfolio overview\<close>

definition dimension_chart :: "artifacts \<Rightarrow> render" where
  "dimension_chart a =
     in_order
       [emit (Subheader ''Dimension-wise Scores''),
        emit (Plotly (Scatterpolar (map snd (a_dimension_scores a)) (map fst (a_dimension_scores a))))]"

definition all_langs :: "pyval list \<Rightarrow> string list py" where
  "all_langs repos =
     rbind (rmap (\<lambda>repo. rbind (py_get repo ''languages'' (PDict [])) py_keys) repos)
       (\<lambda>ks. Inr (concat ks))"

definition language_distribution :: "artifacts \<Rightarrow> render" where
  "language_distribution a =
     in_order
       [emit (Subheader ''Language Distribution''),
        compute (rbind (repos_of (a_data a)) all_langs) (\<lambda>langs.
          if langs \<noteq> [] then
            emit (Plotly (Pie (map (\<lambda>(l, n). (PStr l, PInt (int n))) (take 8 (counter langs)))))
          else nothing)]"

definition profile_summary :: "artifacts \<Rightarrow> render" where
  "profile_summary a =
     in_order
       [emit (Subheader ''Profile Summary''),
        if truthy (a_ai_result a) then
          compute (py_index (a_ai_result a) ''summary'') (\<lambda>summary. emit (Info (''{}'', [V summary])))
        else nothing]"

record repo_update =
  u_repository :: pyval
  u_last_updated :: datetime
  u_stars :: pyval

definition update_row :: "pyval \<Rightarrow> repo_update py" where
  "update_row repo =
     rbind (py_index repo ''pushed_at'') (\<lambda>pushed.
     rbind (strptime pushed) (\<lambda>pushed_at.
     rbind (py_index repo ''name'') (\<lambda>name.
     rbind (py_index repo ''stargazers_count'') (\<lambda>stars.
     Inr \<lparr>u_repository = name, u_last_updated = pushed_at, u_stars = stars\<rparr>))))"

text \<open>
  \<open>sort_values('Last Updated', ascending=False)\<close>. A frame built from no rows has no
  columns, and sorting it by one raises \<open>KeyError\<close>. Rows with the same timestamp keep
  their order here; pandas does not promise that.
\<close>

definition sort_values_desc :: "repo_update list \<Rightarrow> repo_update list py" where
  "sort_values_desc rows =
     (if rows = [] then Inl (KeyError ''Last Updated'')
      else Inr (sort_key (\<lambda>r. - to_microseconds (u_last_updated r)) rows))"

definition recent_activity :: "artifacts \<Rightarrow> render" where
  "recent_activity a =
     in_order
       [emit (Subheader ''Recent Activity''),
        compute (rbind (py_index (a_data a) ''repos'') (\<lambda>repos. first_items repos 10)) (\<lambda>top.
        compute (rmap update_row top) (\<lambda>repo_updates.
        compute (sort_values_desc repo_updates) (\<lambda>df_activity.
          emit (Plotly (Bar (map (\<lambda>r. (u_repository r, u_stars r)) df_activity))))))]"

definition portfolio_overview :: "artifacts \<Rightarrow> render" where
  "portfolio_overview a =
     in_order [dimension_chart a, language_distribution a, profile_summary a, recent_activity a]"

section \<open>Repository analysis\<close>

definition repo_metrics :: "pyval \<Rightarrow> render" where
  "repo_metrics repo =
     in_order
       [compute (py_index repo ''doc_score'') (\<lambda>v. emit (Metric ''Documentation'' (''{}/100'', [V v]) None)),
        compute (py_index repo ''code_score'') (\<lambda>v. emit (Metric ''Code Quality'' (''{}/100'', [V v]) None)),
        compute (py_index repo ''activity_score'') (\<lambda>v. emit (Metric ''Activity'' (''{}/100'', [V v]) None))]"

definition repo_stats :: "pyval \<Rightarrow> render" where
  "repo_stats repo =
     in_order
       [emit (Write (''**Repository Stats**'', [])),
        compute (py_index repo ''stargazers_count'') (\<lambda>v. emit (Write (''- Stars: {}'', [V v]))),
        compute (py_index repo ''forks_count'') (\<lambda>v. emit (Write (''- Forks: {}'', [V v]))),
        compute (py_index repo ''open_issues_count'') (\<lambda>v. emit (Write (''- Open Issues: {}'', [V v]))),
        compute (py_index repo ''size'') (\<lambda>v. emit (Write (''- Size: {} KB'', [V v]))),
        compute (rbind (py_index repo ''created_at'') (\<lambda>t. py_slice_to t 10)) (\<lambda>v.
          emit (Write (''- Created: {}'', [V v]))),
        compute (rbind (py_index repo ''pushed_at'') (\<lambda>t. py_slice_to t 10)) (\<lambda>v.
          emit (Write (''- Last Updated: {}'', [V v])))]"

definition repo_languages :: "pyval \<Rightarrow> render" where
  "repo_languages repo =
     compute (py_get repo ''languages'' PNone) (\<lambda>languages.
     if truthy languages then
       in_order
         [emit (Write (''**Languages Used**'', [])),
          compute (rbind (py_index repo ''languages'') py_items) (\<lambda>lang_df. emit (Plotly (Pie lang_df)))]
     else nothing)"

definition readme_preview :: "pyval \<Rightarrow> render" where
  "readme_preview repo =
     compute (py_get repo ''readme_preview'' PNone) (\<lambda>preview.
     if truthy preview then
       in_order
         [emit (Write (''**README Preview**'', [])),
          compute (rbind (py_index repo ''readme_preview'') (\<lambda>t.
                   rbind (py_slice_to t 300) (\<lambda>s. py_add_str s ''...''))) (\<lambda>v.
            emit (Text (''{}'', [V v])))]
     else emit (Warning (''No README found for this repository'', [])))"

definition repository_analysis :: "artifacts \<Rightarrow> nat \<Rightarrow> render" where
  "repository_analysis a choice =
     in_order
       [emit (Subheader ''Repository Deep Dive''),
        compute (repos_of (a_data a)) (\<lambda>repos.
        compute (rmap (\<lambda>r. py_index r ''name'') repos) (\<lambda>repo_names.
        let selected_repo = selectbox repo_names choice in
        if truthy selected_repo then
          compute (py_next (\<lambda>r. rbind (py_index r ''name'') (\<lambda>n. Inr (py_eq n selected_repo))) repos)
            (\<lambda>repo.
          in_order [repo_metrics repo, repo_stats repo, repo_languages repo, readme_preview repo])
        else nothing))]"

section \<open>Recommendations\<close>

text \<open>\<open>if ai_result and key in ai_result\<close>.\<close>

definition has_section :: "pyval \<Rightarrow> string \<Rightarrow> bool py" where
  "has_section ai_result k = (if truthy ai_result then py_in k ai_result else Inr False)"

definition repo_advice :: "pyval \<Rightarrow> string \<Rightarrow> string \<Rightarrow> string \<Rightarrow> render" where
  "repo_advice ai_result k title field =
     compute (has_section ai_result k) (\<lambda>present.
     if present then
       in_order
         [emit (Write (title, [])),
          compute (rbind (py_index ai_result k) (\<lambda>items. first_items items 3)) (\<lambda>items.
          for_each items (\<lambda>item.
            in_order
              [compute (py_index item ''name'') (\<lambda>name. emit (Expander (''{}'', [V name]))),
               compute (py_index item field) (\<lambda>v. emit (Write (''{}'', [V v])))]))]
     else nothing)"

definition priority_improvements :: "recommendation list \<Rightarrow> render" where
  "priority_improvements recommendations =
     in_order
       [emit (Write (''### Priority Improvements'', [])),
        for_each (zip [1 ..< 4] (take 3 recommendations)) (\<lambda>(i, rec).
          emit (Markdown (''**{}. {}** - *{}* - **Action:** {} - **Priority:** {} ---'',
            [N (int i), V (rec_repo rec), V (PStr (rec_issue rec)), V (PStr (rec_action rec)),
             V (PStr (rec_priority rec))])))]"

definition recommendations_tab :: "artifacts \<Rightarrow> render" where
  "recommendations_tab a =
     in_order
       [emit (Subheader ''Actionable Recommendations''),
        repo_advice (a_ai_result a) ''improve_repos'' ''### Top Repositories to Improve'' ''improvement'',
        repo_advice (a_ai_result a) ''archive_repos'' ''### Repositories to Consider Archiving'' ''reason'',
        priority_improvements (a_recommendations a),
        emit (Write (''### Recruiter's Perspective'', [])),
        emit (Info (''**What recruiters look for:**'', []))]"

section \<open>Interview preparation\<close>

definition skills_chart :: "pyval \<Rightarrow> string \<Rightarrow> string \<Rightarrow> render" where
  "skills_chart ai_result k title =
     in_order
       [emit (Write (title, [])),
        compute (rbind (py_index ai_result k) py_items) (\<lambda>df. emit (Plotly (Bar df)))]"

definition interview_prep :: "artifacts \<Rightarrow> render" where
  "interview_prep a =
     (let ai_result = a_ai_result a in
      compute (has_section ai_result ''interview_questions'') (\<lambda>present.
      if present then
        in_order
          [emit (Subheader ''Technical Interview Questions''),
           emit (Write (''Based on the candidate's actual projects:'', [])),
           compute (rbind (py_index ai_result ''interview_questions'') py_iter) (\<lambda>qs.
           for_each (zip [1 ..< Suc (length qs)] qs) (\<lambda>(i, q).
             in_order [emit (Expander (''Question {}'', [N (int i)])), emit (Write (''{}'', [V q]))])),
           emit (Subheader ''Skills Assessment''),
           compute (py_in ''skills'' ai_result) (\<lambda>skills.
           if skills then
             in_order
               [skills_chart ai_result ''skills'' ''**Technical Skills**'',
                compute (py_in ''soft_skills'' ai_result) (\<lambda>soft.
                if soft then skills_chart ai_result ''soft_skills'' ''**Soft Skills**'' else nothing)]
           else nothing)]
      else emit (Warning (''Interview questions could not be generated. Please try again.'', []))))"

section \<open>Key takeaways\<close>

definition takeaways :: "pyval \<Rightarrow> string \<Rightarrow> widget \<Rightarrow> render" where
  "takeaways ai_result k heading =
     (if truthy ai_result then
        in_order
          [emit heading,
           compute (rbind (py_index ai_result k) (\<lambda>xs. first_items xs 3)) (\<lambda>xs.
           for_each xs (\<lambda>p. emit (Write (''{}'', [V p]))))]
      else nothing)"

definition key_takeaways :: "artifacts \<Rightarrow> render" where
  "key_takeaways a =
     in_order
       [emit (Subheader ''Key Takeaways''),
        takeaways (a_ai_result a) ''pros'' (Success (''**Top Strengths**'', [])),
        takeaways (a_ai_result a) ''cons'' (Error (''**Areas for Improvement**'', []))]"

section \<open>The page\<close>

definition dashboard :: "artifacts \<Rightarrow> nat \<Rightarrow> render" where
  "dashboard a choice =
     in_order
       [top_metrics a, portfolio_overview a, repository_analysis a choice, recommendations_tab a,
        interview_prep a, key_takeaways a]"

section \<open>The script\<close>

text \<open>
  What the user did before this run of the script: the text of the input field, which
  of the buttons report a press, and the position chosen in the select box.
\<close>

record ui =
  ui_username :: string
  ui_analyze :: bool
  ui_demo :: bool
  ui_export :: bool
  ui_choice :: nat

record page =
  p_widgets :: "widget list"
  p_exception :: "pyerr option"
  p_download :: "(string \<times> report) option"

definition username_of :: "ui \<Rightarrow> string" where
  "username_of i = (if ui_demo i then ''torvalds'' else ui_username i)"

definition export_button :: "bool \<Rightarrow> string \<Rightarrow> artifacts \<Rightarrow> (string \<times> report) option py" where
  "export_button pressed username a =
     (if pressed then
        rbind (export_report username a) (\<lambda>report.
        Inr (Some (''github_audit_'' @ username @ ''.json'', report)))
      else Inr None)"

definition script :: "env \<Rightarrow> ui \<Rightarrow> world \<Rightarrow> page \<times> world" where
  "script E i w =
     (case run E (ui_analyze i) (username_of i) w of
        (Inl e, w') \<Rightarrow> (\<lparr>p_widgets = [], p_exception = Some e, p_download = None\<rparr>, w')
      | (Inr None, w') \<Rightarrow> (\<lparr>p_widgets = [], p_exception = None, p_download = None\<rparr>, w')
      | (Inr (Some a), w') \<Rightarrow>
          (case dashboard a (ui_choice i) of
             (ws, Some e) \<Rightarrow> (\<lparr>p_widgets = ws, p_exception = Some e, p_download = None\<rparr>, w')
           | (ws, None) \<Rightarrow>
               (case export_button (ui_export i) (username_of i) a of
                  Inl e \<Rightarrow> (\<lparr>p_widgets = ws, p_exception = Some e, p_download = None\<rparr>, w')
                | Inr d \<Rightarrow> (\<lparr>p_widgets = ws, p_exception = None, p_download = d\<rparr>, w'))))"

text \<open>
  A Streamlit button reports a press only to the run that the press started, so no run
  sees two buttons pressed. This is a property of the framework, not of \<open>app.py\<close>; the
  theorems that need it assume it.
\<close>

definition one_press :: "ui \<Rightarrow> bool" where
  "one_press i = (length (filter id [ui_analyze i, ui_demo i, ui_export i]) \<le> 1)"

section \<open>Bundles the page can draw\<close>

fun sliceable :: "pyval \<Rightarrow> bool" where
  "sliceable (PStr s) = True"
| "sliceable (PList xs) = True"
| "sliceable v = False"

fun is_str :: "pyval \<Rightarrow> bool" where
  "is_str (PStr s) = True"
| "is_str v = False"

definition has_keys :: "pydict \<Rightarrow> string list \<Rightarrow> bool" where
  "has_keys kvs ks = list_all (\<lambda>k. map_of kvs k \<noteq> None) ks"

text \<open>The fields of a repository that the page reads and the API always sends.\<close>

definition github_fields :: "pydict \<Rightarrow> bool" where
  "github_fields kvs \<longleftrightarrow>
     has_keys kvs [''name'', ''stargazers_count'', ''forks_count'', ''open_issues_count'', ''size'',
       ''created_at'', ''pushed_at''] \<and>
     is_str (dict_get kvs ''name'' PNone) \<and> sliceable (dict_get kvs ''created_at'' PNone) \<and>
     is_dict (dict_get kvs ''languages'' PNone)"

text \<open>The fields the page reads that the fetch has written or checked.\<close>

definition fetched_fields :: "pydict \<Rightarrow> bool" where
  "fetched_fields kvs \<longleftrightarrow>
     has_keys kvs [''doc_score'', ''code_score'', ''activity_score'', ''languages'', ''readme_preview''] \<and>
     is_num (dict_get kvs ''stargazers_count'' (PInt 0)) \<and>
     succeeds (strptime (dict_get kvs ''pushed_at'' (PStr ''2000-01-01''))) \<and>
     (dict_get kvs ''readme_preview'' PNone = PNone \<or> is_str (dict_get kvs ''readme_preview'' PNone))"

text \<open>A bundle the page can draw: a user with the two counts the metrics show, and at
  least one repository, each a dictionary with the given fields.\<close>

definition shaped :: "(pydict \<Rightarrow> bool) \<Rightarrow> pyval \<Rightarrow> bool" where
  "shaped P data =
     (case data of
        PDict kvs \<Rightarrow>
          (case map_of kvs ''user'' of
             Some (PDict user) \<Rightarrow> has_keys user [''public_repos'', ''followers'']
           | _ \<Rightarrow> False) \<and>
          (case map_of kvs ''repos'' of
             Some (PList repos) \<Rightarrow>
               repos \<noteq> [] \<and> list_all (\<lambda>r. case r of PDict kvs \<Rightarrow> P kvs | _ \<Rightarrow> False) repos
           | _ \<Rightarrow> False)
      | _ \<Rightarrow> False)"

definition presentable_repo :: "pyval \<Rightarrow> bool" where
  "presentable_repo repo =
     (case repo of PDict kvs \<Rightarrow> github_fields kvs \<and> fetched_fields kvs | _ \<Rightarrow> False)"

definition github_shaped :: "pyval \<Rightarrow> bool" where
  "github_shaped data = shaped github_fields data"

definition presentable :: "pyval \<Rightarrow> bool" where
  "presentable data = shaped (\<lambda>kvs. github_fields kvs \<and> fetched_fields kvs) data"

section \<open>A profile with two repositories\<close>

definition hello_raw :: pydict where
  "hello_raw = [(''name'', PStr ''hello''), (''full_name'', PStr ''octocat/hello''),
     (''description'', PStr ''x''), (''languages_url'', PStr ''LH''), (''size'', PInt 3),
     (''stargazers_count'', PInt 2), (''forks_count'', PInt 1), (''open_issues_count'', PInt 0),
     (''created_at'', PStr ''2020-01-01T00:00:00Z''), (''pushed_at'', PStr ''2024-03-05T10:20:30Z'')]"

definition notes_raw :: pydict where
  "notes_raw = [(''name'', PStr ''notes''), (''full_name'', PStr ''octocat/notes''),
     (''languages_url'', PStr ''LN''), (''size'', PInt 0),
     (''stargazers_count'', PInt 0), (''forks_count'', PInt 0), (''open_issues_count'', PInt 0),
     (''created_at'', PStr ''2021-06-01T00:00:00Z''), (''pushed_at'', PStr ''2024-03-07T08:00:00Z'')]"

definition octo_user :: pyval where
  "octo_user = PDict [(''login'', PStr ''octocat''), (''public_repos'', PInt 2), (''followers'', PInt 10),
     (''following'', PInt 2), (''created_at'', PStr ''2011-01-25T18:44:36Z'')]"

definition hello_repo :: pyval where
  "hello_repo = PDict (hello_raw @
     [(''readme_exists'', PBool True), (''readme_preview'', PStr ''Hi''),
      (''languages'', PDict [(''C'', PInt 10), (''Shell'', PInt 2)]), (''languages_count'', PInt 2),
      (''commit_activity'', PNone), (''doc_score'', PInt 60), (''code_score'', PInt 70),
      (''activity_score'', PInt 60)])"

definition notes_repo :: pyval where
  "notes_repo = PDict (notes_raw @
     [(''readme_exists'', PBool False), (''readme_preview'', PNone),
      (''languages'', PDict [(''C'', PInt 4)]), (''languages_count'', PInt 1),
      (''commit_activity'', PNone), (''doc_score'', PInt 0), (''code_score'', PInt 20),
      (''activity_score'', PInt 40)])"

definition octo_data :: pyval where
  "octo_data = PDict [(''user'', octo_user), (''repos'', PList [hello_repo, notes_repo]),
     (''orgs'', PList [])]"

definition octo_artifacts :: artifacts where
  "octo_artifacts =
     \<lparr>a_data = octo_data, a_portfolio_score = 25,
      a_dimension_scores = [(''Documentation Quality'', 30), (''Code Structure & Best Practices'', 45),
        (''Activity Consistency'', 50), (''Repository Organization'', 0), (''Project Impact'', 1),
        (''Technical Depth'', 16)],
      a_ai_result = PNone,
      a_recommendations = [poor_documentation, missing_documentation (PStr ''notes''),
        low_impact (PStr ''notes'')]\<rparr>"

definition octo_metrics :: "widget list" where
  "octo_metrics =
     [Metric ''Portfolio Score'' (''{}/100'', [F 25]) None,
      Metric ''Total Repos'' (''{}'', [V (PInt 2)]) None,
      Metric ''Total Stars'' (''{}'', [N 2]) None,
      Metric ''Followers'' (''{}'', [V (PInt 10)]) None]"

definition pressed_export :: ui where
  "pressed_export =
     \<lparr>ui_username = ''octocat'', ui_analyze = False, ui_demo = False, ui_export = True, ui_choice = 0\<rparr>"

definition pressed_demo :: ui where
  "pressed_demo =
     \<lparr>ui_username = ''x'', ui_analyze = False, ui_demo = True, ui_export = False, ui_choice = 0\<rparr>"

definition pressed_analyze :: ui where
  "pressed_analyze =
     \<lparr>ui_username = ''octocat'', ui_analyze = True, ui_demo = False, ui_export = False, ui_choice = 1\<rparr>"

lemmas dashboard_defs = repos_of_def user_field_def first_items_def top_metrics_def
  dimension_chart_def all_langs_def language_distribution_def profile_summary_def update_row_def
  sort_values_desc_def recent_activity_def portfolio_overview_def repo_metrics_def repo_stats_def
  repo_languages_def readme_preview_def repository_analysis_def has_section_def repo_advice_def
  priority_improvements_def recommendations_tab_def skills_chart_def interview_prep_def
  takeaways_def key_takeaways_def dashboard_def

lemmas script_defs = username_of_def export_button_def script_def one_press_def

lemmas shape_defs = has_keys_def github_fields_def fetched_fields_def shaped_def presentable_def
  github_shaped_def presentable_repo_def

lemmas octo_defs = hello_raw_def notes_raw_def octo_user_def hello_repo_def notes_repo_def
  octo_data_def octo_artifacts_def octo_metrics_def

section \<open>An assessment the page cannot read\<close>

lemma top_metrics_assessment:
  "top_metrics a =
     and_then (top_metrics (a\<lparr>a_ai_result := PNone\<rparr>))
       (if truthy (a_ai_result a) then
          compute (py_index (a_ai_result a) ''verdict'') (\<lambda>verdict.
            emit (Metric ''AI Verdict'' (''{}'', [V verdict]) None))
        else nothing)"
proof -
  have "in_order [r1, r2, r3, r4, r5] = and_then (in_order [r1, r2, r3, r4, nothing]) r5"
    for r1 r2 r3 r4 r5
    using in_order_append [of "[r1, r2, r3, r4]" "[r5]"] by simp
  then show ?thesis by (simp add: top_metrics_def)
qed

lemma dashboard_stops: "\<not> completes (top_metrics a) \<Longrightarrow> dashboard a c = top_metrics a"
  by (simp add: dashboard_def and_then_raises)

text \<open>
  When the assessment is truthy and \<open>ai_result['verdict']\<close> raises (an object without
  that key, a list, a number), the page shows the four metrics that do not depend on the
  assessment and stops there with that exception: no tab is drawn.
\<close>

lemma dashboard_missing_verdict:
  assumes "truthy (a_ai_result a)" "py_index (a_ai_result a) ''verdict'' = Inl e"
    and "top_metrics (a\<lparr>a_ai_result := PNone\<rparr>) = (ws, None)"
  shows "dashboard a c = (ws, Some e)"
proof -
  have "top_metrics a = (ws, Some e)"
    using assms by (simp add: top_metrics_assessment [of a])
  then show ?thesis using dashboard_stops [of a c] by simp
qed

section \<open>No assessment\<close>

lemma has_section_falsy: "\<not> truthy ai \<Longrightarrow> has_section ai k = Inr False"
  by (simp add: has_section_def)

text \<open>
  C23: an assessment that is falsy (\<open>None\<close> after a failure, but also \<open>{}\<close>, \<open>[]\<close>, \<open>0\<close> or
  \<open>""\<close> from the model) is never read: the page is the one drawn for \<open>None\<close>.
\<close>

theorem dashboard_falsy_assessment:
  assumes "\<not> truthy (a_ai_result a)"
  shows "dashboard a c = dashboard (a\<lparr>a_ai_result := PNone\<rparr>) c"
  using assms
  by (simp add: dashboard_def top_metrics_def portfolio_overview_def dimension_chart_def
      language_distribution_def profile_summary_def recent_activity_def repository_analysis_def
      recommendations_tab_def repo_advice_def interview_prep_def key_takeaways_def takeaways_def
      has_section_falsy)

section \<open>Buttons\<close>

lemma run_idle:
  "run E False u w =
     (case load_lottieurl E lottie_url w of (Inl e, w') \<Rightarrow> (Inl e, w') | (Inr v, w') \<Rightarrow> (Inr None, w'))"
  by (simp add: run_def split: io_then_split prod.splits sum.splits)

lemma script_idle:
  assumes "\<not> ui_analyze i"
  shows "p_widgets (fst (script E i w)) = [] \<and> p_download (fst (script E i w)) = None \<and>
    snd (script E i w) = w\<lparr>requests := requests w @ [lottie_url]\<rparr>"
  using assms
  by (auto simp: script_def run_idle load_lottieurl_cases split: option.splits prod.splits sum.splits)

text \<open>
  C10: the export button is drawn inside \<open>if analyze_btn:\<close>. The run that its press starts
  does not see the analyze button pressed, so it never reaches the button's body: no run
  of the script offers the report for download.
\<close>

theorem export_unreachable:
  assumes "one_press i"
  shows "p_download (fst (script E i w)) = None"
proof (cases "ui_export i")
  case True
  then have "\<not> ui_analyze i" using assms by (auto simp: one_press_def split: if_splits)
  then show ?thesis using script_idle by blast
next
  case False
  then show ?thesis
    by (simp add: script_def export_button_def split: option.splits prod.splits sum.splits)
qed

text \<open>
  C35: the demo button only sets \<open>username\<close> to \<open>'torvalds'\<close> for its own run, in which
  the analyze button is not pressed: the run requests the animation and nothing else,
  and draws nothing.
\<close>

theorem demo_button_idle:
  assumes "one_press i" "ui_demo i"
  shows "p_widgets (fst (script E i w)) = [] \<and> shown (snd (script E i w)) = shown w \<and>
    requests (snd (script E i w)) = requests w @ [lottie_url]"
proof -
  have "\<not> ui_analyze i" using assms by (auto simp: one_press_def split: if_splits)
  from script_idle [OF this, of E w] show ?thesis by simp
qed

section \<open>A page without an assessment\<close>

lemma has_keys_index: "has_keys kvs ks \<Longrightarrow> k \<in> set ks \<Longrightarrow> py_index (PDict kvs) k = Inr (dict_get kvs k d)"
  by (auto simp: has_keys_def list_all_iff dict_get_def)

lemma presentable_repoE:
  assumes "presentable_repo repo"
  obtains kvs name t ls where "repo = PDict kvs" "github_fields kvs" "fetched_fields kvs"
    "map_of kvs ''name'' = Some (PStr name)" "map_of kvs ''pushed_at'' = Some t" "succeeds (strptime t)"
    "map_of kvs ''languages'' = Some (PDict ls)"
proof -
  from assms obtain kvs where kvs: "repo = PDict kvs" "github_fields kvs" "fetched_fields kvs"
    by (auto simp: presentable_repo_def split: pyval.splits)
  then obtain n t l where "map_of kvs ''name'' = Some n" "map_of kvs ''pushed_at'' = Some t"
    "map_of kvs ''languages'' = Some l"
    by (auto simp: github_fields_def fetched_fields_def has_keys_def)
  moreover from this kvs obtain name ls where "n = PStr name" "l = PDict ls" "succeeds (strptime t)"
    by (cases n; cases l) (auto simp: github_fields_def fetched_fields_def dict_get_def)
  ultimately show thesis using kvs that by blast
qed

lemmas field_reads = has_keys_index [where d = PNone] github_fields_def fetched_fields_def

lemma repo_metrics_completes: "presentable_repo repo \<Longrightarrow> completes (repo_metrics repo)"
  by (erule presentable_repoE) (auto simp: repo_metrics_def fetched_fields_def has_keys_def)

lemma repo_stats_completes: "presentable_repo repo \<Longrightarrow> completes (repo_stats repo)"
proof (erule presentable_repoE)
  fix kvs t
  assume *: "repo = PDict kvs" "github_fields kvs" "map_of kvs ''pushed_at'' = Some t"
    "succeeds (strptime t)"
  then obtain s where "t = PStr s" by (cases t) (auto simp: strptime_def)
  moreover obtain c where "map_of kvs ''created_at'' = Some c" "sliceable c"
    using * by (auto simp: github_fields_def has_keys_def dict_get_def)
  ultimately show ?thesis
    using * by (cases c) (auto simp: repo_stats_def github_fields_def has_keys_def)
qed

lemma repo_languages_completes: "presentable_repo repo \<Longrightarrow> completes (repo_languages repo)"
  by (erule presentable_repoE) (auto simp: repo_languages_def dict_get_def)

lemma readme_preview_completes: "presentable_repo repo \<Longrightarrow> completes (readme_preview repo)"
proof (erule presentable_repoE)
  fix kvs
  assume *: "repo = PDict kvs" "fetched_fields kvs"
  then obtain p where p: "map_of kvs ''readme_preview'' = Some p" "p = PNone \<or> is_str p"
    by (auto simp: fetched_fields_def has_keys_def dict_get_def)
  then show ?thesis using * by (cases p) (auto simp: readme_preview_def dict_get_def)
qed

lemma update_row_succeeds: "presentable_repo repo \<Longrightarrow> succeeds (update_row repo)"
  by (erule presentable_repoE)
    (auto simp: update_row_def github_fields_def has_keys_def succeeds_iff)

lemma rmap_succeeds: "list_all (\<lambda>x. succeeds (f x)) xs \<Longrightarrow> \<exists>ys. rmap f xs = Inr ys \<and> length ys = length xs"
  by (induction xs) (auto simp: succeeds_iff)

lemma shapedE:
  assumes "shaped P data"
  obtains kvs user repos where "data = PDict kvs" "map_of kvs ''user'' = Some (PDict user)"
    "has_keys user [''public_repos'', ''followers'']" "map_of kvs ''repos'' = Some (PList repos)"
    "repos \<noteq> []" "list_all (\<lambda>r. case r of PDict kvs \<Rightarrow> P kvs | _ \<Rightarrow> False) repos"
proof -
  from assms obtain kvs where kvs: "data = PDict kvs"
    by (cases data) (auto simp: shaped_def)
  with assms obtain u r where ur: "map_of kvs ''user'' = Some u" "map_of kvs ''repos'' = Some r"
    by (auto simp: shaped_def split: option.splits)
  with assms kvs obtain user repos where "u = PDict user" "r = PList repos"
    by (cases u; cases r) (auto simp: shaped_def)
  with assms kvs ur show thesis by (intro that [of kvs user repos]) (auto simp: shaped_def)
qed

lemma presentableE:
  assumes "presentable data"
  obtains kvs user repos where "data = PDict kvs" "map_of kvs ''user'' = Some (PDict user)"
    "has_keys user [''public_repos'', ''followers'']" "map_of kvs ''repos'' = Some (PList repos)"
    "repos \<noteq> []" "list_all presentable_repo repos"
  using assms unfolding presentable_def
  by (rule shapedE) (auto simp: presentable_repo_def [abs_def])

lemma stars_numeric:
  "presentable_repo r \<Longrightarrow> succeeds (rbind (py_get r ''stargazers_count'' (PInt 0)) py_num)"
  by (erule presentable_repoE) (auto simp: fetched_fields_def is_num_iff succeeds_iff)

lemma languages_keys:
  "presentable_repo r \<Longrightarrow> succeeds (rbind (py_get r ''languages'' (PDict [])) py_keys)"
  by (erule presentable_repoE) (auto simp: dict_get_def)

lemma sum_field_stars: "list_all presentable_repo rs \<Longrightarrow> succeeds (sum_field ''stargazers_count'' rs)"
  using rmap_succeeds [of "\<lambda>r. rbind (py_get r ''stargazers_count'' (PInt 0)) py_num" rs]
  by (auto simp: sum_field_def list_all_iff stars_numeric)

lemma all_langs_succeeds: "list_all presentable_repo rs \<Longrightarrow> succeeds (all_langs rs)"
  using rmap_succeeds [of "\<lambda>r. rbind (py_get r ''languages'' (PDict [])) py_keys" rs]
  by (auto simp: all_langs_def list_all_iff languages_keys)

lemma top_metrics_completes:
  assumes "presentable (a_data a)" "\<not> truthy (a_ai_result a)"
  shows "completes (top_metrics a)"
  using assms(1)
proof (rule presentableE)
  fix kvs user repos
  assume "a_data a = PDict kvs" "map_of kvs ''user'' = Some (PDict user)"
    "has_keys user [''public_repos'', ''followers'']" "map_of kvs ''repos'' = Some (PList repos)"
    "list_all presentable_repo repos"
  then show ?thesis
    using assms(2) sum_field_stars [of repos]
    by (auto simp: top_metrics_def user_field_def repos_of_def has_keys_def succeeds_iff)
qed

lemma language_distribution_completes:
  assumes "presentable (a_data a)"
  shows "completes (language_distribution a)"
  using assms
  by (rule presentableE)
    (use all_langs_succeeds in
      \<open>auto simp: language_distribution_def repos_of_def succeeds_iff completes_compute\<close>)

lemma recent_activity_completes:
  assumes "presentable (a_data a)"
  shows "completes (recent_activity a)"
  using assms
proof (rule presentableE)
  fix kvs repos
  assume *: "a_data a = PDict kvs" "map_of kvs ''repos'' = Some (PList repos)" "repos \<noteq> []"
    "list_all presentable_repo repos"
  then have "list_all (\<lambda>r. succeeds (update_row r)) (take 10 repos)"
    by (auto simp: list_all_iff update_row_succeeds dest: in_set_takeD)
  from rmap_succeeds [OF this] obtain rows where "rmap update_row (take 10 repos) = Inr rows"
    "length rows = length (take 10 repos)"
    by blast
  moreover from this *(3) have "rows \<noteq> []" by (cases repos) auto
  ultimately show ?thesis using * by (simp add: recent_activity_def first_items_def sort_values_desc_def)
qed

lemma repository_analysis_completes:
  assumes "presentable (a_data a)"
  shows "completes (repository_analysis a c)"
  using assms
proof (rule presentableE)
  fix kvs repos
  assume *: "a_data a = PDict kvs" "map_of kvs ''repos'' = Some (PList repos)"
    "list_all presentable_repo repos"
  let ?name = "\<lambda>r. py_index r ''name''"
  have names: "list_all (\<lambda>r. \<exists>s. ?name r = Inr (PStr s)) repos"
    using *(3) by (auto simp: list_all_iff elim!: presentable_repoE)
  then obtain repo_names where rn: "rmap ?name repos = Inr repo_names"
    using rmap_succeeds [of ?name repos] by (auto simp: list_all_iff succeeds_iff)
  let ?sel = "selectbox repo_names c"
  let ?p = "\<lambda>r. rbind (?name r) (\<lambda>n. Inr (py_eq n ?sel))"
  have found: "\<exists>r\<in>set repos. py_next ?p repos = Inr r" if "truthy ?sel"
  proof -
    from that selectbox_cases [of repo_names c] have "?sel \<in> set repo_names" by auto
    then obtain i where "i < length repo_names" "repo_names ! i = ?sel"
      by (auto simp: in_set_conv_nth)
    with rn have "repos ! i \<in> set repos" "?name (repos ! i) = Inr ?sel"
      by (auto simp: rmap_Inr_iff)
    then obtain r where r: "r \<in> set repos" "?name r = Inr ?sel" by blast
    from r(1) names obtain s where "?name r = Inr (PStr s)" by (auto simp: list_all_iff)
    with r have "?sel = PStr s" by simp
    with r have "\<exists>x\<in>set repos. ?p x = Inr True" by (intro bexI [of _ r]) simp_all
    moreover have "\<forall>y\<in>set repos. succeeds (?p y)"
      using names by (auto simp: list_all_iff)
    ultimately show ?thesis using py_next_found [of repos ?p] by blast
  qed
  show ?thesis
  proof (cases "truthy ?sel")
    case True
    from found [OF this] obtain r where "r \<in> set repos" "py_next ?p repos = Inr r" by blast
    moreover from this *(3) have "presentable_repo r" by (simp add: list_all_iff)
    ultimately show ?thesis
      using * rn True
      by (simp add: repository_analysis_def repos_of_def repo_metrics_completes repo_stats_completes
          repo_languages_completes readme_preview_completes)
  next
    case False
    then show ?thesis using * rn by (simp add: repository_analysis_def repos_of_def)
  qed
qed

lemma priority_improvements_completes [simp]: "completes (priority_improvements recs)"
  by (simp add: priority_improvements_def completes_for_each list_all_iff split: prod.splits)

text \<open>A bundle of the shape above is drawn to the end when there is no assessment.\<close>

lemma dashboard_completes:
  assumes "presentable (a_data a)" "\<not> truthy (a_ai_result a)"
  shows "completes (dashboard a c)"
  using assms
  by (simp add: dashboard_def portfolio_overview_def top_metrics_completes dimension_chart_def
      language_distribution_completes profile_summary_def recent_activity_completes
      repository_analysis_completes recommendations_tab_def repo_advice_def has_section_falsy
      interview_prep_def key_takeaways_def takeaways_def)

text \<open>The page always begins with the portfolio score.\<close>

lemma dashboard_shows: "fst (dashboard a c) \<noteq> []"
  by (simp add: dashboard_def top_metrics_def fst_and_then split: option.splits)

section \<open>What the fetch contributes\<close>

lemma enrich_readme_preview: "map_of (enrich e kvs) ''readme_preview'' = Some (e_readme e)"
  by (simp add: enrich_def map_of_set_fields map_add_def enrichment_fields_def)

text \<open>Every repository of a fetched bundle has the fields the fetch writes, a timestamp
  that parses and a number of stars: otherwise its scores would have raised.\<close>

lemma enriched_fetched_fields:
  assumes "enriched_from raw repo"
  obtains kvs where "repo = PDict kvs" "fetched_fields kvs"
proof -
  from assms obtain kvs e where *: "repo = PDict (enrich e kvs)" "scorable kvs" "enrichment_ok e"
    by (auto simp: enriched_from_def)
  have "map_of (enrich e kvs) k = map_of kvs k" if "k \<in> {''pushed_at'', ''stargazers_count''}" for k
    using that by (intro enrich_other) (auto simp: enrichment_keys_def)
  then have "fetched_fields (enrich e kvs)"
    using *(2,3)
    by (auto simp: fetched_fields_def has_keys_def dict_get_def enrich_scores enrich_readme_preview
        scorable_def enrichment_ok_def)
  with * that show thesis by blast
qed

lemma shaped_mono:
  assumes "shaped P data"
    and "\<And>kvs repos r. data = PDict kvs \<Longrightarrow> map_of kvs ''repos'' = Some (PList repos) \<Longrightarrow>
      PDict r \<in> set repos \<Longrightarrow> P r \<Longrightarrow> Q r"
  shows "shaped Q data"
  using assms(1)
proof (rule shapedE)
  fix kvs user repos
  assume *: "data = PDict kvs" "map_of kvs ''user'' = Some (PDict user)"
    "has_keys user [''public_repos'', ''followers'']" "map_of kvs ''repos'' = Some (PList repos)"
    "repos \<noteq> []" "list_all (\<lambda>r. case r of PDict kvs \<Rightarrow> P kvs | _ \<Rightarrow> False) repos"
  then have "list_all (\<lambda>r. case r of PDict kvs \<Rightarrow> Q kvs | _ \<Rightarrow> False) repos"
    using assms(2) [OF *(1,4)] by (auto simp: list_all_iff split: pyval.splits)
  with * show ?thesis by (simp add: shaped_def)
qed

section \<open>The activity chart\<close>


section \<open>The profile drawn\<close>

lemma octo_top_metrics: "top_metrics octo_artifacts = (octo_metrics, None)"
  by (simp add: top_metrics_def user_field_def repos_of_def sum_field_def octo_defs)

lemma octo_presentable: "presentable octo_data"
  by (simp add: shape_defs octo_defs strptime_def re_defs date_defs)

lemma octo_dashboard:
  "completes (dashboard octo_artifacts 1)"
  "fst (recent_activity octo_artifacts) =
     [Subheader ''Recent Activity'', Plotly (Bar [(PStr ''notes'', PInt 0), (PStr ''hello'', PInt 2)])]"
  "fst (language_distribution octo_artifacts) =
     [Subheader ''Language Distribution'', Plotly (Pie [(PStr ''C'', PInt 2), (PStr ''Shell'', PInt 1)])]"
  using dashboard_completes [of octo_artifacts 1] octo_presentable
  by (simp_all add: octo_defs recent_activity_def language_distribution_def first_items_def
      repos_of_def all_langs_def update_row_def sort_values_desc_def counter_def strptime_def re_defs
      date_defs upt_rec [of _ "numeral _"])


theorem dashboard_falsy_assessment_witness:
  "dashboard (octo_artifacts\<lparr>a_ai_result := PDict []\<rparr>) 0 = dashboard octo_artifacts 0"
  using dashboard_falsy_assessment [of "octo_artifacts\<lparr>a_ai_result := PDict []\<rparr>" 0]
  by (simp add: octo_artifacts_def)

theorem export_unreachable_witness:
  "p_download (fst (script (offline PNone) pressed_export world0)) = None"
  using export_unreachable [of pressed_export "offline PNone" world0]
  by (simp add: one_press_def pressed_export_def)

theorem demo_button_idle_witness:
  "p_widgets (fst (script (offline PNone) pressed_demo world0)) = [] \<and>
   shown (snd (script (offline PNone) pressed_demo world0)) = [] \<and>
   requests (snd (script (offline PNone) pressed_demo world0)) = [lottie_url]"
  using demo_button_idle [of pressed_demo "offline PNone" world0]
  by (simp add: one_press_def pressed_demo_def world0_def)

end
