(* ===== verification/Spec2Isabelle.thy ===== *)
theory Spec2Isabelle
  imports Dashboard
begin

text \<open>
  A verification development for the GitHub portfolio analyzer (\<open>src/app.py\<close>).

  \<^bold>\<open>The program.\<close> One Streamlit script. Each run of the script requests a decorative
  animation (\<open>load_lottieurl\<close>); when the button was pressed and a username was entered,
  it fetches the user's profile, repositories and organisations from the GitHub API and
  enriches every repository with a README preview, its languages, its commit activity
  and three scores (\<open>get_enhanced_github_data\<close> with \<open>get_readme_content\<close>,
  \<open>get_commit_activity\<close>, \<open>calculate_documentation_score\<close>,
  \<open>calculate_code_quality_score\<close>, \<open>calculate_activity_score\<close>); it blends the scores
  into a portfolio score and six dimensions (\<open>calculate_portfolio_score\<close>), asks a
  language model for an assessment (\<open>get_working_model\<close>, \<open>analyze_with_ai\<close>), derives
  recommendations (\<open>get_actionable_recommendations\<close>) and draws a dashboard of metrics,
  charts and tabs from these four artifacts, with a button that exports a report.

  \<^bold>\<open>Theories\<close>, in import order. Every definition that models code has the name of the
  function, variable or expression it models.
  \<^item> \<open>Prelude\<close>: results that carry exceptions (\<open>rbind\<close>, \<open>rmap\<close>), Python's
    \<open>round(x, 1)\<close> on exact rationals (\<open>py_round1\<close>), means and sums of bounded lists.
  \<^item> \<open>PyValue\<close>: the values the program handles (\<open>pyval\<close>: decoded JSON) and the Python
    primitives applied to them (\<open>dict.get\<close>, subscripts, item assignment, comparisons,
    iteration, \<open>len\<close>, \<open>str\<close>), each returning the exception it raises.
  \<^item> \<open>PyText\<close>: slices, the substring test, \<open>str.replace\<close>, \<open>str.strip\<close>, \<open>str.join\<close>
    and \<open>set\<close>, with their laws.
  \<^item> \<open>Datetime\<close>: \<open>datetime.strptime\<close> for the format \<open>'%Y-%m-%dT%H:%M:%SZ'\<close>, as a
    parser that follows the regular expressions of CPython's \<open>_strptime\<close>, and the
    \<open>days\<close> of a difference of two datetimes. The theory proves that the parser reads
    every timestamp in the notation of the GitHub API back to the date it denotes
    (\<open>isoformat_z\<close> is that notation, a reference and not code of the program), and that
    whatever it returns is a date of the calendar.
  \<^item> \<open>Contract\<close>: what the scoring engine promises, on typed records: the three scores
    of a \<open>repository\<close>, the six \<open>dimensions\<close> and the \<open>portfolioScore\<close> of a list of
    scored repositories, with their bounds, monotonicity and convexity.
  \<^item> \<open>Scoring\<close>: the three score functions over dictionaries as the source has them
    (lines 99-134), their errors, their bounds, and the proof that on well-typed
    dictionaries they compute the contract's functions.
  \<^item> \<open>Portfolio\<close>: \<open>calculate_portfolio_score\<close> (lines 223-285) and its refinement of
    \<open>portfolioScore\<close>.
  \<^item> \<open>Recommend\<close>: \<open>get_actionable_recommendations\<close> (lines 287-325): the four rules in
    evaluation order and the cut to five.
  \<^item> \<open>World\<close>: the outside of the program. The record \<open>env\<close> fixes what the outside
    answers: the two credentials, the HTTP oracle \<open>http\<close> (from the number of the
    request within the run and its URL to a response, or to none for a connection
    error), base64 and UTF-8 decoding, the clock, the model listing, the model,
    \<open>json.loads\<close> and the iteration order of a set. The record \<open>world\<close> is what the run
    has done to the outside: the URLs requested, the prompts sent, the messages shown.
    An effectful function is a function from \<open>world\<close> to a result and a \<open>world\<close>;
    \<open>io_bind\<close> sequences two of them and \<open>io_catch\<close> is \<open>try ... except\<close>. The three
    lists of the world are logs; \<open>grows\<close> says that a computation only appended to them,
    and the rules collected as \<open>history\<close> prove it of a composed computation.
  \<^item> \<open>Fetcher\<close>: \<open>get_enhanced_github_data\<close> (lines 136-221). The \<open>while\<close> loop over
    pages is the recursive function \<open>fetch_pages\<close>; the body of the \<open>for\<close> loop over
    repositories is \<open>enhance_repo\<close>. The theory proves the bound on the page
    requests, what enrichment does to a repository (\<open>enrich\<close>: eight fields appended
    or overwritten, the raw fields kept), that the three guarded requests never raise
    and the languages request does, the trace of requests of a successful fetch, that
    the fetch never raises, and that it returns a bundle from a service that answers
    (\<open>well_served\<close>: the profile, every page, the languages of every repository and
    the organisations are answered, whatever the position of the request in the run).
  \<^item> \<open>Assessment\<close>: \<open>get_working_model\<close> (lines 87-97) and \<open>analyze_with_ai\<close> (lines
    327-390): the prompt byte for byte, the call inside \<open>try\<close>, the removal of code
    fences, and the outcomes of the call.
  \<^item> \<open>App\<close>: \<open>load_lottieurl\<close> (lines 82-85), the run from the animation request to the
    four artifacts (lines 408-443: \<open>run\<close>, \<open>analyze\<close>, \<open>build_artifacts\<close>) and the
    report of the export button (lines 740-755); that a run only appends to the logs,
    and that a run that returns has shown a message.
  \<^item> \<open>View\<close>: what the page hands to Streamlit (\<open>widget\<close>, \<open>chart\<close>), rendering as a
    writer of widgets that stops at the first exception (\<open>emit\<close>, \<open>compute\<close>,
    \<open>in_order\<close>, \<open>for_each\<close>), and the Python operations only the page uses: \<open>==\<close>,
    \<open>in\<close>, \<open>dict.items\<close>, \<open>next\<close> over a generator, \<open>Counter\<close> (proved equal to a
    tally in order of first occurrence) and the value of a select box.
  \<^item> \<open>Dashboard\<close>: the dashboard (lines 444-736), one definition per block in the
    order of the script (\<open>top_metrics\<close>, \<open>portfolio_overview\<close> with its three charts,
    \<open>repository_analysis\<close>, \<open>recommendations_tab\<close>, \<open>interview_prep\<close>,
    \<open>key_takeaways\<close>), and the script as a whole (\<open>script\<close>: the input row of lines
    397-406, \<open>run\<close>, \<open>dashboard\<close> and the export button of lines 740-764). The theory
    proves that a falsy assessment is never read, that a bundle with the fields of the
    GitHub API and of the fetch is drawn to the end, that the page stops at the first
    subscript an assessment cannot answer, and that the bodies of the demo and the
    export button have no effect.
  \<^item> this theory: the properties that span components: from the fetch to the bounds
    of the portfolio score, what reaches the dashboard, from the run to a page drawn to
    its end or stopped by an assessment that was not validated, progress of the whole
    script behind a service that answers (\<open>profile_served\<close>), and complete runs
    evaluated on fixed environments: \<open>steady_page\<close> and \<open>octo\<close> answer by the position
    of the request, \<open>portal\<close> by its URL.

  \<^bold>\<open>Modelling decisions.\<close>
  \<^item> A Python exception is a value \<open>Inl e\<close> of \<open>pyerr + 'a\<close>; reads are sequenced with
    \<open>rbind\<close> and \<open>io_bind\<close> in the order the source evaluates them, so the error returned
    is the first exception the Python raises, and the world returned with it is the
    world at that moment.
  \<^item> Python's \<open>int\<close> is \<open>int\<close>. Python's \<open>float\<close> is \<open>rat\<close>: sums, quotients and the
    weighted blend are exact, where IEEE doubles round each operation. The two agree
    up to that rounding; a value that lies exactly between two one-decimal numbers may
    round to the other side in Python.
  \<^item> A dictionary is an association list in insertion order with item assignment by
    \<open>AList.update\<close>; a string is a list of 8-bit characters, and a slice counts those.
  \<^item> The HTTP oracle is indexed by the position of the request in the run, so that the
    same URL may be answered differently the second time; request headers and
    \<open>time.sleep\<close> have no counterpart.
  \<^item> The theorems of progress ask of the service only what the code needs to go on:
    \<open>answers E url r\<close> fixes the answer to a URL at every position, \<open>enrichable\<close> and
    \<open>api_repo\<close> say which fields of a repository are read without a guard. These are
    predicates on the environment, not code of the program.
  \<^item> Libraries are not modelled but assumed through \<open>env\<close>: \<open>requests\<close>, \<open>base64\<close>,
    \<open>json.loads\<close>, the \<open>google.generativeai\<close> client. No theorem assumes anything of
    them but what its hypotheses say.
  \<^item> A widget is the Streamlit call with the values the code computes for it. The fixed
    part of a text is kept without emoji and line breaks, with \<open>{}\<close> where an f-string
    interpolates; horizontal rules and the styling arguments of charts are left out;
    containers are flattened, since every tab is rendered on every run. \<open>pandas\<close> and
    \<open>plotly\<close> are modelled by what they do to the rows: \<open>head\<close>, \<open>sort_values\<close> (which
    raises on a frame without columns), and the rows a chart is given.
  \<^item> What the user did before a run is the record \<open>ui\<close>: the text of the input, one
    flag per button, the position chosen in the select box. That a Streamlit button
    reports a press only to the run the press started is not a property of \<open>app.py\<close>;
    it is the predicate \<open>one_press\<close>, assumed by the theorems that need it.

  \<^bold>\<open>Bounds and termination.\<close> The only loop that is not a traversal of a list is the
  pagination loop. \<open>fetch_pages\<close> is a total function: every iteration that continues
  has appended a non-empty page, so \<open>50 - length repos\<close> decreases; no fuel is needed.
  It requests at most fifty pages. The number of repositories it returns is bounded only
  together with the page size: at most 49 plus the size of the last page.

  \<^bold>\<open>Not modelled.\<close> The imports, the page configuration and the style sheet (lines
  1-75), which compute nothing; the colours, sizes and layout arguments of the widgets
  and charts; the text that \<open>json.dumps\<close> makes of the report (line 758): the report is
  modelled as the value handed to it.
\<close>

section \<open>Definitions\<close>

text \<open>
  What the portfolio score needs of an enriched repository beyond the three scores that
  enrichment writes: the languages are a dictionary, and the star and fork counts are
  integers that are not negative.
\<close>

definition counts_ok :: "pyval \<Rightarrow> bool" where
  "counts_ok r =
     (case r of
        PDict kvs \<Rightarrow>
          field_ok is_dict kvs ''languages'' \<and>
          list_all (\<lambda>k. field_ok is_int kvs k \<and> 0 \<le> int_field kvs k)
            [''stargazers_count'', ''forks_count'']
      | _ \<Rightarrow> False)"

text \<open>
  The profile of theory \<open>Fetcher\<close> behind the page: the animation is not found, the
  profile has one repository, there is no model credential. The run sends eight requests
  and hands these artifacts to the dashboard.
\<close>

definition steady_page :: env where
  "steady_page =
     steady\<lparr>http := (\<lambda>i url. if i = 0 then Some (Response 404 None) else http steady (i - 1) url)\<rparr>"

definition steady_artifacts :: artifacts where
  "steady_artifacts =
     \<lparr>a_data = PDict [(''user'', PDict [(''login'', PStr ''u'')]), (''repos'', PList [steady_repo]),
        (''orgs'', PList [])],
      a_portfolio_score = 253 / 10,
      a_dimension_scores = [(''Documentation Quality'', 20), (''Code Structure & Best Practices'', 70),
        (''Activity Consistency'', 40), (''Repository Organization'', 0), (''Project Impact'', 8 / 10),
        (''Technical Depth'', 8)],
      a_ai_result = PNone,
      a_recommendations = [poor_documentation, inconsistent_activity,
        missing_documentation (PStr ''demo'')]\<rparr>"

definition steady_report :: report where
  "steady_report =
     \<lparr>rep_username = ''u'', rep_portfolio_score = 253 / 10,
      rep_dimension_scores = a_dimension_scores steady_artifacts, rep_ai_analysis = PNone,
      rep_repositories = [PDict [(''name'', PStr ''demo''), (''stars'', PInt 2), (''forks'', PInt 0),
        (''doc_score'', PInt 20)]]\<rparr>"

text \<open>
  The profile of theory \<open>Dashboard\<close> as a service: the animation is not found, the
  README of the first repository is there and that of the second is not, the commit
  statistics of the second are not answered.
\<close>

definition octo :: env where
  "octo = (offline (PStr ''t''))
     \<lparr>http := (\<lambda>i url.
        if i = 0 then Some (Response 404 None)
        else if i = 1 then Some (Response 200 (Some octo_user))
        else if i = 2 then Some (Response 200 (Some (PList [PDict hello_raw, PDict notes_raw])))
        else if i = 3 then Some (Response 200 (Some (PList [])))
        else if i = 4 then Some (Response 200 (Some (PDict [(''content'', PStr ''SGk='')])))
        else if i = 5 then Some (Response 200 (Some (PDict [(''C'', PInt 10), (''Shell'', PInt 2)])))
        else if i = 6 then Some (Response 202 (Some (PDict [])))
        else if i = 7 then Some (Response 404 None)
        else if i = 8 then Some (Response 200 (Some (PDict [(''C'', PInt 4)])))
        else if i = 9 then None
        else Some (Response 200 (Some (PList [])))),
      b64_utf8 := (\<lambda>v. if v = PStr ''SGk='' then Inr ''Hi'' else Inl ValueError)\<rparr>"

text \<open>The same service with a model whose answer parses to \<open>v\<close>.\<close>

definition octo_ai :: "pyval \<Rightarrow> env" where
  "octo_ai v = octo
     \<lparr>gemini_key := PStr ''key'', list_models := demo_models,
      generative_model := (\<lambda>name. Inr (\<lambda>p. Inr ''{}'')), json_loads := (\<lambda>s. Inr v)\<rparr>"

definition octo_requests :: "string list" where
  "octo_requests = [lottie_url, user_url ''octocat'', repos_url ''octocat'' 1, repos_url ''octocat'' 2,
     readme_url (PStr ''octocat/hello''), ''LH'', commit_activity_url (PStr ''octocat/hello''),
     readme_url (PStr ''octocat/notes''), ''LN'', commit_activity_url (PStr ''octocat/notes''),
     orgs_url ''octocat'']"

text \<open>
  What the page and the scores ask of a repository as the API sends it, \<open>kvs\<close>, and of the
  answer \<open>l\<close> to its languages request: the fields the page subscripts are present, the
  name is a string, \<open>created_at\<close> can be sliced, the languages are a dictionary, and the
  star and fork counts are integers that are not negative.
\<close>

definition api_repo :: "pydict \<Rightarrow> pyval \<Rightarrow> bool" where
  "api_repo kvs l \<longleftrightarrow>
     has_keys kvs [''name'', ''stargazers_count'', ''forks_count'', ''open_issues_count'', ''size'',
       ''created_at'', ''pushed_at''] \<and>
     is_str (dict_get kvs ''name'' PNone) \<and> sliceable (dict_get kvs ''created_at'' PNone) \<and>
     is_dict l \<and>
     list_all (\<lambda>k. field_ok is_int kvs k \<and> 0 \<le> int_field kvs k) [''stargazers_count'', ''forks_count'']"

text \<open>
  A service behind which the page of \<open>u\<close> can be drawn: it answers the fetch with such
  repositories, the first page has one, the profile has the two counts of the metrics,
  and the request for the animation is answered.
\<close>

definition profile_served :: "env \<Rightarrow> string \<Rightarrow> bool" where
  "profile_served E u \<longleftrightarrow>
     well_served E u api_repo \<and> first_page E u \<noteq> [] \<and>
     (\<exists>r user. answers E (user_url u) r \<and> json_body r = Some (PDict user) \<and>
        has_keys user [''public_repos'', ''followers'']) \<and>
     (\<exists>r. answers E lottie_url r \<and> (status_code r = 200 \<longrightarrow> json_body r \<noteq> None))"

text \<open>A service that answers by URL, with the profile of \<open>octo\<close>.\<close>

definition portal :: env where
  "portal = (offline (PStr ''t''))
     \<lparr>http := (\<lambda>i url.
        if url = user_url ''octocat'' then Some (Response 200 (Some octo_user))
        else if url = repos_url ''octocat'' 1 then
          Some (Response 200 (Some (PList [PDict hello_raw, PDict notes_raw])))
        else if url = ''LH'' then Some (Response 200 (Some (PDict [(''C'', PInt 10), (''Shell'', PInt 2)])))
        else if url = ''LN'' then Some (Response 200 (Some (PDict [(''C'', PInt 4)])))
        else Some (Response 404 None))\<rparr>"

section \<open>From the fetch to the portfolio score\<close>

lemma enriched_wf_scored:
  assumes "enriched_from raw r" "counts_ok r"
  shows "wf_scored r"
proof -
  obtain kvs e where r: "r = PDict (enrich e kvs)" and ok: "enrichment_ok e"
    using assms(1) by (auto simp: enriched_from_def)
  show ?thesis
    using assms(2) ok
    by (simp add: r wf_scored_def wt_scored_def scored_of_def in_range_def counts_ok_def field_ok_def
        int_field_def enrich_scores enrichment_ok_def)
qed

text \<open>
  C1: whatever the GitHub API answers, when \<open>get_enhanced_github_data\<close> returns a bundle
  with at least one repository, and the languages and the star and fork counts of its
  repositories have the expected types, \<open>calculate_portfolio_score\<close> succeeds on it with
  a score in 0..85 and six dimensions in 0..100: the three scores written by enrichment are
  always in range.
\<close>

theorem fetched_portfolio_bounds:
  assumes "get_enhanced_github_data E u w = (Inr (PDict kvs), w')"
    and "map_of kvs ''repos'' = Some (PList rs)" and "rs \<noteq> []" and "list_all counts_ok rs"
  shows "\<exists>final dims. calculate_portfolio_score (PDict kvs) = Inr (final, dims) \<and>
    0 \<le> final \<and> final \<le> 85 \<and> map fst dims = dimension_names \<and>
    list_all (\<lambda>v. 0 \<le> v \<and> v \<le> 100) (map snd dims)"
  using assms(1)
proof (rule fetch_succeeds)
  fix user raws repos orgs
  assume "kvs = [(''user'', user), (''repos'', PList repos), (''orgs'', orgs)]"
    and enriched: "list_all2 enriched_from raws repos"
  with assms(2) have "repos = rs" by simp
  with enriched assms(4) have "list_all wf_scored rs"
    by (auto intro: list_all2_list_all enriched_wf_scored)
  then show ?thesis by (rule portfolio_score_bounds [OF assms(2,3)])
qed

theorem fetched_portfolio_bounds_witness:
  "\<exists>final dims. calculate_portfolio_score
      (PDict [(''user'', PDict [(''login'', PStr ''u'')]), (''repos'', PList [steady_repo]),
        (''orgs'', PList [])]) = Inr (final, dims) \<and>
    0 \<le> final \<and> final \<le> 85 \<and> map fst dims = dimension_names \<and>
    list_all (\<lambda>v. 0 \<le> v \<and> v \<le> 100) (map snd dims)"
  by (rule fetched_portfolio_bounds [OF steady_fetch, of "[steady_repo]"])
     (simp_all add: counts_ok_def steady_repo_def field_ok_def int_field_def enrich_def set_fields_def
        enrichment_fields_def)

section \<open>What reaches the dashboard\<close>

text \<open>
  C15: when \<open>run\<close> hands artifacts to the dashboard, the button was pressed, the username
  is not empty, the bundle is a dictionary, the score and the recommendations are those of
  the bundle, there is at least one dimension and at most five recommendations, and the
  success message is the last one shown.
\<close>

theorem run_artifacts:
  assumes "run E analyze_btn username w = (Inr (Some a), w')"
  shows "analyze_btn \<and> username \<noteq> [] \<and> is_dict (a_data a) \<and>
    calculate_portfolio_score (a_data a) = Inr (a_portfolio_score a, a_dimension_scores a) \<and>
    get_actionable_recommendations (a_data a) (a_dimension_scores a) = Inr (a_recommendations a) \<and>
    a_dimension_scores a \<noteq> [] \<and> length (a_recommendations a) \<le> 5 \<and>
    last (shown w') = AnalysisComplete username"
proof -
  from assms obtain lottie w1 where btn: analyze_btn
    and an: "analyze E username lottie w1 = (Inr (Some a), w')"
    by (auto simp: run_def elim!: io_then_InrE split: if_splits)
  then have name: "username \<noteq> []"
    by (auto simp: analyze_def st_show_def)
  from an name obtain data w2 w3 where fetch: "get_enhanced_github_data E username w2 = (Inr data, w3)"
    and build: "build_artifacts E username data w3 = (Inr (Some a), w')"
    and data: "data \<noteq> PStr ''ERROR''" "data \<noteq> PStr ''NO_TOKEN''"
    by (auto simp: analyze_def st_show_def elim!: io_then_InrE split: if_splits)
  have "is_dict data"
    using fetch_outcome [of E username w2] fetch data by auto
  moreover from build obtain w4 where "a_data a = data"
    "calculate_portfolio_score data = Inr (a_portfolio_score a, a_dimension_scores a)"
    "get_actionable_recommendations data (a_dimension_scores a) = Inr (a_recommendations a)"
    "w' = w4\<lparr>shown := shown w4 @ [AnalysisComplete username]\<rparr>"
    by (auto elim!: build_artifacts_Inr)
  moreover from this have "length (a_recommendations a) \<le> 5"
    by (auto simp: recommendations_first_five)
  moreover from calculation have "a_dimension_scores a \<noteq> []"
    by (auto simp: get_actionable_recommendations_def all_recommendations_def dim_lookup_def)
  ultimately show ?thesis using btn name by simp
qed

section \<open>A complete run\<close>

lemma steady_scores:
  "calculate_portfolio_score (a_data steady_artifacts) =
     Inr (a_portfolio_score steady_artifacts, a_dimension_scores steady_artifacts)"
  by (simp add: steady_artifacts_def steady_repo_def enrich_def set_fields_def enrichment_fields_def
      portfolio_defs py_round1_def round_half_even_def)

lemma steady_recommendations:
  "get_actionable_recommendations (a_data steady_artifacts) (a_dimension_scores steady_artifacts) =
     Inr (a_recommendations steady_artifacts)"
  by (simp add: steady_artifacts_def steady_repo_def enrich_def set_fields_def enrichment_fields_def
      recommend_defs)

lemma steady_page_fetch:
  "get_enhanced_github_data steady_page ''u'' (world0\<lparr>requests := [lottie_url]\<rparr>) =
     (Inr (a_data steady_artifacts),
      world0\<lparr>requests := [lottie_url, user_url ''u'', repos_url ''u'' 1, repos_url ''u'' 2,
        readme_url (PStr ''u/demo''), ''L'', commit_activity_url (PStr ''u/demo''), orgs_url ''u'']\<rparr>)"
  by (simp add: fetch_pages.simps fetch_defs steady_page_def steady_def offline_def world0_def
      raw_repo_def steady_artifacts_def steady_repo_def enrich_def set_fields_def
      enrichment_fields_def noon_def score_defs strptime_def re_defs date_defs
      upt_rec [of _ "numeral _"] str_defs)

lemma steady_run:
  "run steady_page True ''u'' world0 =
     (Inr (Some steady_artifacts),
      world0\<lparr>requests := [lottie_url, user_url ''u'', repos_url ''u'' 1, repos_url ''u'' 2,
        readme_url (PStr ''u/demo''), ''L'', commit_activity_url (PStr ''u/demo''), orgs_url ''u''],
        shown := [AnalysisComplete ''u'']\<rparr>)"
proof -
  have "load_lottieurl steady_page lottie_url world0 = (Inr PNone, world0\<lparr>requests := [lottie_url]\<rparr>)"
    by (simp add: load_lottieurl_cases steady_page_def world0_def)
  moreover have "a_data steady_artifacts \<noteq> PStr ''ERROR''" "a_data steady_artifacts \<noteq> PStr ''NO_TOKEN''"
    by (simp_all add: steady_artifacts_def)
  moreover have "get_working_model steady_page = PNone"
    by (simp add: get_working_model_def steady_page_def steady_def offline_def)
  ultimately show ?thesis
    using steady_page_fetch steady_scores steady_recommendations
    by (simp add: run_def analyze_def build_artifacts_def analyze_with_ai_def st_show_def world0_def
        steady_artifacts_def)
qed

theorem run_artifacts_witness:
  "is_dict (a_data steady_artifacts) \<and>
   calculate_portfolio_score (a_data steady_artifacts) =
     Inr (a_portfolio_score steady_artifacts, a_dimension_scores steady_artifacts) \<and>
   get_actionable_recommendations (a_data steady_artifacts) (a_dimension_scores steady_artifacts) =
     Inr (a_recommendations steady_artifacts) \<and>
   a_dimension_scores steady_artifacts \<noteq> [] \<and> length (a_recommendations steady_artifacts) \<le> 5"
  using run_artifacts [OF steady_run] by simp

lemma steady_export: "export_report ''u'' steady_artifacts = Inr steady_report"
  by (simp add: export_report_def report_row_def steady_artifacts_def steady_report_def
      steady_repo_def enrich_def set_fields_def enrichment_fields_def)

theorem export_report_rows_witness:
  "length (rep_repositories steady_report) \<le> 10 \<and> rep_username steady_report = ''u'' \<and>
   rep_portfolio_score steady_report = a_portfolio_score steady_artifacts \<and>
   rep_ai_analysis steady_report = a_ai_result steady_artifacts"
  by (rule export_report_rows [OF steady_export])

section \<open>A profile with two repositories, fetched and drawn\<close>

lemma octo_fetch:
  assumes "http E = http octo" "b64_utf8 E = b64_utf8 octo" "github_token E = PStr ''t''"
    "clock E = noon"
  shows "get_enhanced_github_data E ''octocat'' (world0\<lparr>requests := [lottie_url]\<rparr>) =
     (Inr octo_data, world0\<lparr>requests := octo_requests\<rparr>)"
  using assms
  by (simp add: fetch_pages.simps fetch_defs octo_def offline_def world0_def octo_defs octo_requests_def
      noon_def score_defs strptime_def re_defs date_defs upt_rec [of _ "numeral _"] str_defs)

lemma octo_scores:
  "calculate_portfolio_score octo_data =
     Inr (a_portfolio_score octo_artifacts, a_dimension_scores octo_artifacts)"
  by (simp add: octo_defs portfolio_defs py_round1_def round_half_even_def)

lemma octo_recommendations:
  "get_actionable_recommendations octo_data (a_dimension_scores octo_artifacts) =
     Inr (a_recommendations octo_artifacts)"
  by (simp add: octo_defs recommend_defs)

lemma octo_lottie:
  "http E = http octo \<Longrightarrow>
     load_lottieurl E lottie_url world0 = (Inr PNone, world0\<lparr>requests := [lottie_url]\<rparr>)"
  by (simp add: load_lottieurl_cases octo_def world0_def)

lemma octo_run:
  "run octo True ''octocat'' world0 =
     (Inr (Some octo_artifacts), world0\<lparr>requests := octo_requests, shown := [AnalysisComplete ''octocat'']\<rparr>)"
proof -
  have "get_working_model octo = PNone"
    by (simp add: get_working_model_def octo_def offline_def)
  moreover have "octo_data \<noteq> PStr ''ERROR''" "octo_data \<noteq> PStr ''NO_TOKEN''"
    by (simp_all add: octo_data_def)
  ultimately show ?thesis
    using octo_lottie [of octo] octo_fetch [of octo] octo_scores octo_recommendations
    by (simp add: run_def analyze_def build_artifacts_def analyze_with_ai_def st_show_def world0_def
        octo_artifacts_def octo_def offline_def)
qed

lemma octo_prompt:
  "\<exists>summary ls p. repo_summary octo_data = Inr summary \<and> langs (octo_ai v) octo_data = Inr ls \<and>
     prompt octo_data summary ls = Inr p"
  by (simp add: assess_defs octo_defs octo_ai_def octo_def offline_def text_defs)

lemma octo_ai_run:
  "\<exists>w'. run (octo_ai v) True ''octocat'' world0 = (Inr (Some (octo_artifacts\<lparr>a_ai_result := v\<rparr>)), w')"
proof -
  let ?w = "world0\<lparr>requests := octo_requests\<rparr>"
  obtain summary ls p where "repo_summary octo_data = Inr summary"
    "langs (octo_ai v) octo_data = Inr ls" "prompt octo_data summary ls = Inr p"
    using octo_prompt by blast
  then have "analyze_with_ai (octo_ai v) octo_data (get_working_model (octo_ai v)) ?w =
      (Inr v, ?w\<lparr>prompts := prompts ?w @ [p]\<rparr>)"
    by (subst analyze_with_ai_called [where model = "\<lambda>p. Inr ''{}''"])
      (simp_all add: get_working_model_def octo_ai_def demo_models_def text_defs)
  moreover have "octo_data \<noteq> PStr ''ERROR''" "octo_data \<noteq> PStr ''NO_TOKEN''"
    by (simp_all add: octo_data_def)
  ultimately show ?thesis
    using octo_lottie [of "octo_ai v"] octo_fetch [of "octo_ai v"] octo_scores octo_recommendations
    by (simp add: run_def analyze_def build_artifacts_def st_show_def octo_artifacts_def octo_ai_def
        octo_def offline_def)
qed

section \<open>From the run to the page\<close>

lemma run_fetched:
  assumes "run E analyze_btn username w = (Inr (Some a), w')"
  obtains w1 w2 where "get_enhanced_github_data E username w1 = (Inr (a_data a), w2)"
proof -
  from assms obtain lottie w1 where "analyze E username lottie w1 = (Inr (Some a), w')"
    by (auto simp: run_def elim!: io_then_InrE split: if_splits)
  then obtain data w2 w3 where "get_enhanced_github_data E username w2 = (Inr data, w3)"
    "build_artifacts E username data w3 = (Inr (Some a), w')"
    by (auto simp: analyze_def st_show_def elim!: io_then_InrE split: if_splits)
  then show thesis using that by (auto elim!: build_artifacts_Inr)
qed

lemma fetched_presentable:
  assumes "get_enhanced_github_data E u w = (Inr data, w')" "github_shaped data"
  shows "presentable data"
proof -
  from assms(2) obtain kvs where data: "data = PDict kvs"
    unfolding github_shaped_def by (rule shapedE)
  from assms(1) [unfolded data] have "fetched_fields r"
    if "map_of kvs ''repos'' = Some (PList repos)" "PDict r \<in> set repos" for repos r
  proof (rule fetch_succeeds)
    fix user raws repos' orgs
    assume "kvs = [(''user'', user), (''repos'', PList repos'), (''orgs'', orgs)]"
      "list_all2 enriched_from raws repos'"
    with that obtain raw where "enriched_from raw (PDict r)"
      by (auto simp: in_set_conv_nth list_all2_conv_all_nth)
    then show ?thesis by (auto elim: enriched_fetched_fields)
  qed
  with assms(2) show ?thesis
    unfolding github_shaped_def presentable_def by (auto intro: shaped_mono simp: data)
qed

text \<open>
  C14: when a run hands artifacts to the dashboard, the assessment is absent or falsy, and
  the user and the repositories of the bundle have the fields the GitHub API sends, the
  page is drawn to its end without an exception, whichever repository is selected: the
  fields the fetch adds are there, and every \<open>pushed_at\<close> parses, because the fetch would
  have failed otherwise.
\<close>

theorem fetched_page_completes:
  assumes "run E analyze_btn username w = (Inr (Some a), w')"
    and "github_shaped (a_data a)" "\<not> truthy (a_ai_result a)"
  shows "completes (dashboard a c)"
  using assms(1)
proof (rule run_fetched)
  fix w1 w2 assume "get_enhanced_github_data E username w1 = (Inr (a_data a), w2)"
  then have "presentable (a_data a)" using assms(2) by (rule fetched_presentable)
  then show ?thesis using assms(3) by (rule dashboard_completes)
qed

theorem fetched_page_completes_witness: "completes (dashboard octo_artifacts 1)"
  using fetched_page_completes [OF octo_run, of 1]
  by (simp add: shape_defs octo_defs)

section \<open>An assessment that is not validated reaches the page\<close>

lemma top_metrics_four:
  assumes "top_metrics a = (ws, None)" "\<not> truthy (a_ai_result a)"
  shows "length ws = 4"
proof -
  obtain n stars f where "user_field (a_data a) ''public_repos'' = Inr n"
    "rbind (repos_of (a_data a)) (sum_field ''stargazers_count'') = Inr stars"
    "user_field (a_data a) ''followers'' = Inr f"
    using assms
    by (cases "user_field (a_data a) ''public_repos''";
        cases "rbind (repos_of (a_data a)) (sum_field ''stargazers_count'')";
        cases "user_field (a_data a) ''followers''")
      (auto simp: top_metrics_def)
  then show ?thesis using assms by (auto simp: top_metrics_def)
qed

text \<open>
  C3: \<open>analyze_with_ai\<close> returns what the model's answer parses to, and the page
  subscripts it: when that value is truthy and has no \<open>verdict\<close> (an object with other
  keys, a list, a number), the script stops with the exception of the subscript after the
  four metrics of the bundle, with no tab drawn, although the fetch and the scores
  succeeded.
\<close>

theorem page_stops_at_verdict:
  assumes "run E (ui_analyze i) (username_of i) w = (Inr (Some a), w')"
    and "github_shaped (a_data a)" "truthy (a_ai_result a)"
    and "py_index (a_ai_result a) ''verdict'' = Inl e"
  shows "\<exists>ws. script E i w = (\<lparr>p_widgets = ws, p_exception = Some e, p_download = None\<rparr>, w') \<and>
    length ws = 4"
proof -
  let ?a = "a\<lparr>a_ai_result := PNone\<rparr>"
  have "presentable (a_data ?a)"
    using assms(1,2) by (auto elim!: run_fetched intro: fetched_presentable)
  then have "completes (top_metrics ?a)" by (rule top_metrics_completes) simp
  then obtain ws where ws: "top_metrics ?a = (ws, None)"
    by (cases "top_metrics ?a") (auto simp: completes_def)
  then have "dashboard a (ui_choice i) = (ws, Some e)"
    using assms(3,4) by (intro dashboard_missing_verdict)
  moreover have "length ws = 4" using ws by (rule top_metrics_four) simp
  ultimately show ?thesis using assms(1) by (simp add: script_def)
qed

theorem page_stops_at_verdict_witness:
  "p_exception (fst (script (octo_ai (PDict [(''score'', PInt 50)])) pressed_analyze world0)) =
     Some (KeyError ''verdict'') \<and>
   length (p_widgets (fst (script (octo_ai (PDict [(''score'', PInt 50)])) pressed_analyze world0))) = 4"
proof -
  let ?E = "octo_ai (PDict [(''score'', PInt 50)])"
  obtain w' where "run ?E True ''octocat'' world0 =
      (Inr (Some (octo_artifacts\<lparr>a_ai_result := PDict [(''score'', PInt 50)]\<rparr>)), w')"
    using octo_ai_run by blast
  then have "run ?E (ui_analyze pressed_analyze) (username_of pressed_analyze) world0 =
      (Inr (Some (octo_artifacts\<lparr>a_ai_result := PDict [(''score'', PInt 50)]\<rparr>)), w')"
    by (simp add: pressed_analyze_def username_of_def)
  from page_stops_at_verdict [OF this, of "KeyError ''verdict''"] show ?thesis
    by (auto simp: shape_defs octo_defs)
qed

section \<open>From a service that answers to the page\<close>

text \<open>Enrichment keeps what the page reads and adds the rest.\<close>

lemma served_presentable:
  assumes "served_from api_repo raw repo"
  shows "presentable_repo repo \<and> wf_scored repo"
proof -
  from assms have en: "enriched_from raw repo" by (simp add: served_from_def)
  then obtain kvs e where raw: "raw = PDict kvs" and repo: "repo = PDict (enrich e kvs)"
    by (auto simp: enriched_from_def)
  with assms obtain l where l: "py_index repo ''languages'' = Inr l" "api_repo kvs l"
    by (auto simp: served_from_def)
  have same: "map_of (enrich e kvs) k = map_of kvs k"
    if "k \<in> {''name'', ''stargazers_count'', ''forks_count'', ''open_issues_count'', ''size'',
       ''created_at'', ''pushed_at''}" for k
    using that by (intro enrich_other) (auto simp: enrichment_keys_def)
  from l have lang: "map_of (enrich e kvs) ''languages'' = Some l" "is_dict l"
    by (auto simp: repo api_repo_def split: option.splits)
  have "github_fields (enrich e kvs)"
    using l(2) lang by (simp add: github_fields_def api_repo_def has_keys_def dict_get_def same)
  moreover from en obtain kvs' where "repo = PDict kvs'" "fetched_fields kvs'"
    by (rule enriched_fetched_fields)
  moreover have "counts_ok repo"
    using l(2) lang by (simp add: repo counts_ok_def api_repo_def field_ok_def int_field_def same)
  ultimately show ?thesis
    using en by (auto simp: presentable_repo_def repo intro: enriched_wf_scored)
qed

lemma repo_recommendations_succeeds:
  assumes "presentable_repo repo" "wt_scored repo"
  shows "succeeds (repo_recommendations repo)"
proof -
  from assms(1) obtain kvs name where repo: "repo = PDict kvs" "map_of kvs ''name'' = Some (PStr name)"
    by (rule presentable_repoE)
  with assms(2) have "field_ok is_int kvs ''doc_score''" by (simp add: wt_scored_def)
  then obtain d where "py_num (dict_get kvs ''doc_score'' (PInt 0)) = Inr d"
    by (auto simp: read_int_field)
  then show ?thesis using repo by (simp add: repo_recommendations_def py_lt_def succeeds_iff)
qed


lemma recommendations_succeed:
  assumes "map_of kvs ''repos'' = Some (PList rs)" "map fst dims = dimension_names"
    and "list_all (\<lambda>r. presentable_repo r \<and> wf_scored r) rs"
  shows "succeeds (get_actionable_recommendations (PDict kvs) dims)"
proof -
  have "list_all (\<lambda>r. succeeds (repo_recommendations r)) rs"
    using assms(3) by (auto simp: list_all_iff wf_scored_def intro: repo_recommendations_succeeds)
  then obtain per_repo where "rmap repo_recommendations rs = Inr per_repo"
    using rmap_succeeds by blast
  moreover obtain d a where "dim_lookup dims ''Documentation Quality'' = Inr d"
    "dim_lookup dims ''Activity Consistency'' = Inr a"
    using dim_lookup_succeeds [OF assms(2), of "''Documentation Quality''"]
      dim_lookup_succeeds [OF assms(2), of "''Activity Consistency''"]
    by (auto simp: succeeds_iff dimension_names_def)
  ultimately show ?thesis
    using assms(1)
    by (simp add: get_actionable_recommendations_def all_recommendations_def dict_get_def Let_def)
qed

text \<open>Without a model, a bundle of such repositories gives the artifacts, and the page
  announces them.\<close>

lemma build_artifacts_served:
  assumes "data = PDict [(''user'', user), (''repos'', PList rs), (''orgs'', orgs)]" "rs \<noteq> []"
    and "list_all (\<lambda>r. presentable_repo r \<and> wf_scored r) rs" "\<not> truthy (gemini_key E)"
  shows "\<exists>a. build_artifacts E u data w = (Inr (Some a), w\<lparr>shown := shown w @ [AnalysisComplete u]\<rparr>) \<and>
    a_data a = data \<and> a_ai_result a = PNone"
proof -
  have repos: "map_of [(''user'', user), (''repos'', PList rs), (''orgs'', orgs)] ''repos'' = Some (PList rs)"
    by simp
  from assms(3) have "list_all wf_scored rs" by (simp add: list_all_iff)
  with repos assms(2) obtain final dims where
    score: "calculate_portfolio_score data = Inr (final, dims)" "map fst dims = dimension_names"
    unfolding assms(1) by (blast dest: portfolio_score_bounds)
  obtain recs where "get_actionable_recommendations data dims = Inr recs"
    using recommendations_succeed [OF repos score(2) assms(3)] by (auto simp: succeeds_iff assms(1))
  with score assms(4) show ?thesis
    by (simp add: build_artifacts_def analyze_with_ai_def get_working_model_def st_show_def)
qed


lemma fetch_profile:
  assumes "profile_served E u"
  obtains user repos orgs w' where
    "get_enhanced_github_data E u w =
       (Inr (PDict [(''user'', PDict user), (''repos'', PList repos), (''orgs'', orgs)]), w')"
    "has_keys user [''public_repos'', ''followers'']" "repos \<noteq> []"
    "list_all (\<lambda>r. presentable_repo r \<and> wf_scored r) repos"
proof -
  from assms have served: "well_served E u api_repo" and first: "first_page E u \<noteq> []"
    by (simp_all add: profile_served_def)
  from assms obtain r user where user: "answers E (user_url u) r" "json_body r = Some (PDict user)"
    "has_keys user [''public_repos'', ''followers'']"
    by (auto simp: profile_served_def)
  from served obtain user' raws repos orgs more w' where fetch:
    "get_enhanced_github_data E u w =
       (Inr (PDict [(''user'', user'), (''repos'', PList repos), (''orgs'', orgs)]), w')"
    and repos: "list_all2 (served_from api_repo) raws repos" "raws = first_page E u @ more"
    and "\<exists>r. answers E (user_url u) r \<and> json_body r = Some user'"
    by (rule fetch_served [where w = w])
  with user have "user' = PDict user" by (auto dest!: answersD [where i = 0])
  moreover from repos first have "repos \<noteq> []" by (auto simp: list_all2_conv_all_nth)
  moreover from repos(1) have "\<forall>r\<in>set repos. \<exists>raw. served_from api_repo raw r"
    by (metis in_set_conv_nth list_all2_conv_all_nth)
  then have "list_all (\<lambda>r. presentable_repo r \<and> wf_scored r) repos"
    by (auto simp: list_all_iff dest: served_presentable)
  ultimately show thesis using fetch user(3) that by blast
qed

lemma analyze_served:
  assumes "profile_served E u" "\<not> truthy (gemini_key E)" "u \<noteq> []"
  shows "\<exists>a w'. analyze E u lottie w = (Inr (Some a), w') \<and> presentable (a_data a) \<and>
    a_ai_result a = PNone \<and> last (shown w') = AnalysisComplete u"
proof -
  define w1 where "w1 = (if truthy lottie then w\<lparr>shown := shown w @ [Scanning]\<rparr> else w)"
  from assms(1) obtain user repos orgs w2 where
    fetch: "get_enhanced_github_data E u w1 =
       (Inr (PDict [(''user'', PDict user), (''repos'', PList repos), (''orgs'', orgs)]), w2)"
    and shape: "has_keys user [''public_repos'', ''followers'']" "repos \<noteq> []"
      "list_all (\<lambda>r. presentable_repo r \<and> wf_scored r) repos"
    by (rule fetch_profile)
  let ?data = "PDict [(''user'', PDict user), (''repos'', PList repos), (''orgs'', orgs)]"
  from shape(2,3) assms(2) obtain a where
    a: "build_artifacts E u ?data w2 = (Inr (Some a), w2\<lparr>shown := shown w2 @ [AnalysisComplete u]\<rparr>)"
      "a_data a = ?data" "a_ai_result a = PNone"
    using build_artifacts_served [where data = ?data and E = E and u = u and w = w2, OF refl]
    by blast
  have "presentable ?data"
    using shape by (auto simp: presentable_def shaped_def presentable_repo_def list_all_iff)
  moreover have "analyze E u lottie w = (Inr (Some a), w2\<lparr>shown := shown w2 @ [AnalysisComplete u]\<rparr>)"
    using assms(3) fetch a(1) by (cases "truthy lottie") (simp_all add: analyze_def st_show_def w1_def)
  ultimately show ?thesis using a by simp
qed

text \<open>
  C4: progress of the whole script. Behind a service that answers the profile, the pages,
  the languages and the animation, with no model key, one press of the analyse button
  with a username in the field makes the script fetch, score, recommend and draw the
  dashboard to its end: no exception and no sentinel, at least one widget, no download,
  and the success message is the last one shown. Nothing is asked of the README and the
  commit statistics.
\<close>

theorem script_draws_dashboard:
  assumes "profile_served E (ui_username i)" "\<not> truthy (gemini_key E)"
    and "ui_analyze i" "one_press i" "ui_username i \<noteq> []"
  shows "\<exists>ws w'. script E i w = (\<lparr>p_widgets = ws, p_exception = None, p_download = None\<rparr>, w') \<and>
    ws \<noteq> [] \<and> last (shown w') = AnalysisComplete (ui_username i)"
proof -
  let ?u = "ui_username i"
  from assms(3,4) have ui: "username_of i = ?u" "\<not> ui_export i"
    by (auto simp: one_press_def username_of_def split: if_splits)
  from assms(1) obtain r where "answers E lottie_url r" "status_code r = 200 \<Longrightarrow> json_body r \<noteq> None"
    by (auto simp: profile_served_def)
  then obtain lottie where
    "load_lottieurl E lottie_url w = (Inr lottie, w\<lparr>requests := requests w @ [lottie_url]\<rparr>)"
    by (cases "status_code r = 200") (auto simp: load_lottieurl_cases answersD response_json_def)
  moreover obtain a w' where
    a: "analyze E ?u lottie (w\<lparr>requests := requests w @ [lottie_url]\<rparr>) = (Inr (Some a), w')"
      "presentable (a_data a)" "a_ai_result a = PNone" "last (shown w') = AnalysisComplete ?u"
    using analyze_served [OF assms(1,2,5)] by blast
  ultimately have "run E (ui_analyze i) (username_of i) w = (Inr (Some a), w')"
    using assms(3) ui by (simp add: run_def)
  moreover from a have "completes (dashboard a (ui_choice i))" by (intro dashboard_completes) simp_all
  then obtain ws where "dashboard a (ui_choice i) = (ws, None)"
    by (cases "dashboard a (ui_choice i)") (auto simp: completes_def)
  moreover from this have "ws \<noteq> []" using dashboard_shows [of a "ui_choice i"] by simp
  ultimately show ?thesis using ui a(4) by (simp add: script_def export_button_def)
qed


lemma portal_answers:
  "answers portal (user_url ''octocat'') (Response 200 (Some octo_user))"
  "answers portal (repos_url ''octocat'' 1) (Response 200 (Some (PList [PDict hello_raw, PDict notes_raw])))"
  "answers portal ''LH'' (Response 200 (Some (PDict [(''C'', PInt 10), (''Shell'', PInt 2)])))"
  "answers portal ''LN'' (Response 200 (Some (PDict [(''C'', PInt 4)])))"
  "answers portal (orgs_url ''octocat'') (Response 404 None)"
  "answers portal lottie_url (Response 404 None)"
  "repos_url ''octocat'' page \<noteq> repos_url ''octocat'' 1 \<Longrightarrow>
     answers portal (repos_url ''octocat'' page) (Response 404 None)"
  by (simp_all add: answers_def portal_def fetch_defs lottie_url_def)

lemma portal_enrichable:
  "enrichable portal api_repo (PDict hello_raw)" "enrichable portal api_repo (PDict notes_raw)"
proof -
  have "languages_of (Response 200 (Some l)) = Inr l" for l
    by (simp add: languages_of_def response_json_def)
  moreover have "scorable hello_raw" "scorable notes_raw"
    by (simp_all add: octo_defs scorable_def strptime_def re_defs date_defs)
  moreover have "api_repo hello_raw (PDict [(''C'', PInt 10), (''Shell'', PInt 2)])"
    "api_repo notes_raw (PDict [(''C'', PInt 4)])"
    by (simp_all add: api_repo_def octo_defs has_keys_def dict_get_def field_ok_def int_field_def)
  moreover have "map_of hello_raw ''full_name'' = Some (PStr ''octocat/hello'')"
    "map_of hello_raw ''languages_url'' = Some (PStr ''LH'')"
    "map_of notes_raw ''full_name'' = Some (PStr ''octocat/notes'')"
    "map_of notes_raw ''languages_url'' = Some (PStr ''LN'')"
    by (simp_all add: octo_defs)
  ultimately show "enrichable portal api_repo (PDict hello_raw)"
    "enrichable portal api_repo (PDict notes_raw)"
    unfolding enrichable_def using portal_answers(3,4) by force+
qed


lemma portal_served: "profile_served portal ''octocat''"
proof -
  have "\<exists>r. answers portal (repos_url ''octocat'' page) r \<and>
      (status_code r = 200 \<longrightarrow> (\<exists>body. json_body r = Some body \<and>
        (truthy body \<longrightarrow> (\<exists>items. body = PList items \<and>
          list_all (enrichable portal api_repo) items))))" for page
  proof (cases "repos_url ''octocat'' page = repos_url ''octocat'' 1")
    case True
    then show ?thesis
      using portal_answers(2)
      by (intro exI [of _ "Response 200 (Some (PList [PDict hello_raw, PDict notes_raw]))"])
        (simp add: portal_enrichable)
  next
    case False
    then show ?thesis using portal_answers(7) by (intro exI [of _ "Response 404 None"]) simp
  qed
  then have "serves_pages portal ''octocat'' api_repo" by (simp add: serves_pages_def)
  then have "well_served portal ''octocat'' api_repo"
    unfolding well_served_def using portal_answers(1,5)
    by (intro conjI exI [of _ "Response 404 None"] exI [of _ "Response 200 (Some octo_user)"])
      (simp_all add: portal_def offline_def)
  moreover have "first_page portal ''octocat'' = [PDict hello_raw, PDict notes_raw]"
    using portal_answers(2) by (simp add: first_page_def answersD)
  moreover have "\<exists>user. json_body (Response 200 (Some octo_user)) = Some (PDict user) \<and>
      has_keys user [''public_repos'', ''followers'']"
    by (simp add: octo_user_def has_keys_def)
  ultimately show ?thesis
    unfolding profile_served_def using portal_answers(1,6)
    by (intro conjI exI [of _ "Response 404 None"] exI [of _ "Response 200 (Some octo_user)"]) simp_all
qed

theorem script_draws_dashboard_witness:
  "\<exists>ws w'. script portal pressed_analyze world0 =
      (\<lparr>p_widgets = ws, p_exception = None, p_download = None\<rparr>, w') \<and>
    ws \<noteq> [] \<and> last (shown w') = AnalysisComplete ''octocat''"
  using script_draws_dashboard [of portal pressed_analyze world0] portal_served
  by (simp add: pressed_analyze_def one_press_def portal_def offline_def)

end
